theory Spec2Isabelle
  imports Complex_Main "HOL-Library.Char_ord" "HOL-Library.List_Lexorder" "HOL-Library.Log_Nat"
begin

section \<open>Values, tokens and the library environment\<close>

subsection \<open>Binary floating point\<close>

text \<open>
  A C++ \<open>double\<close> is an IEEE 754 binary64 number. A finite number other than the negative
  zero is carried as the real number it stands for (\<open>Finite 0\<close> is the positive zero); the
  negative zero, the two infinities and NaN are constructors of their own. The sign and the
  payload of a NaN are not told apart.
\<close>

datatype double = Finite real | NegZero | PosInf | NegInf | NaN

fun isnan :: "double \<Rightarrow> bool" where
  "isnan NaN = True"
| "isnan x = False"

fun isinf :: "double \<Rightarrow> bool" where
  "isinf PosInf = True"
| "isinf NegInf = True"
| "isinf x = False"

fun isfinite :: "double \<Rightarrow> bool" where
  "isfinite (Finite x) = True"
| "isfinite NegZero = True"
| "isfinite x = False"

fun iszero :: "double \<Rightarrow> bool" where
  "iszero (Finite x) = (x = 0)"
| "iszero NegZero = True"
| "iszero x = False"

fun signbit :: "double \<Rightarrow> bool" where
  "signbit (Finite x) = (x < 0)"
| "signbit NegZero = True"
| "signbit NegInf = True"
| "signbit x = False"

fun valueOf :: "double \<Rightarrow> real" where
  "valueOf (Finite x) = x"
| "valueOf x = 0"

definition signedZero :: "bool \<Rightarrow> double" where
  "signedZero negative = (if negative then NegZero else Finite 0)"

definition signedInf :: "bool \<Rightarrow> double" where
  "signedInf negative = (if negative then NegInf else PosInf)"

text \<open>
  Rounding of a real number to binary64, to nearest with ties to even, the rounding of
  the arithmetic instructions that the compiled code runs. \<open>ilog2 x\<close> is the exponent of
  the leading bit of \<open>x\<close>, the integer \<open>e\<close> with \<open>2 ^ e <= |x| < 2 ^ (e + 1)\<close>, computed
  from the number of bits of an integer. The unit in the last place of \<open>x\<close> is \<open>2\<close> to the
  power \<open>ulpExp x\<close>: 52 binary places below the leading bit of \<open>x\<close>, and \<open>2 ^ -1074\<close> for a
  subnormal \<open>x\<close>. \<open>roundEven\<close> takes the multiple of the unit to the nearest integer. A
  result of magnitude \<open>2 ^ 1024\<close> is out of range and becomes an infinity; a number that
  rounds to zero keeps its sign.
\<close>

definition ilog2 :: "real \<Rightarrow> int" where
  "ilog2 x = (if 1 \<le> \<bar>x\<bar> then bitlen \<lfloor>\<bar>x\<bar>\<rfloor> - 1 else - bitlen (\<lceil>1 / \<bar>x\<bar>\<rceil> - 1))"

definition roundEven :: "real \<Rightarrow> int" where
  "roundEven m =
     (let f = \<lfloor>m\<rfloor>
      in if m - of_int f < 1 / 2 then f
         else if 1 / 2 < m - of_int f then f + 1
         else if even f then f else f + 1)"

definition ulpExp :: "real \<Rightarrow> int" where
  "ulpExp x = max (ilog2 x) (- 1022) - 52"

definition rnd :: "real \<Rightarrow> double" where
  "rnd x =
     (if x = 0 then Finite 0
      else
        let q = 2 powi ulpExp x;
            r = of_int (roundEven (x / q)) * q
        in if 2 ^ 1024 \<le> \<bar>r\<bar> then signedInf (x < 0)
           else if r = 0 then signedZero (x < 0)
           else Finite r)"

text \<open>
  The operators \<^verbatim>\<open>-x\<close>, \<^verbatim>\<open>+\<close>, \<^verbatim>\<open>-\<close>, \<^verbatim>\<open>*\<close> and \<^verbatim>\<open>/\<close> on \<open>double\<close>: the exact result,
  rounded, with the rules of IEEE 754 for zeros, infinities and NaN. The sum of two
  numbers that cancel is the positive zero.
\<close>

fun dneg :: "double \<Rightarrow> double" where
  "dneg (Finite x) = (if x = 0 then NegZero else Finite (- x))"
| "dneg NegZero = Finite 0"
| "dneg PosInf = NegInf"
| "dneg NegInf = PosInf"
| "dneg NaN = NaN"

definition dadd :: "double \<Rightarrow> double \<Rightarrow> double" where
  "dadd a b =
     (if isnan a \<or> isnan b then NaN
      else if isinf a \<and> isinf b then (if a = b then a else NaN)
      else if isinf a then a
      else if isinf b then b
      else if a = NegZero \<and> b = NegZero then NegZero
      else rnd (valueOf a + valueOf b))"

definition dsub :: "double \<Rightarrow> double \<Rightarrow> double" where
  "dsub a b = dadd a (dneg b)"

definition dmul :: "double \<Rightarrow> double \<Rightarrow> double" where
  "dmul a b =
     (if isnan a \<or> isnan b then NaN
      else if (isinf a \<and> iszero b) \<or> (iszero a \<and> isinf b) then NaN
      else if isinf a \<or> isinf b then signedInf (signbit a \<noteq> signbit b)
      else if iszero a \<or> iszero b then signedZero (signbit a \<noteq> signbit b)
      else rnd (valueOf a * valueOf b))"

definition ddiv :: "double \<Rightarrow> double \<Rightarrow> double" where
  "ddiv a b =
     (if isnan a \<or> isnan b then NaN
      else if (isinf a \<and> isinf b) \<or> (iszero a \<and> iszero b) then NaN
      else if isinf a \<or> iszero b then signedInf (signbit a \<noteq> signbit b)
      else if isinf b \<or> iszero a then signedZero (signbit a \<noteq> signbit b)
      else rnd (valueOf a / valueOf b))"

text \<open>
  \<^verbatim>\<open>std::fmod(x, y)\<close>: for finite \<open>x\<close> and finite \<open>y\<close> other than zero it is
  \<open>x - n * y\<close>, where \<open>n\<close> is \<open>x / y\<close> with its fractional part cut off; the result is a
  binary64 number and is not rounded, and a zero result has the sign of \<open>x\<close>.
\<close>

definition trunc :: "real \<Rightarrow> int" where
  "trunc x = (if 0 \<le> x then \<lfloor>x\<rfloor> else \<lceil>x\<rceil>)"

definition fmod :: "real \<Rightarrow> real \<Rightarrow> real" where
  "fmod x y = x - of_int (trunc (x / y)) * y"

definition dfmod :: "double \<Rightarrow> double \<Rightarrow> double" where
  "dfmod a b =
     (if isnan a \<or> isnan b \<or> isinf a \<or> iszero b then NaN
      else if isinf b then a
      else
        let r = fmod (valueOf a) (valueOf b)
        in if r = 0 then signedZero (signbit a) else Finite r)"

fun dabs :: "double \<Rightarrow> double" where
  "dabs (Finite x) = Finite \<bar>x\<bar>"
| "dabs NegZero = Finite 0"
| "dabs PosInf = PosInf"
| "dabs NegInf = PosInf"
| "dabs NaN = NaN"

text \<open>
  The comparisons \<^verbatim>\<open>==\<close> and \<^verbatim>\<open><\<close> on \<open>double\<close>: both are false when an operand is NaN,
  and the two zeros are equal. \<^verbatim>\<open>a > b\<close> is \<open>dless b a\<close>, and \<^verbatim>\<open>a <= b\<close> is \<open>dle a b\<close>.
\<close>

definition deq :: "double \<Rightarrow> double \<Rightarrow> bool" where
  "deq a b =
     (\<not> isnan a \<and> \<not> isnan b
      \<and> (if isinf a \<or> isinf b then a = b else valueOf a = valueOf b))"

definition dless :: "double \<Rightarrow> double \<Rightarrow> bool" where
  "dless a b =
     (\<not> isnan a \<and> \<not> isnan b \<and> a \<noteq> PosInf \<and> b \<noteq> NegInf
      \<and> (a = NegInf \<or> b = PosInf \<or> valueOf a < valueOf b))"

definition dle :: "double \<Rightarrow> double \<Rightarrow> bool" where
  "dle a b = (dless a b \<or> deq a b)"

text \<open>
  The conversions. \<^verbatim>\<open>static_cast<double>\<close> of an \<open>int\<close> is exact. A C++ \<open>int\<close> has 32
  bits and is carried as an \<open>int\<close> in that range; \<open>toInt32\<close> is the value that two's
  complement arithmetic leaves where the result of an \<open>int\<close> operation is out of range
  (undefined in C++, this is what the compiled code computes). \<^verbatim>\<open>static_cast<int>\<close> of a
  \<open>double\<close> cuts the fraction off; out of the range of \<open>int\<close>, and for a NaN, the conversion
  instruction gives the least \<open>int\<close>.
\<close>

definition INT_MAX :: int where "INT_MAX = 2147483647"
definition INT_MIN :: int where "INT_MIN = - 2147483648"

definition toInt32 :: "int \<Rightarrow> int" where
  "toInt32 i = ((i + 2147483648) mod 4294967296) - 2147483648"

definition ofInt :: "int \<Rightarrow> double" where
  "ofInt i = Finite (of_int i)"

fun doubleToInt :: "double \<Rightarrow> int" where
  "doubleToInt (Finite x) =
     (if INT_MIN \<le> trunc x \<and> trunc x \<le> INT_MAX then trunc x else INT_MIN)"
| "doubleToInt NegZero = 0"
| "doubleToInt x = INT_MIN"

subsection \<open>Values and tokens\<close>

text \<open>
  \<^verbatim>\<open>using Value = std::variant<int, double, std::string, bool>\<close>: the constructors are
  listed in the order of the alternatives, so that \<open>index\<close> is the variant's index.
\<close>

datatype Value = VInt int | VDouble double | VString string | VBool bool

fun index :: "Value \<Rightarrow> nat" where
  "index (VInt _) = 0"
| "index (VDouble _) = 1"
| "index (VString _) = 2"
| "index (VBool _) = 3"

datatype TokenType =
    LET | IF | THEN | ELSE | FOR | TO | STEP | NEXT | WHILE | WEND | DO | LOOP | UNTIL
  | SUB | END | FUNCTION | RETURN | PRINT | INPUT | READ | DATA | RESTORE | DIM
  | PLUS | MINUS | MULTIPLY | DIVIDE | MOD | POWER
  | EQUAL | NOT_EQUAL | LESS | LESS_EQUAL | GREATER | GREATER_EQUAL
  | AND | OR | NOT
  | LPAREN | RPAREN | COMMA | SEMICOLON | COLON | ASSIGN
  | NUMBER | STRING | IDENTIFIER
  | NEWLINE | EOF_TOKEN | UNKNOWN

text \<open>
  Exceptions are values. Every \<^verbatim>\<open>throw std::runtime_error(msg)\<close> of the sources, and every
  exception of the C++ library that the sources let escape, is \<open>RuntimeError msg\<close>.
  \<open>OutOfFuel\<close> is not an exception of the program: it is the answer of a fuelled function
  whose recursion budget was too small, and no \<^verbatim>\<open>catch\<close> of the model handles it.
\<close>

datatype error = RuntimeError string | OutOfFuel

text \<open>
  The functions of the C and C++ libraries on \<open>double\<close> whose text or value is not fixed
  by IEEE 754 are parameters of the embedding: \<^verbatim>\<open>operator<<(std::ostream&, double)\<close>,
  \<^verbatim>\<open>std::to_string(double)\<close>, \<^verbatim>\<open>std::stod\<close> (\<open>None\<close> when it throws), \<^verbatim>\<open>std::pow\<close>,
  \<^verbatim>\<open>std::sin\<close>, \<^verbatim>\<open>std::cos\<close>, \<^verbatim>\<open>std::tan\<close>, \<^verbatim>\<open>std::sqrt\<close>, \<^verbatim>\<open>std::log\<close> and
  \<^verbatim>\<open>std::exp\<close>.
\<close>

record libenv =
  ostream_double :: "double \<Rightarrow> string"
  to_string_double :: "double \<Rightarrow> string"
  lib_stod :: "string \<Rightarrow> double option"
  lib_pow :: "double \<Rightarrow> double \<Rightarrow> double"
  lib_sin :: "double \<Rightarrow> double"
  lib_cos :: "double \<Rightarrow> double"
  lib_tan :: "double \<Rightarrow> double"
  lib_sqrt :: "double \<Rightarrow> double"
  lib_log :: "double \<Rightarrow> double"
  lib_exp :: "double \<Rightarrow> double"

section \<open>Variables\<close>

text \<open>\<^verbatim>\<open>class Variables\<close>: a \<^verbatim>\<open>std::map<std::string, Value>\<close>.\<close>

type_synonym Variables = "string \<rightharpoonup> Value"

definition Variables_set :: "Variables \<Rightarrow> string \<Rightarrow> Value \<Rightarrow> Variables" where
  "Variables_set vs name v = vs(name \<mapsto> v)"

definition Variables_get :: "Variables \<Rightarrow> string \<Rightarrow> Value" where
  \<comment> \<open>\<^verbatim>\<open>// Return default value (0) for undefined variables\<close>\<close>
  "Variables_get vs name = (case vs name of Some v \<Rightarrow> v | None \<Rightarrow> VInt 0)"

definition Variables_clear :: "Variables \<Rightarrow> Variables" where
  "Variables_clear vs = Map.empty"

definition Variables_exists :: "Variables \<Rightarrow> string \<Rightarrow> bool" where
  "Variables_exists vs name = (vs name \<noteq> None)"

section \<open>Runtime: the helper methods on values\<close>

text \<open>
  The conversion that the comparison helpers and \<^verbatim>\<open>executeForStatement\<close> spell out in a
  visitor: an \<open>int\<close> is cast, a \<open>double\<close> is taken as it is, every other alternative
  gives the default (\<open>0.0\<close>, or \<open>1.0\<close> for the step of a \<open>FOR\<close>).
\<close>

fun numericOr :: "double \<Rightarrow> Value \<Rightarrow> double" where
  "numericOr d (VInt i) = ofInt i"
| "numericOr d (VDouble x) = x"
| "numericOr d (VString s) = d"
| "numericOr d (VBool b) = d"

fun isNumeric :: "Value \<Rightarrow> bool" where
  "isNumeric (VInt i) = True"
| "isNumeric (VDouble x) = True"
| "isNumeric (VString s) = False"
| "isNumeric (VBool b) = False"

fun isTruthy :: "Value \<Rightarrow> bool" where
  "isTruthy (VBool b) = b"
| "isTruthy (VInt i) = (i \<noteq> 0)"
| "isTruthy (VDouble x) = (\<not> deq x (Finite 0))"
| "isTruthy (VString s) = (s \<noteq> [])"

fun isEqual :: "Value \<Rightarrow> Value \<Rightarrow> bool" where
  "isEqual (VString a) (VString b) = (a = b)"
| "isEqual (VInt a) (VInt b) = deq (ofInt a) (ofInt b)"
| "isEqual (VDouble a) (VDouble b) = deq a b"
| "isEqual (VBool a) (VBool b) = (a = b)"
| "isEqual a b = deq (numericOr (Finite 0) a) (numericOr (Finite 0) b)"

fun isLessThan :: "Value \<Rightarrow> Value \<Rightarrow> bool" where
  "isLessThan (VInt a) (VInt b) = (a < b)"
| "isLessThan (VDouble a) (VDouble b) = dless a b"
| "isLessThan (VString a) (VString b) = (a < b)"
| "isLessThan (VBool a) (VBool b) = (a < b)"
| "isLessThan a b = dless (numericOr (Finite 0) a) (numericOr (Finite 0) b)"

fun isGreaterThan :: "Value \<Rightarrow> Value \<Rightarrow> bool" where
  "isGreaterThan (VInt a) (VInt b) = (a > b)"
| "isGreaterThan (VDouble a) (VDouble b) = dless b a"
| "isGreaterThan (VString a) (VString b) = (a > b)"
| "isGreaterThan (VBool a) (VBool b) = (a > b)"
| "isGreaterThan a b = dless (numericOr (Finite 0) b) (numericOr (Finite 0) a)"

definition add :: "Value \<Rightarrow> Value \<Rightarrow> Value" where
  "add a b =
     (case (a, b) of
        (VString x, VString y) \<Rightarrow> VString (x @ y)
      | _ \<Rightarrow> if isNumeric a \<and> isNumeric b then
               VDouble (dadd (numericOr (Finite 0) a) (numericOr (Finite 0) b))
             else VDouble (Finite 0))"

definition subtract :: "Value \<Rightarrow> Value \<Rightarrow> Value" where
  "subtract a b =
     (if isNumeric a \<and> isNumeric b then
        VDouble (dsub (numericOr (Finite 0) a) (numericOr (Finite 0) b))
      else VDouble (Finite 0))"

definition multiply :: "Value \<Rightarrow> Value \<Rightarrow> Value" where
  "multiply a b =
     (if isNumeric a \<and> isNumeric b then
        VDouble (dmul (numericOr (Finite 0) a) (numericOr (Finite 0) b))
      else VDouble (Finite 0))"

definition divide_v :: "Value \<Rightarrow> Value \<Rightarrow> error + Value" where
  "divide_v a b =
     (if isNumeric a \<and> isNumeric b then
        (if deq (numericOr (Finite 0) b) (Finite 0) then Inl (RuntimeError ''Division by zero'')
         else Inr (VDouble (ddiv (numericOr (Finite 0) a) (numericOr (Finite 0) b))))
      else Inr (VDouble (Finite 0)))"

definition modulo_v :: "Value \<Rightarrow> Value \<Rightarrow> error + Value" where
  "modulo_v a b =
     (if isNumeric a \<and> isNumeric b then
        (if deq (numericOr (Finite 0) b) (Finite 0) then Inl (RuntimeError ''Modulo by zero'')
         else Inr (VDouble (dfmod (numericOr (Finite 0) a) (numericOr (Finite 0) b))))
      else Inr (VDouble (Finite 0)))"

definition power_v :: "libenv \<Rightarrow> Value \<Rightarrow> Value \<Rightarrow> Value" where
  "power_v L a b =
     (if isNumeric a \<and> isNumeric b then
        VDouble (lib_pow L (numericOr (Finite 0) a) (numericOr (Finite 0) b))
      else VDouble (Finite 0))"

text \<open>
  The \<^verbatim>\<open>switch (node->operator_)\<close> of \<^verbatim>\<open>Runtime::executeBinaryExpression\<close>, on the two
  operand values; \<^verbatim>\<open>default: return Value{}\<close> is the value-initialised variant, the
  \<open>int\<close> 0.
\<close>

definition applyBinary :: "libenv \<Rightarrow> TokenType \<Rightarrow> Value \<Rightarrow> Value \<Rightarrow> error + Value" where
  "applyBinary L op l r =
     (case op of
        PLUS \<Rightarrow> Inr (add l r)
      | MINUS \<Rightarrow> Inr (subtract l r)
      | MULTIPLY \<Rightarrow> Inr (multiply l r)
      | DIVIDE \<Rightarrow> divide_v l r
      | MOD \<Rightarrow> modulo_v l r
      | POWER \<Rightarrow> Inr (power_v L l r)
      | EQUAL \<Rightarrow> Inr (VBool (isEqual l r))
      | NOT_EQUAL \<Rightarrow> Inr (VBool (\<not> isEqual l r))
      | LESS \<Rightarrow> Inr (VBool (isLessThan l r))
      | LESS_EQUAL \<Rightarrow> Inr (VBool (isLessThan l r \<or> isEqual l r))
      | GREATER \<Rightarrow> Inr (VBool (isGreaterThan l r))
      | GREATER_EQUAL \<Rightarrow> Inr (VBool (isGreaterThan l r \<or> isEqual l r))
      | _ \<Rightarrow> Inr (VInt 0))"

section \<open>Text of values and of numbers\<close>

text \<open>
  Decimal text of an \<open>int\<close>, as \<^verbatim>\<open>operator<<(std::ostream&, int)\<close> and
  \<^verbatim>\<open>std::to_string(int)\<close> write it.
\<close>

fun showNat :: "nat \<Rightarrow> string" where
  "showNat n = (if n < 10 then [''0123456789'' ! n]
                else showNat (n div 10) @ [''0123456789'' ! (n mod 10)])"

declare showNat.simps [simp del]

definition showInt :: "int \<Rightarrow> string" where
  "showInt i = (if i < 0 then CHR ''-'' # showNat (nat (- i)) else showNat (nat i))"

text \<open>\<^verbatim>\<open>oss << v\<close> in a visitor: a \<open>bool\<close> is written as \<open>1\<close> or \<open>0\<close>.\<close>

fun ostreamValue :: "libenv \<Rightarrow> Value \<Rightarrow> string" where
  "ostreamValue L (VString s) = s"
| "ostreamValue L (VInt i) = showInt i"
| "ostreamValue L (VDouble x) = ostream_double L x"
| "ostreamValue L (VBool b) = (if b then ''1'' else ''0'')"

text \<open>
  The character classes of \<^verbatim>\<open><cctype>\<close> in the C locale.
\<close>

definition isspace :: "char \<Rightarrow> bool" where
  "isspace c = (c \<in> set [CHR '' '', CHR 0x09, CHR 0x0A, CHR 0x0B, CHR 0x0C, CHR 0x0D])"

definition isdigit :: "char \<Rightarrow> bool" where
  "isdigit c = (c \<in> set ''0123456789'')"

definition isalpha :: "char \<Rightarrow> bool" where
  "isalpha c = (c \<in> set ''abcdefghijklmnopqrstuvwxyzABCDEFGHIJKLMNOPQRSTUVWXYZ'')"

definition isalnum :: "char \<Rightarrow> bool" where
  "isalnum c = (isalpha c \<or> isdigit c)"

definition digitValue :: "char \<Rightarrow> nat" where
  "digitValue c = of_char c - 48"

text \<open>
  \<^verbatim>\<open>std::stoi(str)\<close>: leading white space is skipped, one sign is accepted, then the
  longest run of decimal digits is read. No digit is \<^verbatim>\<open>std::invalid_argument\<close>, a value
  outside the range of \<open>int\<close> is \<^verbatim>\<open>std::out_of_range\<close>; both are \<open>None\<close> here, since
  every caller catches them with \<^verbatim>\<open>catch (...)\<close>.
\<close>

definition decimalValue :: "string \<Rightarrow> nat" where
  "decimalValue ds = foldl (\<lambda>acc c. 10 * acc + digitValue c) 0 ds"

definition stoi :: "string \<Rightarrow> int option" where
  "stoi str =
     (let s = dropWhile isspace str;
          neg = (s \<noteq> [] \<and> hd s = CHR ''-'');
          s' = (if s \<noteq> [] \<and> (hd s = CHR ''-'' \<or> hd s = CHR ''+'') then tl s else s);
          ds = takeWhile isdigit s';
          v = (if neg then - int (decimalValue ds) else int (decimalValue ds))
      in if ds = [] then None
         else if v < INT_MIN \<or> INT_MAX < v then None
         else Some v)"

section \<open>Functions\<close>

text \<open>
  \<^verbatim>\<open>class Functions\<close>: the user-defined functions are a \<^verbatim>\<open>std::map\<close> from a name to the
  text of a body; the built-in functions are methods. \<^verbatim>\<open>std::abs\<close> of the least \<open>int\<close> is out of
  range. \<^verbatim>\<open>Value{""}\<close> is taken to hold the \<^verbatim>\<open>std::string\<close> alternative.
  \<^verbatim>\<open>size_t\<close> has 64 bits.
\<close>

type_synonym Functions = "string \<rightharpoonup> string"

definition Functions_define :: "Functions \<Rightarrow> string \<Rightarrow> string \<Rightarrow> Functions" where
  "Functions_define fs name body = fs(name \<mapsto> body)"

definition Functions_abs :: "Value list \<Rightarrow> error + Value" where
  "Functions_abs args =
     (if length args \<noteq> 1 then Inl (RuntimeError ''ABS function requires exactly 1 argument'')
      else case args ! 0 of
             VInt i \<Rightarrow> Inr (VInt (toInt32 \<bar>i\<bar>))
           | VDouble x \<Rightarrow> Inr (VDouble (dabs x))
           | _ \<Rightarrow> Inr (VInt 0))"

definition Functions_sin :: "libenv \<Rightarrow> Value list \<Rightarrow> error + Value" where
  "Functions_sin L args =
     (if length args \<noteq> 1 then Inl (RuntimeError ''SIN function requires exactly 1 argument'')
      else if isNumeric (args ! 0) then
        Inr (VDouble (lib_sin L (numericOr (Finite 0) (args ! 0))))
      else Inr (VDouble (Finite 0)))"

definition Functions_cos :: "libenv \<Rightarrow> Value list \<Rightarrow> error + Value" where
  "Functions_cos L args =
     (if length args \<noteq> 1 then Inl (RuntimeError ''COS function requires exactly 1 argument'')
      else if isNumeric (args ! 0) then
        Inr (VDouble (lib_cos L (numericOr (Finite 0) (args ! 0))))
      else Inr (VDouble (Finite 0)))"

definition Functions_tan :: "libenv \<Rightarrow> Value list \<Rightarrow> error + Value" where
  "Functions_tan L args =
     (if length args \<noteq> 1 then Inl (RuntimeError ''TAN function requires exactly 1 argument'')
      else if isNumeric (args ! 0) then
        Inr (VDouble (lib_tan L (numericOr (Finite 0) (args ! 0))))
      else Inr (VDouble (Finite 0)))"

definition Functions_sqrt :: "libenv \<Rightarrow> Value list \<Rightarrow> error + Value" where
  "Functions_sqrt L args =
     (if length args \<noteq> 1 then Inl (RuntimeError ''SQRT function requires exactly 1 argument'')
      else if isNumeric (args ! 0) then
        (if dless (numericOr (Finite 0) (args ! 0)) (Finite 0) then
           Inl (RuntimeError ''SQRT of negative number'')
         else Inr (VDouble (lib_sqrt L (numericOr (Finite 0) (args ! 0)))))
      else Inr (VDouble (Finite 0)))"

definition Functions_log :: "libenv \<Rightarrow> Value list \<Rightarrow> error + Value" where
  "Functions_log L args =
     (if length args \<noteq> 1 then Inl (RuntimeError ''LOG function requires exactly 1 argument'')
      else if isNumeric (args ! 0) then
        (if dle (numericOr (Finite 0) (args ! 0)) (Finite 0) then
           Inl (RuntimeError ''LOG of non-positive number'')
         else Inr (VDouble (lib_log L (numericOr (Finite 0) (args ! 0)))))
      else Inr (VDouble (Finite 0)))"

definition Functions_exp :: "libenv \<Rightarrow> Value list \<Rightarrow> error + Value" where
  "Functions_exp L args =
     (if length args \<noteq> 1 then Inl (RuntimeError ''EXP function requires exactly 1 argument'')
      else if isNumeric (args ! 0) then
        Inr (VDouble (lib_exp L (numericOr (Finite 0) (args ! 0))))
      else Inr (VDouble (Finite 0)))"

definition Functions_len :: "Value list \<Rightarrow> error + Value" where
  "Functions_len args =
     (if length args \<noteq> 1 then Inl (RuntimeError ''LEN function requires exactly 1 argument'')
      else case args ! 0 of
             VString s \<Rightarrow> Inr (VInt (toInt32 (int (length s))))
           | _ \<Rightarrow> Inr (VInt 0))"

text \<open>The two visitors that the string functions share.\<close>

fun stringOrEmpty :: "Value \<Rightarrow> string" where
  "stringOrEmpty (VString s) = s"
| "stringOrEmpty v = []"

fun intOrZero :: "Value \<Rightarrow> int" where
  "intOrZero (VInt i) = i"
| "intOrZero (VDouble x) = doubleToInt x"
| "intOrZero v = 0"

definition Functions_mid :: "Value list \<Rightarrow> error + Value" where
  "Functions_mid args =
     (if length args < 2 \<or> length args > 3 then
        Inl (RuntimeError ''MID function requires 2 or 3 arguments'')
      else
        let str = stringOrEmpty (args ! 0);
            start = intOrZero (args ! 1);
            len = (if length args = 3 then toInt32 ((intOrZero (args ! 2)) mod 2 ^ 64)
                   else toInt32 ((int (length str) - start + 1) mod 2 ^ 64))
        in if start < 1 \<or> start > int (length str) then Inr (VString [])
           else
             let startPos = start - 1;
                 endPos = min ((startPos + len) mod 2 ^ 64) (int (length str));
                 count = (endPos - startPos) mod 2 ^ 64
             in Inr (VString (take (nat count) (drop (nat startPos) str))))"

definition Functions_left :: "Value list \<Rightarrow> error + Value" where
  "Functions_left args =
     (if length args \<noteq> 2 then Inl (RuntimeError ''LEFT function requires exactly 2 arguments'')
      else
        let str = stringOrEmpty (args ! 0); len = intOrZero (args ! 1)
        in if len \<le> 0 then Inr (VString [])
           else if len \<ge> int (length str) then Inr (VString str)
           else Inr (VString (take (nat len) str)))"

definition Functions_right :: "Value list \<Rightarrow> error + Value" where
  "Functions_right args =
     (if length args \<noteq> 2 then Inl (RuntimeError ''RIGHT function requires exactly 2 arguments'')
      else
        let str = stringOrEmpty (args ! 0); len = intOrZero (args ! 1)
        in if len \<le> 0 then Inr (VString [])
           else if len \<ge> int (length str) then Inr (VString str)
           else Inr (VString (drop (length str - nat len) str)))"

definition Functions_val :: "libenv \<Rightarrow> Value list \<Rightarrow> error + Value" where
  "Functions_val L args =
     (if length args \<noteq> 1 then Inl (RuntimeError ''VAL function requires exactly 1 argument'')
      else
        let str = stringOrEmpty (args ! 0)
        in if CHR ''.'' \<in> set str then
             (case lib_stod L str of Some x \<Rightarrow> Inr (VDouble x) | None \<Rightarrow> Inr (VInt 0))
           else
             (case stoi str of Some i \<Rightarrow> Inr (VInt i) | None \<Rightarrow> Inr (VInt 0)))"

definition Functions_str :: "libenv \<Rightarrow> Value list \<Rightarrow> error + Value" where
  "Functions_str L args =
     (if length args \<noteq> 1 then Inl (RuntimeError ''STR function requires exactly 1 argument'')
      else Inr (VString (ostreamValue L (args ! 0))))"

definition Functions_callBuiltin :: "libenv \<Rightarrow> string \<Rightarrow> Value list \<Rightarrow> error + Value" where
  "Functions_callBuiltin L name args =
     (if name = ''ABS'' then Functions_abs args
      else if name = ''SIN'' then Functions_sin L args
      else if name = ''COS'' then Functions_cos L args
      else if name = ''TAN'' then Functions_tan L args
      else if name = ''SQRT'' then Functions_sqrt L args
      else if name = ''LOG'' then Functions_log L args
      else if name = ''EXP'' then Functions_exp L args
      else if name = ''LEN'' then Functions_len args
      else if name = ''MID'' then Functions_mid args
      else if name = ''LEFT'' then Functions_left args
      else if name = ''RIGHT'' then Functions_right args
      else if name = ''VAL'' then Functions_val L args
      else if name = ''STR'' then Functions_str L args
      else Inr (VInt 0))"

text \<open>
  \<^verbatim>\<open>Functions::call\<close>. The test \<^verbatim>\<open>builtinResult.index() != 0 // Not empty\<close> reads the
  index of the variant; index 0 is the alternative \<open>int\<close>.
\<close>

definition Functions_call ::
  "libenv \<Rightarrow> Functions \<Rightarrow> string \<Rightarrow> Value list \<Rightarrow> Variables \<Rightarrow> error + Value" where
  "Functions_call L fs name args variables =
     (case Functions_callBuiltin L name args of
        Inl e \<Rightarrow> Inl e
      | Inr builtinResult \<Rightarrow>
          if index builtinResult \<noteq> 0 then Inr builtinResult
          else if fs name \<noteq> None then Inr (VInt 0)
          else if length args = 0 then
            (if Variables_exists variables name then Inr (Variables_get variables name)
             else Inl (RuntimeError (''Symbol '' @ [CHR 0x27] @ name @ [CHR 0x27] @ '' not defined'')))
          else Inl (RuntimeError (''Function '' @ [CHR 0x27] @ name @ [CHR 0x27] @ '' not defined'')))"

section \<open>The abstract syntax tree\<close>

text \<open>
  The classes derived from \<^verbatim>\<open>ASTNode\<close>, one constructor each, every one with the \<open>line\<close>
  of the base class first. A child is a \<^verbatim>\<open>std::unique_ptr<ASTNode>\<close>, which may be empty:
  \<open>Null\<close> is the empty pointer. \<^verbatim>\<open>NextStatementNode\<close> is the node that
  \<^verbatim>\<open>Parser::parseNextStatement\<close> builds; \<^verbatim>\<open>Runtime::execute\<close> has no case for it.
\<close>

datatype ASTNode =
    Null
  | ProgramNode int "ASTNode list"
  | StatementListNode int "ASTNode list"
  | LetStatementNode int string ASTNode
  | IfStatementNode int ASTNode ASTNode ASTNode
  | ForStatementNode int string ASTNode ASTNode ASTNode ASTNode
  | NextStatementNode int
  | WhileStatementNode int ASTNode ASTNode
  | PrintStatementNode int "ASTNode list"
  | InputStatementNode int string string
  | FunctionCallNode int string "ASTNode list"
  | BinaryExpressionNode int TokenType ASTNode ASTNode
  | UnaryExpressionNode int TokenType ASTNode
  | LiteralNode int Value
  | IdentifierNode int string

section \<open>What the process writes\<close>

text \<open>
  A protocol message is a \<^verbatim>\<open>nlohmann::json\<close> document. An object is a list of members in
  the order in which they were set; numbers of the protocol are integers. The text that
  \<^verbatim>\<open>dump()\<close> makes of a document, and the \<^verbatim>\<open>Content-Length\<close> header before it, are not
  modelled: what is written is recorded as the document itself.
\<close>

datatype json =
    JNull
  | JBool bool
  | JInt int
  | JString string
  | JArray "json list"
  | JObject "(string \<times> json) list"

datatype emitted =
    ConsoleText string   \<comment> \<open>text written to \<^verbatim>\<open>std::cout\<close>\<close>
  | StdoutFrame json     \<comment> \<open>a protocol message written to \<^verbatim>\<open>std::cout\<close>\<close>
  | SocketFrame json     \<comment> \<open>a protocol message sent to the client socket\<close>

text \<open>
  The fields of the debug server that decide where an event goes. The evaluator reaches
  the server through the global pointer \<^verbatim>\<open>g_dapServer\<close>, \<open>None\<close> when it is null.
\<close>

record dapview =
  srv_running :: bool
  srv_useNetwork :: bool
  srv_clientSocket :: int

definition sendEvent :: "dapview \<Rightarrow> string \<Rightarrow> json \<Rightarrow> emitted list \<Rightarrow> emitted list" where
  "sendEvent d event body out =
     (let message = JObject [(''type'', JString ''event''), (''event'', JString event),
                             (''body'', body)]
      in if srv_useNetwork d then
           (if srv_clientSocket d \<ge> 0 then out @ [SocketFrame message] else out)
         else out @ [StdoutFrame message])"

definition sendOutputEvent :: "dapview \<Rightarrow> string \<Rightarrow> string \<Rightarrow> emitted list \<Rightarrow> emitted list" where
  "sendOutputEvent d category output out =
     sendEvent d ''output'' (JObject [(''category'', JString category),
                                      (''output'', JString output)]) out"

section \<open>Runtime: the evaluator\<close>

text \<open>
  What \<^verbatim>\<open>Runtime::execute\<close> reads and writes: the variables and the functions it is
  given, the lines still to come on \<^verbatim>\<open>std::cin\<close>, everything written so far, and the
  debug server behind \<^verbatim>\<open>g_dapServer\<close>.
\<close>

record rstate =
  variables :: Variables
  funcs :: Functions
  cin :: "string list"
  out :: "emitted list"
  dap :: "dapview option"

definition getline :: "string list \<Rightarrow> string \<times> string list" where
  "getline ls = (case ls of [] \<Rightarrow> ([], []) | l # rest \<Rightarrow> (l, rest))"

definition executeInputStatement :: "libenv \<Rightarrow> string \<Rightarrow> string \<Rightarrow> rstate \<Rightarrow> rstate" where
  "executeInputStatement L prompt variableName st =
     (let st1 = (if prompt \<noteq> [] then st\<lparr>out := out st @ [ConsoleText prompt]\<rparr> else st);
          (input, rest) = getline (cin st1);
          st2 = st1\<lparr>cin := rest\<rparr>;
          v = (if CHR ''.'' \<in> set input then
                 (case lib_stod L input of Some x \<Rightarrow> VDouble x | None \<Rightarrow> VString input)
               else
                 (case stoi input of Some i \<Rightarrow> VInt i | None \<Rightarrow> VString input))
      in st2\<lparr>variables := Variables_set (variables st2) variableName v\<rparr>)"

text \<open>The end of \<^verbatim>\<open>executePrintStatement\<close>: where the text of the line goes.\<close>

definition printOutput :: "string \<Rightarrow> rstate \<Rightarrow> rstate" where
  "printOutput text st =
     (case dap st of
        Some d \<Rightarrow>
          if srv_running d then st\<lparr>out := sendOutputEvent d text ''stdout'' (out st)\<rparr>
          else st\<lparr>out := out st @ [ConsoleText text]\<rparr>
      | None \<Rightarrow> st\<lparr>out := out st @ [ConsoleText text]\<rparr>)"

definition unaryMinus :: "Value \<Rightarrow> Value" where
  "unaryMinus v =
     (case v of VInt i \<Rightarrow> VInt (toInt32 (- i)) | VDouble x \<Rightarrow> VDouble (dneg x) | _ \<Rightarrow> VInt 0)"

text \<open>
  \<^verbatim>\<open>Runtime::execute\<close> and the methods it dispatches to. A \<open>WHILE\<close> or a \<open>FOR\<close> may run
  for ever, so \<open>execute\<close> takes fuel: \<open>execute L (Suc n)\<close> evaluates the children of its
  node with \<open>execute L n\<close>, a loop started with fuel \<open>n\<close> makes at most \<open>n\<close> tests of its
  condition, and a call without fuel answers \<open>OutOfFuel\<close>. An exception does not undo
  what was done before it, so every answer, also an error, comes with the state at that
  moment. The loops of the sources are
  functions of their own, which take the evaluator of the nested nodes as \<open>exec\<close>:
  \<open>executeStatements\<close> (the statements of a program, with the last result),
  \<open>forLoop\<close> and \<open>whileLoop\<close> (the \<^verbatim>\<open>while\<close> loops of \<^verbatim>\<open>executeForStatement\<close> and
  \<^verbatim>\<open>executeWhileStatement\<close>), \<open>printExpressions\<close> (with the text written so far) and
  \<open>evalArguments\<close>.
\<close>

type_synonym executor = "ASTNode \<Rightarrow> rstate \<Rightarrow> (error + Value) \<times> rstate"

fun executeStatements ::
  "executor \<Rightarrow> ASTNode list \<Rightarrow> Value \<Rightarrow> rstate \<Rightarrow> (error + Value) \<times> rstate" where
  "executeStatements exec [] result st = (Inr result, st)"
| "executeStatements exec (statement # rest) result st =
     (case exec statement st of
        (Inl e, st1) \<Rightarrow> (Inl e, st1)
      | (Inr v, st1) \<Rightarrow> executeStatements exec rest v st1)"

fun forLoop ::
  "executor \<Rightarrow> nat \<Rightarrow> string \<Rightarrow> double \<Rightarrow> double \<Rightarrow> ASTNode \<Rightarrow> rstate \<Rightarrow> (error + Value) \<times> rstate" where
  "forLoop exec 0 variableName endVal stepVal body st = (Inl OutOfFuel, st)"
| "forLoop exec (Suc k) variableName endVal stepVal body st =
     (let currentVal = numericOr (Finite 0) (Variables_get (variables st) variableName)
      in if dless (Finite 0) stepVal \<and> dless endVal currentVal then (Inr (VInt 0), st)
         else if dless stepVal (Finite 0) \<and> dless currentVal endVal then (Inr (VInt 0), st)
         else
           (case exec body st of
              (Inl e, st1) \<Rightarrow> (Inl e, st1)
            | (Inr v, st1) \<Rightarrow>
                forLoop exec k variableName endVal stepVal body
                  (st1\<lparr>variables := Variables_set (variables st1) variableName
                                       (VDouble (dadd currentVal stepVal))\<rparr>)))"

fun whileLoop ::
  "executor \<Rightarrow> nat \<Rightarrow> ASTNode \<Rightarrow> ASTNode \<Rightarrow> rstate \<Rightarrow> (error + Value) \<times> rstate" where
  "whileLoop exec 0 condition body st = (Inl OutOfFuel, st)"
| "whileLoop exec (Suc k) condition body st =
     (case exec condition st of
        (Inl e, st1) \<Rightarrow> (Inl e, st1)
      | (Inr c, st1) \<Rightarrow>
          if isTruthy c then
            (case exec body st1 of
               (Inl e, st2) \<Rightarrow> (Inl e, st2)
             | (Inr v, st2) \<Rightarrow> whileLoop exec k condition body st2)
          else (Inr (VInt 0), st1))"

fun printExpressions ::
  "libenv \<Rightarrow> executor \<Rightarrow> ASTNode list \<Rightarrow> string \<Rightarrow> rstate \<Rightarrow> (error + string) \<times> rstate" where
  "printExpressions L exec [] oss st = (Inr oss, st)"
| "printExpressions L exec (expression # rest) oss st =
     (case exec expression st of
        (Inl e, st1) \<Rightarrow> (Inl e, st1)
      | (Inr v, st1) \<Rightarrow>
          printExpressions L exec rest
            (oss @ ostreamValue L v @ (if rest \<noteq> [] then '' '' else [])) st1)"

fun evalArguments ::
  "executor \<Rightarrow> ASTNode list \<Rightarrow> Value list \<Rightarrow> rstate \<Rightarrow> (error + Value list) \<times> rstate" where
  "evalArguments exec [] args st = (Inr args, st)"
| "evalArguments exec (arg # rest) args st =
     (case exec arg st of
        (Inl e, st1) \<Rightarrow> (Inl e, st1)
      | (Inr v, st1) \<Rightarrow> evalArguments exec rest (args @ [v]) st1)"

fun execute :: "libenv \<Rightarrow> nat \<Rightarrow> ASTNode \<Rightarrow> rstate \<Rightarrow> (error + Value) \<times> rstate" where
  "execute L 0 node st = (Inl OutOfFuel, st)"
| "execute L (Suc n) Null st = (Inr (VInt 0), st)"
| "execute L (Suc n) (ProgramNode line statements) st =
     executeStatements (execute L n) statements (VInt 0) st"
| "execute L (Suc n) (LetStatementNode line variableName valueNode) st =
     (case execute L n valueNode st of
        (Inl e, st1) \<Rightarrow> (Inl e, st1)
      | (Inr v, st1) \<Rightarrow>
          (Inr v, st1\<lparr>variables := Variables_set (variables st1) variableName v\<rparr>))"
| "execute L (Suc n) (IfStatementNode line condition thenStatement elseStatement) st =
     (case execute L n condition st of
        (Inl e, st1) \<Rightarrow> (Inl e, st1)
      | (Inr c, st1) \<Rightarrow>
          if isTruthy c then execute L n thenStatement st1
          else if elseStatement \<noteq> Null then execute L n elseStatement st1
          else (Inr (VInt 0), st1))"
| "execute L (Suc n) (ForStatementNode line variableName startValue endValue stepValue body) st =
     (case execute L n startValue st of
        (Inl e, st1) \<Rightarrow> (Inl e, st1)
      | (Inr start, st1) \<Rightarrow>
         (case execute L n endValue st1 of
            (Inl e, st2) \<Rightarrow> (Inl e, st2)
          | (Inr endV, st2) \<Rightarrow>
             (case (if stepValue \<noteq> Null then execute L n stepValue st2
                    else (Inr (VInt 1), st2)) of
                (Inl e, st3) \<Rightarrow> (Inl e, st3)
              | (Inr step, st3) \<Rightarrow>
                  forLoop (execute L n) n variableName (numericOr (Finite 0) endV)
                    (numericOr (Finite 1) step) body
                    (st3\<lparr>variables := Variables_set (variables st3) variableName
                                         (VDouble (numericOr (Finite 0) start))\<rparr>))))"
| "execute L (Suc n) (WhileStatementNode line condition body) st =
     whileLoop (execute L n) n condition body st"
| "execute L (Suc n) (PrintStatementNode line expressions) st =
     (case printExpressions L (execute L n) expressions [] st of
        (Inl e, st1) \<Rightarrow> (Inl e, st1)
      | (Inr oss, st1) \<Rightarrow> (Inr (VInt 0), printOutput (oss @ [CHR 0x0A]) st1))"
| "execute L (Suc n) (InputStatementNode line prompt variableName) st =
     (Inr (VInt 0), executeInputStatement L prompt variableName st)"
| "execute L (Suc n) (FunctionCallNode line functionName arguments) st =
     (case evalArguments (execute L n) arguments [] st of
        (Inl e, st1) \<Rightarrow> (Inl e, st1)
      | (Inr args, st1) \<Rightarrow>
         (case Functions_call L (funcs st1) functionName args (variables st1) of
            Inl e \<Rightarrow> (Inl e, st1)
          | Inr v \<Rightarrow> (Inr v, st1)))"
| "execute L (Suc n) (BinaryExpressionNode line operator left right) st =
     (case execute L n left st of
        (Inl e, st1) \<Rightarrow> (Inl e, st1)
      | (Inr l, st1) \<Rightarrow>
         (case execute L n right st1 of
            (Inl e, st2) \<Rightarrow> (Inl e, st2)
          | (Inr r, st2) \<Rightarrow>
             (case applyBinary L operator l r of
                Inl e \<Rightarrow> (Inl e, st2)
              | Inr v \<Rightarrow> (Inr v, st2))))"
| "execute L (Suc n) (UnaryExpressionNode line operator operand) st =
     (case execute L n operand st of
        (Inl e, st1) \<Rightarrow> (Inl e, st1)
      | (Inr v, st1) \<Rightarrow>
          if operator = MINUS then (Inr (unaryMinus v), st1)
          else if operator = NOT then (Inr (VBool (\<not> isTruthy v)), st1)
          else (Inr v, st1))"
| "execute L (Suc n) (LiteralNode line v) st = (Inr v, st)"
| "execute L (Suc n) (IdentifierNode line name) st =
     (Inr (Variables_get (variables st) name), st)"
| "execute L (Suc n) (StatementListNode line statements) st = (Inr (VInt 0), st)"
| "execute L (Suc n) (NextStatementNode line) st = (Inr (VInt 0), st)"

text \<open>
  The loop of a \<open>FOR\<close> in the words of the specification, to be compared with
  \<open>forLoop\<close>: the loop keeps the value of the loop variable itself (\<open>val\<close>), runs the
  body while ``step > 0 implies value <= end and step < 0 implies value >= end'', and after
  each body adds the step and assigns the variable. The comparisons and the sum are those
  of \<open>double\<close>.
\<close>

fun forSpec ::
  "executor \<Rightarrow> nat \<Rightarrow> string \<Rightarrow> double \<Rightarrow> double \<Rightarrow> double \<Rightarrow> ASTNode \<Rightarrow> rstate \<Rightarrow> (error + Value) \<times> rstate" where
  "forSpec exec 0 v val endVal stepVal body st = (Inl OutOfFuel, st)"
| "forSpec exec (Suc k) v val endVal stepVal body st =
     (if (dless (Finite 0) stepVal \<longrightarrow> dle val endVal)
         \<and> (dless stepVal (Finite 0) \<longrightarrow> dle endVal val) then
        (case exec body st of
           (Inl e, st1) \<Rightarrow> (Inl e, st1)
         | (Inr r, st1) \<Rightarrow>
             forSpec exec k v (dadd val stepVal) endVal stepVal body
               (st1\<lparr>variables := (variables st1)(v \<mapsto> VDouble (dadd val stepVal))\<rparr>))
      else (Inr (VInt 0), st))"

section \<open>Lexer\<close>

text \<open>
  \<^verbatim>\<open>struct Token\<close> and \<^verbatim>\<open>Lexer::tokenize\<close>. The main loop of \<open>tokenize\<close> is
  \<open>tokenizeFrom\<close>, on the text from \<^verbatim>\<open>pos\<close> on, with the line, the column and the tokens
  made so far. The inner loops are \<open>scanNumber\<close> (with \<^verbatim>\<open>hasDecimal\<close>), \<open>scanString\<close>
  (up to the closing quote, which it leaves) and, for an identifier, the longest run of
  identifier characters. Both scanners give the text they read and the text that is left.
\<close>

record Token =
  ttype :: TokenType
  tvalue :: string
  tline :: int
  tcolumn :: int

definition keywordTable :: "string \<rightharpoonup> TokenType" where
  "keywordTable = map_of
     [(''LET'', LET), (''IF'', IF), (''THEN'', THEN), (''ELSE'', ELSE), (''FOR'', FOR),
      (''TO'', TO), (''STEP'', STEP), (''NEXT'', NEXT), (''WHILE'', WHILE), (''WEND'', WEND),
      (''DO'', DO), (''LOOP'', LOOP), (''UNTIL'', UNTIL), (''SUB'', SUB), (''END'', END),
      (''FUNCTION'', FUNCTION), (''RETURN'', RETURN), (''PRINT'', PRINT), (''INPUT'', INPUT),
      (''READ'', READ), (''DATA'', DATA), (''RESTORE'', RESTORE), (''DIM'', DIM)]"

fun scanNumber :: "string \<Rightarrow> bool \<Rightarrow> string \<times> string" where
  "scanNumber [] hasDecimal = ([], [])"
| "scanNumber (ch # rest) hasDecimal =
     (if isdigit ch then (case scanNumber rest hasDecimal of (number, r) \<Rightarrow> (ch # number, r))
      else if ch = CHR ''.'' \<and> \<not> hasDecimal then
        (case scanNumber rest True of (number, r) \<Rightarrow> (ch # number, r))
      else ([], ch # rest))"

fun scanString :: "string \<Rightarrow> string \<times> string" where
  "scanString [] = ([], [])"
| "scanString [ch] = (if ch = CHR 0x22 then ([], [ch]) else ([ch], []))"
| "scanString (ch # e # rest) =
     (if ch = CHR 0x22 then ([], ch # e # rest)
      else if ch = CHR 0x5C then
        (case scanString rest of (str, r) \<Rightarrow>
           ((if e = CHR ''n'' then [CHR 0x0A]
             else if e = CHR ''t'' then [CHR 0x09]
             else if e = CHR ''r'' then [CHR 0x0D]
             else if e = CHR 0x22 then [CHR 0x22]
             else if e = CHR 0x5C then [CHR 0x5C]
             else [CHR 0x5C, e]) @ str, r))
      else (case scanString (e # rest) of (str, r) \<Rightarrow> (ch # str, r)))"

definition isIdentChar :: "char \<Rightarrow> bool" where
  "isIdentChar c = (isalnum c \<or> c = CHR ''_'')"

lemma scanNumber_length: "length (snd (scanNumber s b)) \<le> length s"
  by (induction s b rule: scanNumber.induct) (auto split: prod.splits)

lemma scanNumber_shorter:
  "isdigit ch \<or> ch = CHR ''.'' \<Longrightarrow> length (snd (scanNumber (ch # rest) False)) < Suc (length rest)"
  using scanNumber_length [of rest False] scanNumber_length [of rest True]
  by (auto split: prod.splits simp: less_Suc_eq_le)

lemma scanString_length: "length (snd (scanString s)) \<le> length s"
  by (induction s rule: scanString.induct) (auto split: prod.splits)

definition mkToken :: "TokenType \<Rightarrow> string \<Rightarrow> int \<Rightarrow> int \<Rightarrow> Token" where
  "mkToken t v l c = \<lparr>ttype = t, tvalue = v, tline = l, tcolumn = c\<rparr>"

function tokenizeFrom :: "string \<Rightarrow> int \<Rightarrow> int \<Rightarrow> Token list \<Rightarrow> error + Token list" where
  "tokenizeFrom [] line column tokens = Inr (tokens @ [mkToken EOF_TOKEN [] line column])"
| "tokenizeFrom (ch # rest) line column tokens =
     (if isspace ch then
        (if ch = CHR 0x0A then tokenizeFrom rest (line + 1) 1 tokens
         else tokenizeFrom rest line (column + 1) tokens)
      else if ch = CHR 0x27 then
        tokenizeFrom (dropWhile (\<lambda>c. c \<noteq> CHR 0x0A) rest) line column tokens
      else if isdigit ch \<or> ch = CHR ''.'' then
        (case scanNumber (ch # rest) False of (number, r) \<Rightarrow>
           tokenizeFrom r line (column + int (length number))
             (tokens @ [mkToken NUMBER number line column]))
      else if ch = CHR 0x22 then
        (case scanString rest of (str, r) \<Rightarrow>
           tokenizeFrom (if r \<noteq> [] then tl r else r) line
             (column + 1 + int (length rest - length r) + (if r \<noteq> [] then 1 else 0))
             (tokens @ [mkToken STRING str line column]))
      else if isalpha ch \<or> ch = CHR ''_'' then
        (let identifier = takeWhile isIdentChar (ch # rest);
             r = dropWhile isIdentChar (ch # rest)
         in tokenizeFrom r line (column + int (length identifier))
              (tokens @ [case keywordTable identifier of
                           Some t \<Rightarrow> mkToken t identifier line column
                         | None \<Rightarrow> mkToken IDENTIFIER identifier line column]))
      else if ch = CHR ''+'' then tokenizeFrom rest line (column + 1) (tokens @ [mkToken PLUS ''+'' line column])
      else if ch = CHR ''-'' then tokenizeFrom rest line (column + 1) (tokens @ [mkToken MINUS ''-'' line column])
      else if ch = CHR ''*'' then tokenizeFrom rest line (column + 1) (tokens @ [mkToken MULTIPLY ''*'' line column])
      else if ch = CHR ''/'' then tokenizeFrom rest line (column + 1) (tokens @ [mkToken DIVIDE ''/'' line column])
      else if ch = CHR ''%'' then tokenizeFrom rest line (column + 1) (tokens @ [mkToken MOD ''%'' line column])
      else if ch = CHR ''^'' then tokenizeFrom rest line (column + 1) (tokens @ [mkToken POWER ''^'' line column])
      else if ch = CHR ''('' then tokenizeFrom rest line (column + 1) (tokens @ [mkToken LPAREN ''('' line column])
      else if ch = CHR '')'' then tokenizeFrom rest line (column + 1) (tokens @ [mkToken RPAREN '')'' line column])
      else if ch = CHR '','' then tokenizeFrom rest line (column + 1) (tokens @ [mkToken COMMA '','' line column])
      else if ch = CHR '';'' then tokenizeFrom rest line (column + 1) (tokens @ [mkToken SEMICOLON '';'' line column])
      else if ch = CHR '':'' then tokenizeFrom rest line (column + 1) (tokens @ [mkToken COLON '':'' line column])
      else if ch = CHR ''='' then tokenizeFrom rest line (column + 1) (tokens @ [mkToken ASSIGN ''='' line column])
      else if ch = CHR ''<'' then
        (if rest \<noteq> [] \<and> hd rest = CHR ''='' then
           tokenizeFrom (tl rest) line (column + 2) (tokens @ [mkToken LESS_EQUAL ''<='' line column])
         else if rest \<noteq> [] \<and> hd rest = CHR ''>'' then
           tokenizeFrom (tl rest) line (column + 2) (tokens @ [mkToken NOT_EQUAL ''<>'' line column])
         else tokenizeFrom rest line (column + 1) (tokens @ [mkToken LESS ''<'' line column]))
      else if ch = CHR ''>'' then
        (if rest \<noteq> [] \<and> hd rest = CHR ''='' then
           tokenizeFrom (tl rest) line (column + 2) (tokens @ [mkToken GREATER_EQUAL ''>='' line column])
         else tokenizeFrom rest line (column + 1) (tokens @ [mkToken GREATER ''>'' line column]))
      else Inl (RuntimeError (''Unknown character: '' @ [ch])))"
  by pat_completeness auto
termination
  apply (relation "measure (\<lambda>(s, l, c, ts). length s)")
  apply (simp_all add: less_Suc_eq_le length_dropWhile_le)
  subgoal for ch rest x y
    using scanNumber_length [of rest False] scanNumber_length [of rest True]
    by (auto split: prod.splits if_splits)
  subgoal for ch rest x y
    using scanString_length [of rest] by (cases "scanString rest") auto
  subgoal by (auto simp: isIdentChar_def isalnum_def)
  done

definition tokenize :: "string \<Rightarrow> error + Token list" where
  "tokenize input = tokenizeFrom input 1 1 []"

section \<open>Parser\<close>

text \<open>
  The state of the \<^verbatim>\<open>Parser\<close> is the vector \<^verbatim>\<open>tokens_\<close>, which no method changes, and the
  index \<^verbatim>\<open>current_\<close>. A parsing method takes the index and answers with the node and the
  new index (\<open>Parsed\<close>), or with the message of the \<^verbatim>\<open>std::runtime_error\<close> it throws and
  the index at that moment (\<open>Thrown\<close>): the \<^verbatim>\<open>catch\<close> of \<^verbatim>\<open>parseStatement\<close> goes on from
  there. Reading \<^verbatim>\<open>tokens_[current_]\<close> past the end of the vector is undefined in C++; it
  cannot happen for a vector that ends with an \<open>EOF_TOKEN\<close>, as every vector of the lexer
  does, and \<open>current\<close> answers an \<open>EOF_TOKEN\<close> there.

  The methods call each other recursively, so they take fuel: \<open>parseExpression L (Suc n)\<close>
  parses a nested expression in parentheses with \<open>parseExpression L n\<close>, and
  \<open>parseStatement L (Suc n)\<close> parses its expressions and nested statements with fuel \<open>n\<close>.
  The methods in between take the parser of the nested construct as an argument
  (\<open>parseExpr\<close>, \<open>parseStmt\<close>), and every \<^verbatim>\<open>while\<close> loop is a function of its own that makes
  at most as many turns as it has fuel. \<open>statementBody\<close> is the \<^verbatim>\<open>try\<close> block of
  \<^verbatim>\<open>parseStatement\<close>.
\<close>

datatype 'a presult = Parsed 'a nat | Thrown string nat | ParserOutOfFuel

text \<open>\<^verbatim>\<open>current()\<close>, \<^verbatim>\<open>last()\<close> and the other helper methods.\<close>

definition current :: "Token list \<Rightarrow> nat \<Rightarrow> Token" where
  "current tokens cur = (if cur < length tokens then tokens ! cur else mkToken EOF_TOKEN [] 0 0)"

definition last_token :: "Token list \<Rightarrow> nat \<Rightarrow> Token" where
  "last_token tokens cur = (if cur > 0 then current tokens (cur - 1) else current tokens cur)"

definition isAtEnd :: "Token list \<Rightarrow> nat \<Rightarrow> bool" where
  "isAtEnd tokens cur = (cur \<ge> length tokens \<or> ttype (current tokens cur) = EOF_TOKEN)"

definition check :: "Token list \<Rightarrow> nat \<Rightarrow> TokenType \<Rightarrow> bool" where
  "check tokens cur t = (if isAtEnd tokens cur then False else ttype (current tokens cur) = t)"

definition advance :: "Token list \<Rightarrow> nat \<Rightarrow> nat" where
  "advance tokens cur = (if \<not> isAtEnd tokens cur then cur + 1 else cur)"

definition consume :: "Token list \<Rightarrow> nat \<Rightarrow> TokenType \<Rightarrow> string \<Rightarrow> unit presult" where
  "consume tokens cur t message =
     (if check tokens cur t then Parsed () (advance tokens cur) else Thrown message cur)"

function synchronizeLoop :: "Token list \<Rightarrow> nat \<Rightarrow> nat" where
  "synchronizeLoop tokens cur =
     (if isAtEnd tokens cur then cur
      else if ttype (current tokens cur) = SEMICOLON then advance tokens cur
      else if ttype (current tokens cur) \<in> {LET, IF, FOR, WHILE, PRINT, INPUT} then cur
      else synchronizeLoop tokens (advance tokens cur))"
  by pat_completeness auto
termination
  by (relation "measure (\<lambda>(tokens, cur). length tokens - cur)")
     (auto simp: isAtEnd_def advance_def)

declare synchronizeLoop.simps [simp del]

definition synchronize :: "Token list \<Rightarrow> nat \<Rightarrow> nat" where
  "synchronize tokens cur = synchronizeLoop tokens (advance tokens cur)"

type_synonym exprParser = "nat \<Rightarrow> ASTNode presult"

definition numberLiteral :: "libenv \<Rightarrow> Token list \<Rightarrow> nat \<Rightarrow> Value" where
  "numberLiteral L tokens cur =
     (if CHR ''.'' \<in> set (tvalue (current tokens cur)) then
        (case lib_stod L (tvalue (last_token tokens cur)) of Some x \<Rightarrow> VDouble x | None \<Rightarrow> VInt 0)
      else
        (case stoi (tvalue (last_token tokens cur)) of Some i \<Rightarrow> VInt i | None \<Rightarrow> VInt 0))"

definition parsePrimary :: "libenv \<Rightarrow> exprParser \<Rightarrow> Token list \<Rightarrow> nat \<Rightarrow> ASTNode presult" where
  "parsePrimary L parseExpr tokens cur =
     (if check tokens cur NUMBER then
        (let cur1 = advance tokens cur
         in Parsed (LiteralNode 0 (numberLiteral L tokens cur1)) cur1)
      else if check tokens cur STRING then
        (let cur1 = advance tokens cur
         in Parsed (LiteralNode 0 (VString (tvalue (last_token tokens cur1)))) cur1)
      else if check tokens cur IDENTIFIER then
        (let cur1 = advance tokens cur
         in Parsed (IdentifierNode 0 (tvalue (last_token tokens cur1))) cur1)
      else if check tokens cur LPAREN then
        (case parseExpr (advance tokens cur) of
           Parsed expr cur1 \<Rightarrow>
             (case consume tokens cur1 RPAREN ''Expected ')' after expression'' of
                Parsed u cur2 \<Rightarrow> Parsed expr cur2
              | Thrown m c \<Rightarrow> Thrown m c
              | ParserOutOfFuel \<Rightarrow> ParserOutOfFuel)
         | Thrown m c \<Rightarrow> Thrown m c
         | ParserOutOfFuel \<Rightarrow> ParserOutOfFuel)
      else Thrown (''Unexpected token: '' @ tvalue (current tokens cur)) cur)"

fun factorLoop ::
  "libenv \<Rightarrow> exprParser \<Rightarrow> nat \<Rightarrow> Token list \<Rightarrow> ASTNode \<Rightarrow> nat \<Rightarrow> ASTNode presult" where
  "factorLoop L parseExpr 0 tokens left cur = ParserOutOfFuel"
| "factorLoop L parseExpr (Suc k) tokens left cur =
     (if check tokens cur POWER then
        (case parsePrimary L parseExpr tokens (advance tokens cur) of
           Parsed right cur1 \<Rightarrow>
             factorLoop L parseExpr k tokens (BinaryExpressionNode 0 POWER left right) cur1
         | Thrown m c \<Rightarrow> Thrown m c
         | ParserOutOfFuel \<Rightarrow> ParserOutOfFuel)
      else Parsed left cur)"

definition parseFactor ::
  "libenv \<Rightarrow> exprParser \<Rightarrow> nat \<Rightarrow> Token list \<Rightarrow> nat \<Rightarrow> ASTNode presult" where
  "parseFactor L parseExpr k tokens cur =
     (case parsePrimary L parseExpr tokens cur of
        Parsed left cur1 \<Rightarrow> factorLoop L parseExpr k tokens left cur1
      | Thrown m c \<Rightarrow> Thrown m c
      | ParserOutOfFuel \<Rightarrow> ParserOutOfFuel)"

fun termLoop ::
  "libenv \<Rightarrow> exprParser \<Rightarrow> nat \<Rightarrow> Token list \<Rightarrow> ASTNode \<Rightarrow> nat \<Rightarrow> ASTNode presult" where
  "termLoop L parseExpr 0 tokens left cur = ParserOutOfFuel"
| "termLoop L parseExpr (Suc k) tokens left cur =
     (if check tokens cur MULTIPLY \<or> check tokens cur DIVIDE \<or> check tokens cur MOD then
        (let cur1 = advance tokens cur;
             operator = ttype (current tokens cur1)
         in case parseFactor L parseExpr k tokens cur1 of
              Parsed right cur2 \<Rightarrow>
                termLoop L parseExpr k tokens (BinaryExpressionNode 0 operator left right) cur2
            | Thrown m c \<Rightarrow> Thrown m c
            | ParserOutOfFuel \<Rightarrow> ParserOutOfFuel)
      else Parsed left cur)"

definition parseTerm ::
  "libenv \<Rightarrow> exprParser \<Rightarrow> nat \<Rightarrow> Token list \<Rightarrow> nat \<Rightarrow> ASTNode presult" where
  "parseTerm L parseExpr k tokens cur =
     (case parseFactor L parseExpr k tokens cur of
        Parsed left cur1 \<Rightarrow> termLoop L parseExpr k tokens left cur1
      | Thrown m c \<Rightarrow> Thrown m c
      | ParserOutOfFuel \<Rightarrow> ParserOutOfFuel)"

fun expressionLoop ::
  "libenv \<Rightarrow> exprParser \<Rightarrow> nat \<Rightarrow> Token list \<Rightarrow> ASTNode \<Rightarrow> nat \<Rightarrow> ASTNode presult" where
  "expressionLoop L parseExpr 0 tokens left cur = ParserOutOfFuel"
| "expressionLoop L parseExpr (Suc k) tokens left cur =
     (if check tokens cur PLUS \<or> check tokens cur MINUS \<or> check tokens cur EQUAL
         \<or> check tokens cur NOT_EQUAL \<or> check tokens cur LESS \<or> check tokens cur LESS_EQUAL
         \<or> check tokens cur GREATER \<or> check tokens cur GREATER_EQUAL then
        (let cur1 = advance tokens cur;
             operator = ttype (current tokens cur1)
         in case parseTerm L parseExpr k tokens cur1 of
              Parsed right cur2 \<Rightarrow>
                expressionLoop L parseExpr k tokens (BinaryExpressionNode 0 operator left right) cur2
            | Thrown m c \<Rightarrow> Thrown m c
            | ParserOutOfFuel \<Rightarrow> ParserOutOfFuel)
      else Parsed left cur)"

fun parseExpression :: "libenv \<Rightarrow> nat \<Rightarrow> Token list \<Rightarrow> nat \<Rightarrow> ASTNode presult" where
  "parseExpression L 0 tokens cur = ParserOutOfFuel"
| "parseExpression L (Suc n) tokens cur =
     (case parseTerm L (parseExpression L n tokens) n tokens cur of
        Parsed left cur1 \<Rightarrow> expressionLoop L (parseExpression L n tokens) n tokens left cur1
      | Thrown m c \<Rightarrow> Thrown m c
      | ParserOutOfFuel \<Rightarrow> ParserOutOfFuel)"


type_synonym stmtParser = "nat \<Rightarrow> ASTNode presult"

fun argumentLoop ::
  "libenv \<Rightarrow> nat \<Rightarrow> nat \<Rightarrow> Token list \<Rightarrow> ASTNode list \<Rightarrow> nat \<Rightarrow> (ASTNode list) presult" where
  "argumentLoop L n 0 tokens arguments cur = ParserOutOfFuel"
| "argumentLoop L n (Suc k) tokens arguments cur =
     (if \<not> check tokens cur RPAREN \<and> \<not> isAtEnd tokens cur then
        (case parseExpression L n tokens cur of
           Parsed e cur1 \<Rightarrow>
             if check tokens cur1 COMMA then
               argumentLoop L n k tokens (arguments @ [e]) (advance tokens cur1)
             else Parsed (arguments @ [e]) cur1
         | Thrown m c \<Rightarrow> Thrown m c
         | ParserOutOfFuel \<Rightarrow> ParserOutOfFuel)
      else Parsed arguments cur)"

definition parseFunctionCall :: "libenv \<Rightarrow> nat \<Rightarrow> Token list \<Rightarrow> nat \<Rightarrow> ASTNode presult" where
  "parseFunctionCall L n tokens cur =
     (if \<not> check tokens cur IDENTIFIER then Thrown ''Expected function name'' cur
      else
        let functionName = tvalue (current tokens cur);
            cur1 = advance tokens cur
        in if check tokens cur1 LPAREN then
             (case argumentLoop L n n tokens [] (advance tokens cur1) of
                Parsed arguments cur2 \<Rightarrow>
                  (case consume tokens cur2 RPAREN ''Expected ')' after function arguments'' of
                     Parsed u cur3 \<Rightarrow> Parsed (FunctionCallNode 0 functionName arguments) cur3
                   | Thrown m c \<Rightarrow> Thrown m c
                   | ParserOutOfFuel \<Rightarrow> ParserOutOfFuel)
              | Thrown m c \<Rightarrow> Thrown m c
              | ParserOutOfFuel \<Rightarrow> ParserOutOfFuel)
           else Parsed (FunctionCallNode 0 functionName []) cur1)"

fun printLoop ::
  "libenv \<Rightarrow> nat \<Rightarrow> nat \<Rightarrow> Token list \<Rightarrow> ASTNode list \<Rightarrow> nat \<Rightarrow> (ASTNode list) presult" where
  "printLoop L n 0 tokens expressions cur = ParserOutOfFuel"
| "printLoop L n (Suc k) tokens expressions cur =
     (if \<not> isAtEnd tokens cur \<and> \<not> check tokens cur SEMICOLON \<and> \<not> check tokens cur COLON then
        (case parseExpression L n tokens cur of
           Parsed e cur1 \<Rightarrow>
             printLoop L n k tokens (expressions @ [e])
               (if check tokens cur1 COMMA then advance tokens cur1 else cur1)
         | Thrown m c \<Rightarrow> Thrown m c
         | ParserOutOfFuel \<Rightarrow> ParserOutOfFuel)
      else Parsed expressions cur)"

definition parsePrintStatement :: "libenv \<Rightarrow> nat \<Rightarrow> Token list \<Rightarrow> nat \<Rightarrow> ASTNode presult" where
  "parsePrintStatement L n tokens cur =
     (case printLoop L n n tokens [] cur of
        Parsed expressions cur1 \<Rightarrow>
          Parsed (PrintStatementNode (tline (current tokens cur)) expressions) cur1
      | Thrown m c \<Rightarrow> Thrown m c
      | ParserOutOfFuel \<Rightarrow> ParserOutOfFuel)"

definition parseInputStatement :: "Token list \<Rightarrow> nat \<Rightarrow> ASTNode presult" where
  "parseInputStatement tokens cur =
     (let line = tline (current tokens cur);
          hasPrompt = check tokens cur STRING;
          prompt = (if hasPrompt then tvalue (current tokens cur) else []);
          cur1 = (if hasPrompt then advance tokens cur else cur)
      in if hasPrompt \<and> \<not> check tokens cur1 COMMA then
           Thrown ''Expected comma after INPUT prompt'' cur1
         else
           let cur2 = (if hasPrompt then advance tokens cur1 else cur1)
           in if \<not> check tokens cur2 IDENTIFIER then
                Thrown ''Expected variable name in INPUT statement'' cur2
              else Parsed (InputStatementNode line prompt (tvalue (current tokens cur2)))
                     (advance tokens cur2))"

definition parseLetStatement :: "libenv \<Rightarrow> nat \<Rightarrow> Token list \<Rightarrow> nat \<Rightarrow> ASTNode presult" where
  "parseLetStatement L n tokens cur =
     (if \<not> check tokens cur IDENTIFIER then Thrown ''Expected identifier after LET'' cur
      else
        let cur1 = advance tokens cur
        in if \<not> check tokens cur1 ASSIGN then Thrown ''Expected '=' after variable name'' cur1
           else
             (case parseExpression L n tokens (advance tokens cur1) of
                Parsed v cur2 \<Rightarrow>
                  Parsed (LetStatementNode (tline (current tokens cur))
                            (tvalue (current tokens cur)) v) cur2
              | Thrown m c \<Rightarrow> Thrown m c
              | ParserOutOfFuel \<Rightarrow> ParserOutOfFuel))"

definition parseIfStatement ::
  "libenv \<Rightarrow> stmtParser \<Rightarrow> nat \<Rightarrow> Token list \<Rightarrow> nat \<Rightarrow> ASTNode presult" where
  "parseIfStatement L parseStmt n tokens cur =
     (case parseExpression L n tokens cur of
        Parsed condition cur1 \<Rightarrow>
          if \<not> check tokens cur1 THEN then Thrown ''Expected THEN after IF condition'' cur1
          else
            (case parseStmt (advance tokens cur1) of
               Parsed thenStatement cur2 \<Rightarrow>
                 if check tokens cur2 ELSE then
                   (case parseStmt (advance tokens cur2) of
                      Parsed elseStatement cur3 \<Rightarrow>
                        Parsed (IfStatementNode (tline (current tokens cur)) condition
                                  thenStatement elseStatement) cur3
                    | Thrown m c \<Rightarrow> Thrown m c
                    | ParserOutOfFuel \<Rightarrow> ParserOutOfFuel)
                 else Parsed (IfStatementNode (tline (current tokens cur)) condition
                                thenStatement Null) cur2
             | Thrown m c \<Rightarrow> Thrown m c
             | ParserOutOfFuel \<Rightarrow> ParserOutOfFuel)
      | Thrown m c \<Rightarrow> Thrown m c
      | ParserOutOfFuel \<Rightarrow> ParserOutOfFuel)"

definition parseForStatement ::
  "libenv \<Rightarrow> stmtParser \<Rightarrow> nat \<Rightarrow> Token list \<Rightarrow> nat \<Rightarrow> ASTNode presult" where
  "parseForStatement L parseStmt n tokens cur =
     (if \<not> check tokens cur IDENTIFIER then Thrown ''Expected identifier after FOR'' cur
      else
        let line = tline (current tokens cur);
            variableName = tvalue (current tokens cur);
            cur1 = advance tokens cur
        in if \<not> check tokens cur1 ASSIGN then Thrown ''Expected '=' after FOR variable'' cur1
           else
             (case parseExpression L n tokens (advance tokens cur1) of
                Parsed startValue cur2 \<Rightarrow>
                  if \<not> check tokens cur2 TO then Thrown ''Expected TO in FOR statement'' cur2
                  else
                    (case parseExpression L n tokens (advance tokens cur2) of
                       Parsed endValue cur3 \<Rightarrow>
                         (case (if check tokens cur3 STEP
                                then parseExpression L n tokens (advance tokens cur3)
                                else Parsed Null cur3) of
                            Parsed stepValue cur4 \<Rightarrow>
                              (case parseStmt cur4 of
                                 Parsed body cur5 \<Rightarrow>
                                   Parsed (ForStatementNode line variableName startValue endValue
                                             stepValue body) cur5
                               | Thrown m c \<Rightarrow> Thrown m c
                               | ParserOutOfFuel \<Rightarrow> ParserOutOfFuel)
                          | Thrown m c \<Rightarrow> Thrown m c
                          | ParserOutOfFuel \<Rightarrow> ParserOutOfFuel)
                     | Thrown m c \<Rightarrow> Thrown m c
                     | ParserOutOfFuel \<Rightarrow> ParserOutOfFuel)
              | Thrown m c \<Rightarrow> Thrown m c
              | ParserOutOfFuel \<Rightarrow> ParserOutOfFuel))"

definition parseNextStatement :: "nat \<Rightarrow> ASTNode presult" where
  "parseNextStatement cur = Parsed (NextStatementNode 0) cur"

definition parseWhileStatement ::
  "libenv \<Rightarrow> stmtParser \<Rightarrow> nat \<Rightarrow> Token list \<Rightarrow> nat \<Rightarrow> ASTNode presult" where
  "parseWhileStatement L parseStmt n tokens cur =
     (case parseExpression L n tokens cur of
        Parsed condition cur1 \<Rightarrow>
          (case parseStmt cur1 of
             Parsed body cur2 \<Rightarrow>
               Parsed (WhileStatementNode (tline (current tokens cur)) condition body) cur2
           | Thrown m c \<Rightarrow> Thrown m c
           | ParserOutOfFuel \<Rightarrow> ParserOutOfFuel)
      | Thrown m c \<Rightarrow> Thrown m c
      | ParserOutOfFuel \<Rightarrow> ParserOutOfFuel)"

definition statementBody ::
  "libenv \<Rightarrow> stmtParser \<Rightarrow> nat \<Rightarrow> Token list \<Rightarrow> nat \<Rightarrow> ASTNode presult" where
  "statementBody L parseStmt n tokens cur =
     (if check tokens cur LET then parseLetStatement L n tokens (advance tokens cur)
      else if check tokens cur IF then parseIfStatement L parseStmt n tokens (advance tokens cur)
      else if check tokens cur FOR then parseForStatement L parseStmt n tokens (advance tokens cur)
      else if check tokens cur NEXT then parseNextStatement (advance tokens cur)
      else if check tokens cur WHILE then
        parseWhileStatement L parseStmt n tokens (advance tokens cur)
      else if check tokens cur PRINT then parsePrintStatement L n tokens (advance tokens cur)
      else if check tokens cur INPUT then parseInputStatement tokens (advance tokens cur)
      else if check tokens cur IDENTIFIER then
        (let cur1 = advance tokens cur
         in if check tokens cur1 ASSIGN then
              (let cur2 = advance tokens cur1
               in case parseExpression L n tokens cur2 of
                    Parsed v cur3 \<Rightarrow>
                      Parsed (LetStatementNode 0 (tvalue (current tokens cur2)) v) cur3
                  | Thrown m c \<Rightarrow> Thrown m c
                  | ParserOutOfFuel \<Rightarrow> ParserOutOfFuel)
            else parseFunctionCall L n tokens (cur1 - 1))
      else parseExpression L n tokens cur)"

fun parseStatement :: "libenv \<Rightarrow> nat \<Rightarrow> Token list \<Rightarrow> nat \<Rightarrow> ASTNode presult" where
  "parseStatement L 0 tokens cur = ParserOutOfFuel"
| "parseStatement L (Suc n) tokens cur =
     (if isAtEnd tokens cur then Parsed Null cur
      else
        (case statementBody L (parseStatement L n tokens) n tokens cur of
           Parsed node cur1 \<Rightarrow> Parsed node cur1
         | Thrown m c \<Rightarrow> Parsed Null (synchronize tokens c)
         | ParserOutOfFuel \<Rightarrow> ParserOutOfFuel))"

fun programLoop ::
  "libenv \<Rightarrow> nat \<Rightarrow> nat \<Rightarrow> Token list \<Rightarrow> ASTNode list \<Rightarrow> nat \<Rightarrow> ASTNode presult" where
  "programLoop L n 0 tokens statements cur = ParserOutOfFuel"
| "programLoop L n (Suc k) tokens statements cur =
     (if \<not> isAtEnd tokens cur then
        (case parseStatement L n tokens cur of
           Parsed statement cur1 \<Rightarrow>
             programLoop L n k tokens
               (if statement \<noteq> Null then statements @ [statement] else statements) cur1
         | Thrown m c \<Rightarrow> Thrown m c
         | ParserOutOfFuel \<Rightarrow> ParserOutOfFuel)
      else Parsed (ProgramNode 0 statements) cur)"

definition Parser_parse :: "libenv \<Rightarrow> nat \<Rightarrow> Token list \<Rightarrow> ASTNode presult" where
  "Parser_parse L n tokens = programLoop L n n tokens [] 0"

definition Parser_parseLine :: "libenv \<Rightarrow> nat \<Rightarrow> Token list \<Rightarrow> ASTNode presult" where
  "Parser_parseLine L n tokens = parseStatement L n tokens 0"

section \<open>BasicInterpreter\<close>

text \<open>
  \<^verbatim>\<open>BasicInterpreter::evaluateExpression\<close>, on the state that the evaluator works on. The
  exceptions of the lexer and of the evaluator escape to the caller.
\<close>

definition evaluateExpression ::
  "libenv \<Rightarrow> nat \<Rightarrow> string \<Rightarrow> rstate \<Rightarrow> (error + Value) \<times> rstate" where
  "evaluateExpression L n expr st =
     (case tokenize expr of
        Inl e \<Rightarrow> (Inl e, st)
      | Inr tokens \<Rightarrow>
          if tokens = [] then (Inl (RuntimeError ''Empty or invalid expression''), st)
          else
            (case Parser_parseLine L n tokens of
               Parsed ast cur \<Rightarrow>
                 if ast = Null then (Inl (RuntimeError ''Failed to parse expression''), st)
                 else execute L n ast st
             | Thrown m c \<Rightarrow> (Inl (RuntimeError m), st)
             | ParserOutOfFuel \<Rightarrow> (Inl OutOfFuel, st)))"

text \<open>
  \<^verbatim>\<open>class BasicInterpreter\<close>. The parser, the lexer and the runtime that it owns have no
  state between calls; its variables and functions are fields here.
\<close>

record BasicInterpreter =
  bi_variables :: Variables
  bi_functions :: Functions
  bi_source :: string
  bi_lines :: "string list"
  bi_currentLine :: int
  bi_running :: bool
  bi_lastError :: string
  bi_debugging :: bool
  bi_breakpoints :: "int set"
  bi_paused :: bool

definition newInterpreter :: BasicInterpreter where
  "newInterpreter =
     \<lparr> bi_variables = Map.empty, bi_functions = Map.empty, bi_source = [], bi_lines = [],
       bi_currentLine = 0, bi_running = False, bi_lastError = [], bi_debugging = False,
       bi_breakpoints = {}, bi_paused = False \<rparr>"

text \<open>The lines that \<^verbatim>\<open>std::getline\<close> reads from the text of a program.\<close>

function splitLines :: "string \<Rightarrow> string list" where
  "splitLines [] = []"
| "splitLines (c # cs) =
     (let l = takeWhile (\<lambda>x. x \<noteq> CHR 0x0A) (c # cs);
          r = dropWhile (\<lambda>x. x \<noteq> CHR 0x0A) (c # cs)
      in if r = [] then [l] else l # splitLines (tl r))"
  by pat_completeness auto
termination
proof (relation "measure length", goal_cases)
  case 1
  then show ?case by simp
next
  case (2 c cs l r)
  have "length (dropWhile (\<lambda>x. x \<noteq> CHR 0x0A) (c # cs)) \<le> length (c # cs)"
    by (rule length_dropWhile_le)
  then show ?case using 2 by (cases r) auto
qed

declare splitLines.simps [simp del]

definition loadProgram ::
  "libenv \<Rightarrow> nat \<Rightarrow> string \<Rightarrow> BasicInterpreter \<Rightarrow> (error + bool) \<times> BasicInterpreter" where
  "loadProgram L n source bi =
     (let bi1 = bi\<lparr>bi_source := source, bi_lines := splitLines source, bi_currentLine := 0,
                   bi_lastError := []\<rparr>
      in case tokenize source of
           Inl (RuntimeError m) \<Rightarrow> (Inr False, bi1\<lparr>bi_lastError := m\<rparr>)
         | Inl OutOfFuel \<Rightarrow> (Inl OutOfFuel, bi1)
         | Inr tokens \<Rightarrow>
             (case Parser_parse L n tokens of
                Parsed ast cur \<Rightarrow>
                  if ast = Null then (Inr False, bi1\<lparr>bi_lastError := ''Failed to parse program''\<rparr>)
                  else (Inr True, bi1)
              | Thrown m c \<Rightarrow> (Inr False, bi1\<lparr>bi_lastError := m\<rparr>)
              | ParserOutOfFuel \<Rightarrow> (Inl OutOfFuel, bi1)))"

text \<open>
  \<^verbatim>\<open>std::regex_match(line, match, R"(^\s*(\d+)\s*(.*))")\<close> with the second group: the
  line matches when, after white space, digits and white space again, no line terminator
  is left, since \<^verbatim>\<open>.\<close> matches none.
\<close>

definition stripLineNumber :: "string \<Rightarrow> string" where
  "stripLineNumber line =
     (let s = dropWhile isspace line;
          ds = takeWhile isdigit s;
          r = dropWhile isspace (dropWhile isdigit s)
      in if ds \<noteq> [] \<and> CHR 0x0A \<notin> set r \<and> CHR 0x0D \<notin> set r then r else line)"

section \<open>The debug server\<close>



record Breakpoint =
  bp_id :: int
  bp_verified :: bool
  bp_message :: string
  bp_line :: int
  bp_column :: int
  bp_source :: string

text \<open>
  The fields of \<^verbatim>\<open>class DAPServer\<close>, but the thread, the mutex and the condition variable,
  which no request handler uses, and the table of handlers, which is the constant
  \<open>requestHandlers\<close> below.
\<close>

record DAPServer =
  dap_running :: bool
  dap_debugging :: bool
  dap_paused :: bool
  dap_currentThread :: int
  dap_currentLine :: int
  dap_currentSource :: string
  dap_serverSocket :: int
  dap_clientSocket :: int
  dap_useNetwork :: bool
  dap_port :: int
  dap_checkConnection :: bool
  dap_enableLogging :: bool
  dap_stepMode :: bool
  dap_runTillStop :: bool
  dap_breakpoints :: "string \<rightharpoonup> int set"
  dap_breakpointMap :: "int \<rightharpoonup> Breakpoint"
  dap_nextBreakpointId :: int
  dap_sources :: "string \<rightharpoonup> string"

definition newServer :: DAPServer where
  "newServer =
     \<lparr> dap_running = False, dap_debugging = False, dap_paused = False, dap_currentThread = 1,
       dap_currentLine = 0, dap_currentSource = [], dap_serverSocket = - 1,
       dap_clientSocket = - 1, dap_useNetwork = False, dap_port = 4711,
       dap_checkConnection = False, dap_enableLogging = False, dap_stepMode = False,
       dap_runTillStop = False, dap_breakpoints = Map.empty, dap_breakpointMap = Map.empty,
       dap_nextBreakpointId = 1, dap_sources = Map.empty \<rparr>"

text \<open>
  What the operating system answers when the server opens its port again: the descriptors
  that \<^verbatim>\<open>socket\<close> and \<^verbatim>\<open>accept\<close> return, and whether \<^verbatim>\<open>setsockopt\<close>, \<^verbatim>\<open>bind\<close> and
  \<^verbatim>\<open>listen\<close> succeed.
\<close>

record netenv =
  net_socket :: int
  net_listen_ok :: bool
  net_accept :: int

text \<open>
  The process: the interpreter and the debug server that \<^verbatim>\<open>main\<close> creates, whether
  \<^verbatim>\<open>setDAPServer\<close> has made the server known to the evaluator, the two standard streams,
  the files that \<^verbatim>\<open>readFileContent\<close> can read (the text of a file, empty when it cannot be
  opened) and the network. \<^verbatim>\<open>getInterpreter()\<close> is the interpreter of \<^verbatim>\<open>main\<close>. What is
  written to \<^verbatim>\<open>std::cerr\<close> is not modelled.
\<close>

record world =
  interpreter :: BasicInterpreter
  dapServer :: DAPServer
  g_dapServer :: bool
  w_cin :: "string list"
  w_out :: "emitted list"
  w_files :: "string \<Rightarrow> string"
  w_net :: netenv

definition viewOf :: "DAPServer \<Rightarrow> dapview" where
  "viewOf s = \<lparr>srv_running = dap_running s, srv_useNetwork = dap_useNetwork s,
                srv_clientSocket = dap_clientSocket s\<rparr>"

definition runtimeState :: "world \<Rightarrow> rstate" where
  "runtimeState w =
     \<lparr> variables = bi_variables (interpreter w), funcs = bi_functions (interpreter w),
       cin = w_cin w, out = w_out w,
       dap = (if g_dapServer w then Some (viewOf (dapServer w)) else None) \<rparr>"

definition storeRuntimeState :: "world \<Rightarrow> rstate \<Rightarrow> world" where
  "storeRuntimeState w st =
     w\<lparr> interpreter := (interpreter w)\<lparr>bi_variables := variables st, bi_functions := funcs st\<rparr>,
        w_cin := cin st, w_out := out st \<rparr>"

definition setLastError :: "string \<Rightarrow> world \<Rightarrow> world" where
  "setLastError m w = w\<lparr>interpreter := (interpreter w)\<lparr>bi_lastError := m\<rparr>\<rparr>"

text \<open>\<^verbatim>\<open>BasicInterpreter::executeLine\<close>, \<^verbatim>\<open>step\<close> and the other methods that the server calls.\<close>

definition executeLine :: "libenv \<Rightarrow> nat \<Rightarrow> string \<Rightarrow> world \<Rightarrow> (error + bool) \<times> world" where
  "executeLine L n line w =
     (if line = [] then (Inr True, w)
      else
        let code = stripLineNumber line
        in if code = [] \<or> hd code = CHR 0x27 then (Inr True, w)
           else
             (case tokenize code of
                Inl (RuntimeError m) \<Rightarrow>
                  (Inr False, setLastError (''Error executing line: '' @ m) w)
              | Inl OutOfFuel \<Rightarrow> (Inl OutOfFuel, w)
              | Inr tokens \<Rightarrow>
                  if tokens = [] then (Inr True, w)
                  else
                    (case Parser_parseLine L n tokens of
                       Parsed ast cur \<Rightarrow>
                         if ast = Null then
                           (Inr False, setLastError (''Failed to parse line: '' @ line) w)
                         else
                           (case execute L n ast (runtimeState w) of
                              (Inl (RuntimeError m), st) \<Rightarrow>
                                (Inr False, setLastError (''Error executing line: '' @ m)
                                              (storeRuntimeState w st))
                            | (Inl OutOfFuel, st) \<Rightarrow> (Inl OutOfFuel, storeRuntimeState w st)
                            | (Inr v, st) \<Rightarrow> (Inr True, storeRuntimeState w st))
                     | Thrown m c \<Rightarrow>
                         (Inr False, setLastError (''Error executing line: '' @ m) w)
                     | ParserOutOfFuel \<Rightarrow> (Inl OutOfFuel, w))))"


definition setPaused :: "bool \<Rightarrow> world \<Rightarrow> world" where
  "setPaused b w = w\<lparr>interpreter := (interpreter w)\<lparr>bi_paused := b\<rparr>\<rparr>"



text \<open>
  The two functions of the interpreter that the server calls and that are not among the
  sources, \<^verbatim>\<open>BasicInterpreter::cleanup\<close> and \<^verbatim>\<open>basic::valueToString\<close>, are parameters of
  the server's model.
\<close>

record absent =
  cleanup :: "BasicInterpreter \<Rightarrow> BasicInterpreter"
  valueToString :: "Value \<Rightarrow> string"

subsection \<open>Documents\<close>

text \<open>
  The operations of \<^verbatim>\<open>nlohmann::json\<close> that the handlers use on their arguments, which
  they hold by \<^verbatim>\<open>const\<close> reference. \<^verbatim>\<open>operator[]\<close> with a key throws \<open>type_error.305\<close> on a
  document that is not an object; on an object without the key the library asserts, which
  is an error here as well. A conversion to \<^verbatim>\<open>std::string\<close> or to \<^verbatim>\<open>int\<close> throws
  \<open>type_error.302\<close> on a document of another type. The messages end with the name of
  the type of the document, \<^verbatim>\<open>type_name()\<close>.
\<close>

definition type_name :: "json \<Rightarrow> string" where
  "type_name j =
     (case j of JNull \<Rightarrow> ''null'' | JBool b \<Rightarrow> ''boolean'' | JInt i \<Rightarrow> ''number''
      | JString s \<Rightarrow> ''string'' | JArray xs \<Rightarrow> ''array'' | JObject kv \<Rightarrow> ''object'')"

definition jcontains :: "json \<Rightarrow> string \<Rightarrow> bool" where
  "jcontains j key = (case j of JObject kv \<Rightarrow> map_of kv key \<noteq> None | _ \<Rightarrow> False)"

definition jget :: "json \<Rightarrow> string \<Rightarrow> error + json" where
  "jget j key =
     (case j of
        JObject kv \<Rightarrow>
          (case map_of kv key of
             Some v \<Rightarrow> Inr v
           | None \<Rightarrow> Inl (RuntimeError ''assertion failed: key not found''))
      | _ \<Rightarrow> Inl (RuntimeError (''[json.exception.type_error.305] cannot use operator[] with a string argument with ''
                             @ type_name j)))"

definition jstring :: "json \<Rightarrow> error + string" where
  "jstring j =
     (case j of
        JString s \<Rightarrow> Inr s
      | _ \<Rightarrow> Inl (RuntimeError (''[json.exception.type_error.302] type must be string, but is ''
                             @ type_name j)))"

definition jint :: "json \<Rightarrow> error + int" where
  "jint j =
     (case j of
        JInt i \<Rightarrow> Inr i
      | JBool b \<Rightarrow> Inr (if b then 1 else 0)
      | _ \<Rightarrow> Inl (RuntimeError (''[json.exception.type_error.302] type must be number, but is ''
                             @ type_name j)))"

definition jstringAt :: "json \<Rightarrow> string \<Rightarrow> error + string" where
  "jstringAt j key = (case jget j key of Inl e \<Rightarrow> Inl e | Inr v \<Rightarrow> jstring v)"

definition is_string :: "json \<Rightarrow> bool" where
  "is_string j = (case j of JString s \<Rightarrow> True | _ \<Rightarrow> False)"

definition is_object :: "json \<Rightarrow> bool" where
  "is_object j = (case j of JObject kv \<Rightarrow> True | _ \<Rightarrow> False)"


text \<open>The elements that a range-based \<^verbatim>\<open>for\<close> over a document visits.\<close>

definition jitems :: "json \<Rightarrow> json list" where
  "jitems j = (case j of JArray xs \<Rightarrow> xs | JObject kv \<Rightarrow> map snd kv | JNull \<Rightarrow> [] | _ \<Rightarrow> [j])"

subsection \<open>Sending\<close>





definition DAPServer_sendEvent :: "string \<Rightarrow> json \<Rightarrow> world \<Rightarrow> world" where
  "DAPServer_sendEvent event body w =
     w\<lparr>w_out := sendEvent (viewOf (dapServer w)) event body (w_out w)\<rparr>"

definition sendInitializedEvent :: "world \<Rightarrow> world" where
  "sendInitializedEvent w = DAPServer_sendEvent ''initialized'' (JObject []) w"

definition sendStoppedEvent :: "string \<Rightarrow> int \<Rightarrow> int \<Rightarrow> world \<Rightarrow> world" where
  "sendStoppedEvent reason threadId line w =
     DAPServer_sendEvent ''stopped''
       (JObject [(''reason'', JString reason), (''threadId'', JInt threadId),
                 (''allThreadsStopped'', JBool True), (''line'', JInt line)]) w"



definition sendProcessEvent :: "string \<Rightarrow> int \<Rightarrow> world \<Rightarrow> world" where
  "sendProcessEvent name systemProcessId w =
     DAPServer_sendEvent ''process''
       (JObject [(''name'', JString name), (''systemProcessId'', JInt systemProcessId),
                 (''isLocalProcess'', JBool True), (''startMethod'', JString ''launch'')]) w"



subsection \<open>Sources and breakpoints\<close>

definition updServer :: "(DAPServer \<Rightarrow> DAPServer) \<Rightarrow> world \<Rightarrow> world" where
  "updServer f w = w\<lparr>dapServer := f (dapServer w)\<rparr>"

definition addSource :: "string \<Rightarrow> string \<Rightarrow> world \<Rightarrow> world" where
  "addSource path content w =
     updServer (\<lambda>s. s\<lparr>dap_sources := (dap_sources s)(path \<mapsto> content),
                      dap_currentSource := path\<rparr>) w"

definition getSource :: "DAPServer \<Rightarrow> string \<Rightarrow> string" where
  "getSource s path = (case dap_sources s path of Some content \<Rightarrow> content | None \<Rightarrow> [])"

definition readFileContent :: "world \<Rightarrow> string \<Rightarrow> string" where
  "readFileContent w path = w_files w path"

definition setBreakpoint :: "string \<Rightarrow> int \<Rightarrow> DAPServer \<Rightarrow> DAPServer" where
  "setBreakpoint source line s =
     (let old = (case dap_breakpoints s source of Some ls \<Rightarrow> ls | None \<Rightarrow> {});
          i = dap_nextBreakpointId s
      in s\<lparr> dap_breakpoints := (dap_breakpoints s)(source \<mapsto> insert line old),
             dap_nextBreakpointId := i + 1,
             dap_breakpointMap := (dap_breakpointMap s)
               (i \<mapsto> \<lparr>bp_id = i, bp_verified = True, bp_message = [], bp_line = line,
                       bp_column = 0, bp_source = source\<rparr>) \<rparr>)"

definition removeBreakpoint :: "string \<Rightarrow> int \<Rightarrow> DAPServer \<Rightarrow> DAPServer" where
  "removeBreakpoint source line s =
     (case dap_breakpoints s source of
        Some ls \<Rightarrow> s\<lparr>dap_breakpoints := (dap_breakpoints s)(source \<mapsto> ls - {line})\<rparr>
      | None \<Rightarrow> s)"

definition clearBreakpoints :: "DAPServer \<Rightarrow> DAPServer" where
  "clearBreakpoints s = s\<lparr>dap_breakpoints := Map.empty, dap_breakpointMap := Map.empty\<rparr>"

definition hasBreakpoint :: "DAPServer \<Rightarrow> string \<Rightarrow> int \<Rightarrow> bool" where
  "hasBreakpoint s source line =
     (case dap_breakpoints s source of Some ls \<Rightarrow> line \<in> ls | None \<Rightarrow> False)"

definition shouldPauseAt :: "DAPServer \<Rightarrow> int \<Rightarrow> bool" where
  "shouldPauseAt s line =
     (if dap_stepMode s then True
      else (\<exists>source ls. dap_breakpoints s source = Some ls \<and> line \<in> ls))"

subsection \<open>Request handlers\<close>

text \<open>
  A handler takes the arguments of the request and answers with the result document or
  with the exception it throws, and with the process as it has left it.
\<close>

type_synonym handler = "json \<Rightarrow> world \<Rightarrow> (error + json) \<times> world"



text \<open>
  The three ways in which \<^verbatim>\<open>handleLaunch\<close> finds the program: the source is added when its
  text is not empty.
\<close>

definition launchSource :: "json \<Rightarrow> world \<Rightarrow> (error + unit) \<times> world" where
  "launchSource arguments w =
     (if jcontains arguments ''program'' \<and> is_string (projr (jget arguments ''program'')) then
        (case jstringAt arguments ''program'' of
           Inl e \<Rightarrow> (Inl e, w)
         | Inr programPath \<Rightarrow>
             let content = readFileContent w programPath
             in if content \<noteq> [] then (Inr (), addSource programPath content w) else (Inr (), w))
      else if jcontains arguments ''program'' \<and> is_object (projr (jget arguments ''program'')) then
        (let program = projr (jget arguments ''program'')
         in if jcontains program ''path'' then
              (case jstringAt program ''path'' of
                 Inl e \<Rightarrow> (Inl e, w)
               | Inr programPath \<Rightarrow>
                   (case (if jcontains program ''content'' then jstringAt program ''content''
                          else Inr (readFileContent w programPath)) of
                      Inl e \<Rightarrow> (Inl e, w)
                    | Inr content \<Rightarrow>
                        if content \<noteq> [] then (Inr (), addSource programPath content w)
                        else (Inr (), w)))
            else (Inr (), w))
      else if jcontains arguments ''programPath''
              \<and> is_string (projr (jget arguments ''programPath'')) then
        (case jstringAt arguments ''programPath'' of
           Inl e \<Rightarrow> (Inl e, w)
         | Inr programPath \<Rightarrow>
             let content = readFileContent w programPath
             in if content \<noteq> [] then (Inr (), addSource programPath content w) else (Inr (), w))
      else (Inr (), w))"

definition handleLaunch :: "libenv \<Rightarrow> nat \<Rightarrow> handler" where
  "handleLaunch L n arguments w =
     (let w1 = updServer (\<lambda>s. s\<lparr>dap_debugging := True, dap_currentLine := 0\<rparr>) w
      in case launchSource arguments w1 of
           (Inl e, w2) \<Rightarrow> (Inl e, w2)
         | (Inr u, w2) \<Rightarrow>
             let content = getSource (dapServer w2) (dap_currentSource (dapServer w2))
             in case (if content \<noteq> [] then
                        (case loadProgram L n content (interpreter w2) of
                           (Inl e, bi) \<Rightarrow> (Inl e, w2\<lparr>interpreter := bi\<rparr>)
                         | (Inr b, bi) \<Rightarrow> (Inr (), w2\<lparr>interpreter := bi\<lparr>bi_paused := True\<rparr>\<rparr>))
                      else (Inr (), w2)) of
                  (Inl e, w3) \<Rightarrow> (Inl e, w3)
                | (Inr u, w3) \<Rightarrow>
                    (Inr (JObject []),
                     sendStoppedEvent ''entry'' (dap_currentThread (dapServer w3))
                       (dap_currentLine (dapServer w3))
                       (sendProcessEvent ''BASIC Interpreter'' 1 (sendInitializedEvent w3))))"


definition handleDisconnect :: "absent \<Rightarrow> handler" where
  "handleDisconnect M arguments w =
     (let w1 = updServer (\<lambda>s. s\<lparr>dap_debugging := False, dap_paused := False,
                                 dap_sources := (dap_sources s)(dap_currentSource s := None),
                                 dap_currentLine := 0, dap_currentSource := []\<rparr>) w
      in (Inr (JObject []), w1\<lparr>interpreter := cleanup M (interpreter w1)\<rparr>))"



text \<open>
  The loop of \<^verbatim>\<open>handleSetBreakpoints\<close>, with the response built so far. Each
  breakpoint takes two numbers from \<^verbatim>\<open>nextBreakpointId_\<close>: one in \<^verbatim>\<open>setBreakpoint\<close>, one
  for the response.
\<close>

fun setBreakpointsLoop :: "string \<Rightarrow> json list \<Rightarrow> json list \<Rightarrow> world \<Rightarrow> (error + json list) \<times> world" where
  "setBreakpointsLoop source [] response w = (Inr response, w)"
| "setBreakpointsLoop source (bp # rest) response w =
     (case (case jget bp ''line'' of Inl e \<Rightarrow> Inl e | Inr v \<Rightarrow> jint v) of
        Inl e \<Rightarrow> (Inl e, w)
      | Inr line \<Rightarrow>
          let w1 = updServer (setBreakpoint source line) w;
              i = dap_nextBreakpointId (dapServer w1);
              w2 = updServer (\<lambda>s. s\<lparr>dap_nextBreakpointId := i + 1\<rparr>) w1
          in setBreakpointsLoop source rest
               (response @ [JObject [(''id'', JInt i), (''verified'', JBool True),
                                     (''line'', JInt line)]]) w2)"

definition handleSetBreakpoints :: handler where
  "handleSetBreakpoints arguments w =
     (case (case jget arguments ''source'' of Inl e \<Rightarrow> Inl e | Inr s \<Rightarrow> jstringAt s ''path'') of
        Inl e \<Rightarrow> (Inl e, w)
      | Inr source \<Rightarrow>
          (case jget arguments ''breakpoints'' of
             Inl e \<Rightarrow> (Inl e, w)
           | Inr breakpoints \<Rightarrow>
               (case setBreakpointsLoop source (jitems breakpoints) [] w of
                  (Inl e, w1) \<Rightarrow> (Inl e, w1)
                | (Inr response, w1) \<Rightarrow>
                    (Inr (JObject [(''breakpoints'', JArray response)]), w1))))"
























subsection \<open>Dispatch\<close>




text \<open>
  The responses among what the process has written, in the order of writing: the documents
  of the frames whose \<open>type\<close> is \<open>response\<close>.
\<close>

fun responses :: "emitted list \<Rightarrow> json list" where
  "responses [] = []"
| "responses (ConsoleText s # rest) = responses rest"
| "responses (StdoutFrame j # rest) =
     (if jget j ''type'' = Inr (JString ''response'') then j # responses rest else responses rest)"
| "responses (SocketFrame j # rest) =
     (if jget j ''type'' = Inr (JString ''response'') then j # responses rest else responses rest)"

text \<open>
  \<^verbatim>\<open>LiteralNode::toString\<close>: the text of a literal; \<^verbatim>\<open>std::to_string\<close> of a \<open>bool\<close> is
  that of the integer 1 or 0.
\<close>

definition LiteralNode_toString :: "libenv \<Rightarrow> Value \<Rightarrow> string" where
  "LiteralNode_toString L v =
     (case v of
        VString s \<Rightarrow> [CHR 0x22] @ s @ [CHR 0x22]
      | VInt i \<Rightarrow> showInt i
      | VDouble x \<Rightarrow> to_string_double L x
      | VBool b \<Rightarrow> (if b then ''1'' else ''0''))"


section \<open>A library environment and a state for closed examples\<close>

text \<open>
  \<open>sampleLib\<close> is one library environment. It is right where the examples of this theory
  use it: a \<open>double\<close> of integral value below \<open>10^6\<close> in magnitude is written by
  \<^verbatim>\<open>operator<<\<close> as that integer, \<^verbatim>\<open>std::to_string\<close> writes an integral value with six
  zeros after the point, and \<^verbatim>\<open>std::stod\<close> reads digits with at most one point as the
  decimal number they write, rounded. Its other values are place holders.
\<close>

definition stodDecimal :: "string \<Rightarrow> real option" where
  "stodDecimal s =
     (let ip = takeWhile isdigit s;
          r = dropWhile isdigit s;
          fp = (if r \<noteq> [] \<and> hd r = CHR ''.'' then takeWhile isdigit (tl r) else [])
      in if ip = [] \<and> fp = [] then None
         else Some (real (decimalValue ip) + real (decimalValue fp) / 10 ^ length fp))"

definition sampleLib :: libenv where
  "sampleLib =
     \<lparr> ostream_double =
         (\<lambda>d. case d of
                Finite x \<Rightarrow> if x = of_int \<lfloor>x\<rfloor> \<and> \<bar>x\<bar> < 1000000 then showInt \<lfloor>x\<rfloor> else ''?''
              | NegZero \<Rightarrow> ''-0'' | PosInf \<Rightarrow> ''inf'' | NegInf \<Rightarrow> ''-inf'' | NaN \<Rightarrow> ''nan''),
       to_string_double =
         (\<lambda>d. case d of
                Finite x \<Rightarrow> if x = of_int \<lfloor>x\<rfloor> then showInt \<lfloor>x\<rfloor> @ ''.000000'' else ''?''
              | NegZero \<Rightarrow> ''-0.000000'' | PosInf \<Rightarrow> ''inf'' | NegInf \<Rightarrow> ''-inf''
              | NaN \<Rightarrow> ''nan''),
       lib_stod = (\<lambda>s. map_option rnd (stodDecimal s)),
       lib_pow = (\<lambda>x y. NaN),
       lib_sin = (\<lambda>x. NaN),
       lib_cos = (\<lambda>x. NaN),
       lib_tan = (\<lambda>x. NaN),
       lib_sqrt = (\<lambda>x. NaN),
       lib_log = (\<lambda>x. NaN),
       lib_exp = (\<lambda>x. NaN) \<rparr>"

text \<open>The state of a fresh interpreter that runs without a debug server.\<close>

definition st0 :: rstate where
  "st0 = \<lparr>variables = Map.empty, funcs = Map.empty, cin = [], out = [], dap = None\<rparr>"

text \<open>
  For closed examples: \<^verbatim>\<open>cleanup\<close> puts the interpreter back into the state of a new one,
  and \<^verbatim>\<open>valueToString\<close> writes a value as \<^verbatim>\<open>operator<<\<close> does.
\<close>

definition sampleAbsent :: absent where
  "sampleAbsent = \<lparr> cleanup = (\<lambda>bi. newInterpreter), valueToString = ostreamValue sampleLib \<rparr>"

text \<open>
  The process after \<^verbatim>\<open>main\<close> has started the debug server on the standard streams and made
  it known to the evaluator; no file can be read.
\<close>

definition w0 :: world where
  "w0 = \<lparr> interpreter = newInterpreter, dapServer = newServer\<lparr>dap_running := True\<rparr>,
          g_dapServer = True, w_cin = [], w_out = [], w_files = (\<lambda>path. []),
          w_net = \<lparr>net_socket = - 1, net_listen_ok = False, net_accept = - 1\<rparr> \<rparr>"

text \<open>
  The arguments of a \<open>launch\<close> request that brings the text of its program, and of a
  \<open>setBreakpoints\<close> request with one breakpoint.
\<close>

definition launchOf :: "string \<Rightarrow> string \<Rightarrow> json" where
  "launchOf path content =
     JObject [(''program'', JObject [(''path'', JString path), (''content'', JString content)])]"

definition breakpointsOf :: "string \<Rightarrow> int \<Rightarrow> json" where
  "breakpointsOf path line =
     JObject [(''source'', JObject [(''path'', JString path)]),
              (''breakpoints'', JArray [JObject [(''line'', JInt line)]])]"

section \<open>Properties of binary floating point\<close>

lemma roundEven_of_int: "roundEven (of_int n) = n"
  by (simp add: roundEven_def)

lemma ilog2_bounds:
  assumes "x \<noteq> 0"
  shows "2 powi ilog2 x \<le> \<bar>x\<bar> \<and> \<bar>x\<bar> < 2 powi (ilog2 x + 1)"
proof (cases "1 \<le> \<bar>x\<bar>")
  case True
  define n where "n = \<lfloor>\<bar>x\<bar>\<rfloor>"
  have n: "0 < n" using True by (simp add: n_def)
  have b: "1 \<le> bitlen n" using n bitlen_eq_zero_iff [of n] bitlen_nonneg [of n] by linarith
  from bitlen_bounds [OF n]
  have l: "2 ^ nat (bitlen n - 1) \<le> n" and u: "n < 2 ^ nat (bitlen n)" by simp_all
  have e: "ilog2 x = bitlen n - 1" using True by (simp add: ilog2_def n_def)
  have "(2::real) powi (bitlen n - 1) = 2 ^ nat (bitlen n - 1)"
    using b by (simp add: power_int_def)
  also have "\<dots> = of_int (2 ^ nat (bitlen n - 1))" by simp
  also have "\<dots> \<le> of_int n" using l by (simp only: of_int_le_iff)
  also have "\<dots> \<le> \<bar>x\<bar>" by (simp add: n_def)
  finally have lo: "2 powi (bitlen n - 1) \<le> \<bar>x\<bar>" .
  have "n + 1 \<le> 2 ^ nat (bitlen n)" using u by simp
  then have "(of_int (n + 1) :: real) \<le> of_int (2 ^ nat (bitlen n))" by (simp only: of_int_le_iff)
  moreover have "\<bar>x\<bar> < of_int (n + 1)" by (simp add: n_def)
  ultimately have "\<bar>x\<bar> < 2 ^ nat (bitlen n)" by simp
  moreover have "(2::real) powi (bitlen n - 1 + 1) = 2 ^ nat (bitlen n)"
    using b by (simp add: power_int_def)
  ultimately have hi: "\<bar>x\<bar> < 2 powi (bitlen n - 1 + 1)" by simp
  show ?thesis unfolding e using lo hi by blast
next
  case False
  define y where "y = 1 / \<bar>x\<bar>"
  define m where "m = \<lceil>y\<rceil> - 1"
  have x: "0 < \<bar>x\<bar>" "\<bar>x\<bar> < 1" using assms False by simp_all
  have y: "1 < y" using x by (simp add: y_def)
  have m: "0 < m" using y by (simp add: m_def)
  have b: "1 \<le> bitlen m" using m bitlen_eq_zero_iff [of m] bitlen_nonneg [of m] by linarith
  from bitlen_bounds [OF m]
  have l: "2 ^ nat (bitlen m - 1) \<le> m" and u: "m < 2 ^ nat (bitlen m)" by simp_all
  have e: "ilog2 x = - bitlen m" using False by (simp add: ilog2_def m_def y_def)
  have my: "of_int m < y" "y \<le> of_int m + 1" unfolding m_def by linarith+
  have "(2::real) ^ nat (bitlen m - 1) = of_int (2 ^ nat (bitlen m - 1))" by simp
  also have "\<dots> \<le> of_int m" using l by (simp only: of_int_le_iff)
  finally have ylo: "2 ^ nat (bitlen m - 1) < y" using my by linarith
  have "m + 1 \<le> 2 ^ nat (bitlen m)" using u by simp
  then have "(of_int (m + 1) :: real) \<le> of_int (2 ^ nat (bitlen m))" by (simp only: of_int_le_iff)
  then have yhi: "y \<le> 2 ^ nat (bitlen m)" using my by simp
  have p1: "(2::real) powi (- bitlen m) = 1 / 2 ^ nat (bitlen m)"
    using b by (simp add: power_int_def field_simps)
  have p2: "(2::real) powi (- bitlen m + 1) = 1 / 2 ^ nat (bitlen m - 1)"
    using b by (simp add: power_int_def field_simps)
  have xy: "\<bar>x\<bar> = 1 / y" using x by (simp add: y_def)
  have lo: "2 powi (- bitlen m) \<le> \<bar>x\<bar>"
    unfolding p1 xy using yhi y by (simp add: field_simps)
  have hi: "\<bar>x\<bar> < 2 powi (- bitlen m + 1)"
    unfolding p2 xy using ylo y by (simp add: field_simps)
  show ?thesis unfolding e using lo hi by blast
qed

lemma ilog2_small:
  assumes "1 \<le> \<bar>x\<bar>" and "\<bar>x\<bar> \<le> 2 ^ 53"
  shows "0 \<le> ilog2 x \<and> ilog2 x \<le> 53"
proof -
  have x: "x \<noteq> 0" using assms(1) by auto
  from ilog2_bounds [OF x]
  have lo: "2 powi ilog2 x \<le> \<bar>x\<bar>" and hi: "\<bar>x\<bar> < 2 powi (ilog2 x + 1)" by simp_all
  have "0 \<le> ilog2 x"
  proof (rule ccontr)
    assume "\<not> 0 \<le> ilog2 x"
    then have "ilog2 x + 1 \<le> 0" by simp
    then have "(2::real) powi (ilog2 x + 1) \<le> 1"
      by (simp add: power_int_def power_le_one_iff inverse_eq_divide field_simps)
    then show False using hi assms(1) by linarith
  qed
  moreover have "ilog2 x \<le> 53"
  proof (rule ccontr)
    assume "\<not> ilog2 x \<le> 53"
    then have g: "54 \<le> nat (ilog2 x)" by simp
    have "(2::real) ^ 54 \<le> 2 ^ nat (ilog2 x)" using g by (intro power_increasing) simp_all
    moreover have "(2::real) powi ilog2 x = 2 ^ nat (ilog2 x)" using g by (simp add: power_int_def)
    ultimately have "(2::real) ^ 54 \<le> \<bar>x\<bar>" using lo by simp
    then show False using assms(2) by simp
  qed
  ultimately show ?thesis by simp
qed

text \<open>An integer of magnitude up to \<open>2 ^ 53\<close> is a binary64 number: rounding keeps it.\<close>

lemma rnd_int:
  assumes "\<bar>k\<bar> \<le> 2 ^ 53"
  shows "rnd (of_int k) = Finite (of_int k)"
proof (cases "k = 0")
  case True
  then show ?thesis by (simp add: rnd_def)
next
  case False
  let ?x = "of_int k :: real"
  have a: "1 \<le> \<bar>?x\<bar>" using False by (simp flip: of_int_abs)
  have b: "\<bar>?x\<bar> \<le> 2 ^ 53"
    using assms by (metis of_int_abs of_int_le_iff of_int_numeral of_int_power)
  define e where "e = ilog2 ?x"
  have e: "0 \<le> e" "e \<le> 53" using ilog2_small [OF a b] by (simp_all add: e_def)
  have u: "ulpExp ?x = e - 52" using e by (simp add: ulpExp_def e_def)
  have le: "2 ^ nat e \<le> \<bar>?x\<bar>"
  proof -
    have "?x \<noteq> 0" using False by simp
    from ilog2_bounds [OF this] have "2 powi e \<le> \<bar>?x\<bar>" by (simp add: e_def)
    then show ?thesis using e by (simp add: power_int_def)
  qed
  have ex: "\<exists>m::int. ?x / 2 powi (e - 52) = of_int m"
  proof (cases "e \<le> 52")
    case True
    then have "(2::real) powi (e - 52) = 1 / 2 ^ nat (52 - e)"
      by (simp add: power_int_def divide_simps)
    then have "?x / 2 powi (e - 52) = of_int (k * 2 ^ nat (52 - e))" by simp
    then show ?thesis by blast
  next
    case False
    then have e53: "e = 53" using e by simp
    have "\<bar>?x\<bar> = 2 ^ 53" using le b unfolding e53 by simp
    then have "\<bar>k\<bar> = 2 ^ 53"
      by (metis of_int_abs of_int_eq_iff of_int_numeral of_int_power)
    then have "k = 2 * 2 ^ 52 \<or> k = 2 * (- (2 ^ 52))" by (simp add: abs_if split: if_splits)
    then obtain m :: int where "k = 2 * m" by blast
    then have "?x / 2 powi (e - 52) = of_int m" unfolding e53 by simp
    then show ?thesis by blast
  qed
  then obtain m :: int where m: "?x / 2 powi (e - 52) = of_int m" by blast
  have q: "(2::real) powi (e - 52) \<noteq> 0" by simp
  have r: "of_int (roundEven (?x / 2 powi (e - 52))) * 2 powi (e - 52) = ?x"
    unfolding m roundEven_of_int using m q by (simp add: field_simps)
  have big: "\<not> (2::real) ^ 1024 \<le> \<bar>?x\<bar>"
  proof -
    have "(2::real) ^ 53 < 2 ^ 1024" by (rule power_strict_increasing) simp_all
    then show ?thesis using b by linarith
  qed
  have nz: "?x \<noteq> 0" using False by simp
  show ?thesis
    unfolding rnd_def u Let_def r using nz big by simp
qed

lemma rnd_Ints: "x \<in> \<int> \<Longrightarrow> \<bar>x\<bar> \<le> 2 ^ 53 \<Longrightarrow> rnd x = Finite x"
proof -
  assume a: "x \<in> \<int>" and b: "\<bar>x\<bar> \<le> 2 ^ 53"
  from a obtain k :: int where k: "x = of_int k" by (auto elim: Ints_cases)
  have "\<bar>k\<bar> \<le> 2 ^ 53"
    using b unfolding k by (metis of_int_abs of_int_le_iff of_int_numeral of_int_power)
  then show ?thesis unfolding k by (rule rnd_int)
qed

lemma rnd_not_nan: "\<not> isnan (rnd x)"
  by (simp add: rnd_def Let_def signedInf_def signedZero_def)

lemma dadd_Ints:
  "x \<in> \<int> \<Longrightarrow> y \<in> \<int> \<Longrightarrow> \<bar>x + y\<bar> \<le> 2 ^ 53 \<Longrightarrow> dadd (Finite x) (Finite y) = Finite (x + y)"
  by (simp add: dadd_def rnd_Ints)

lemma dmul_Ints:
  "x \<in> \<int> \<Longrightarrow> y \<in> \<int> \<Longrightarrow> x \<noteq> 0 \<Longrightarrow> y \<noteq> 0 \<Longrightarrow> \<bar>x * y\<bar> \<le> 2 ^ 53 \<Longrightarrow>
   dmul (Finite x) (Finite y) = Finite (x * y)"
  by (simp add: dmul_def rnd_Ints)

lemma dadd_not_nan: "\<not> isnan a \<Longrightarrow> isfinite b \<Longrightarrow> \<not> isnan (dadd a b)"
  by (cases a; cases b) (simp_all add: dadd_def rnd_not_nan)

lemma dle_not_dless: "\<not> isnan a \<Longrightarrow> \<not> isnan b \<Longrightarrow> dle a b = (\<not> dless b a)"
  by (cases a; cases b) (auto simp: dle_def dless_def deq_def)

lemma deq_sym: "deq a b = deq b a"
  by (cases a; cases b) (auto simp: deq_def)

lemma small_sums:
  "dadd (Finite 1) (Finite 1) = Finite 2" "dadd (Finite 2) (Finite 1) = Finite 3"
  "dadd (Finite 3) (Finite 1) = Finite 4" "dadd (Finite 4) (Finite 1) = Finite 5"
  "dadd (Finite 5) (Finite 1) = Finite 6"
  "dadd (Finite 5) (Finite (- 1)) = Finite 4" "dadd (Finite 4) (Finite (- 1)) = Finite 3"
  "dadd (Finite 3) (Finite (- 1)) = Finite 2" "dadd (Finite 2) (Finite (- 1)) = Finite 1"
  "dadd (Finite 1) (Finite (- 1)) = Finite 0"
  "dmul (Finite 2) (Finite 2) = Finite 4" "dadd (Finite 2) (Finite 4) = Finite 6"
  "dadd (Finite 2) (Finite 3) = Finite 5"
  by (simp_all add: dadd_Ints dmul_Ints)

text \<open>
  Rounding at numbers that are not binary fractions. \<open>rnd_eval\<close> computes a rounding from
  the exponent of the leading bit; the lemmas after it are the \<open>double\<close>s nearest to
  \<open>0.1\<close>, \<open>0.2\<close> and \<open>0.3\<close>, and the eleven sums that a loop from 0 in steps of \<open>0.1\<close>
  goes through.
\<close>

lemma dadd_Finite: "dadd (Finite x) (Finite y) = rnd (x + y)"
  by (simp add: dadd_def)

lemma rnd_eval:
  assumes "ilog2 x = e" and "- 1022 \<le> e" and "2 powi (e - 52) = q"
    and "roundEven (x / q) = m" and "of_int m * q = r" and "r \<noteq> 0" and "\<bar>r\<bar> < 2 ^ 1024"
  shows "rnd x = Finite r"
proof -
  have "x \<noteq> 0" using assms(4,5,6) by (auto simp: roundEven_def)
  then show ?thesis using assms by (simp add: rnd_def ulpExp_def Let_def)
qed




lemma tenths_1:
  "dadd (Finite 0) (Finite (3602879701896397 / 36028797018963968))
   = Finite (3602879701896397 / 36028797018963968)"
  unfolding dadd_Finite add_0
proof (rule rnd_eval)
  show "ilog2 (3602879701896397 / 36028797018963968) = - 4" by code_simp
  show "(2::real) powi (- 4 - 52) = 1 / 72057594037927936" by code_simp
  show "roundEven ((3602879701896397 / 36028797018963968) / (1 / 72057594037927936)) = 7205759403792794" by code_simp
  show "real_of_int 7205759403792794 * (1 / 72057594037927936) = 3602879701896397 / 36028797018963968" by simp
qed simp_all

lemma tenths_2:
  "dadd (Finite (3602879701896397 / 36028797018963968)) (Finite (3602879701896397 / 36028797018963968))
   = Finite (3602879701896397 / 18014398509481984)"
  unfolding dadd_Finite
proof (rule rnd_eval)
  show "ilog2 (3602879701896397 / 36028797018963968 + 3602879701896397 / 36028797018963968) = - 3" by code_simp
  show "(2::real) powi (- 3 - 52) = 1 / 36028797018963968" by code_simp
  show "roundEven ((3602879701896397 / 36028797018963968 + 3602879701896397 / 36028797018963968) / (1 / 36028797018963968)) = 7205759403792794" by code_simp
  show "real_of_int 7205759403792794 * (1 / 36028797018963968) = 3602879701896397 / 18014398509481984" by simp
qed simp_all

lemma tenths_3:
  "dadd (Finite (3602879701896397 / 18014398509481984)) (Finite (3602879701896397 / 36028797018963968))
   = Finite (1351079888211149 / 4503599627370496)"
  unfolding dadd_Finite
proof (rule rnd_eval)
  show "ilog2 (3602879701896397 / 18014398509481984 + 3602879701896397 / 36028797018963968) = - 2" by code_simp
  show "(2::real) powi (- 2 - 52) = 1 / 18014398509481984" by code_simp
  show "roundEven ((3602879701896397 / 18014398509481984 + 3602879701896397 / 36028797018963968) / (1 / 18014398509481984)) = 5404319552844596" by code_simp
  show "real_of_int 5404319552844596 * (1 / 18014398509481984) = 1351079888211149 / 4503599627370496" by simp
qed simp_all

lemma tenths_4:
  "dadd (Finite (1351079888211149 / 4503599627370496)) (Finite (3602879701896397 / 36028797018963968))
   = Finite (3602879701896397 / 9007199254740992)"
  unfolding dadd_Finite
proof (rule rnd_eval)
  show "ilog2 (1351079888211149 / 4503599627370496 + 3602879701896397 / 36028797018963968) = - 2" by code_simp
  show "(2::real) powi (- 2 - 52) = 1 / 18014398509481984" by code_simp
  show "roundEven ((1351079888211149 / 4503599627370496 + 3602879701896397 / 36028797018963968) / (1 / 18014398509481984)) = 7205759403792794" by code_simp
  show "real_of_int 7205759403792794 * (1 / 18014398509481984) = 3602879701896397 / 9007199254740992" by simp
qed simp_all

lemma tenths_5:
  "dadd (Finite (3602879701896397 / 9007199254740992)) (Finite (3602879701896397 / 36028797018963968))
   = Finite (1 / 2)"
  unfolding dadd_Finite
proof (rule rnd_eval)
  show "ilog2 (3602879701896397 / 9007199254740992 + 3602879701896397 / 36028797018963968) = - 1" by code_simp
  show "(2::real) powi (- 1 - 52) = 1 / 9007199254740992" by code_simp
  show "roundEven ((3602879701896397 / 9007199254740992 + 3602879701896397 / 36028797018963968) / (1 / 9007199254740992)) = 4503599627370496" by code_simp
  show "real_of_int 4503599627370496 * (1 / 9007199254740992) = 1 / 2" by simp
qed simp_all

lemma tenths_6:
  "dadd (Finite (1 / 2)) (Finite (3602879701896397 / 36028797018963968))
   = Finite (5404319552844595 / 9007199254740992)"
  unfolding dadd_Finite
proof (rule rnd_eval)
  show "ilog2 (1 / 2 + 3602879701896397 / 36028797018963968) = - 1" by code_simp
  show "(2::real) powi (- 1 - 52) = 1 / 9007199254740992" by code_simp
  show "roundEven ((1 / 2 + 3602879701896397 / 36028797018963968) / (1 / 9007199254740992)) = 5404319552844595" by code_simp
  show "real_of_int 5404319552844595 * (1 / 9007199254740992) = 5404319552844595 / 9007199254740992" by simp
qed simp_all

lemma tenths_7:
  "dadd (Finite (5404319552844595 / 9007199254740992)) (Finite (3602879701896397 / 36028797018963968))
   = Finite (3152519739159347 / 4503599627370496)"
  unfolding dadd_Finite
proof (rule rnd_eval)
  show "ilog2 (5404319552844595 / 9007199254740992 + 3602879701896397 / 36028797018963968) = - 1" by code_simp
  show "(2::real) powi (- 1 - 52) = 1 / 9007199254740992" by code_simp
  show "roundEven ((5404319552844595 / 9007199254740992 + 3602879701896397 / 36028797018963968) / (1 / 9007199254740992)) = 6305039478318694" by code_simp
  show "real_of_int 6305039478318694 * (1 / 9007199254740992) = 3152519739159347 / 4503599627370496" by simp
qed simp_all

lemma tenths_8:
  "dadd (Finite (3152519739159347 / 4503599627370496)) (Finite (3602879701896397 / 36028797018963968))
   = Finite (7205759403792793 / 9007199254740992)"
  unfolding dadd_Finite
proof (rule rnd_eval)
  show "ilog2 (3152519739159347 / 4503599627370496 + 3602879701896397 / 36028797018963968) = - 1" by code_simp
  show "(2::real) powi (- 1 - 52) = 1 / 9007199254740992" by code_simp
  show "roundEven ((3152519739159347 / 4503599627370496 + 3602879701896397 / 36028797018963968) / (1 / 9007199254740992)) = 7205759403792793" by code_simp
  show "real_of_int 7205759403792793 * (1 / 9007199254740992) = 7205759403792793 / 9007199254740992" by simp
qed simp_all

lemma tenths_9:
  "dadd (Finite (7205759403792793 / 9007199254740992)) (Finite (3602879701896397 / 36028797018963968))
   = Finite (2026619832316723 / 2251799813685248)"
  unfolding dadd_Finite
proof (rule rnd_eval)
  show "ilog2 (7205759403792793 / 9007199254740992 + 3602879701896397 / 36028797018963968) = - 1" by code_simp
  show "(2::real) powi (- 1 - 52) = 1 / 9007199254740992" by code_simp
  show "roundEven ((7205759403792793 / 9007199254740992 + 3602879701896397 / 36028797018963968) / (1 / 9007199254740992)) = 8106479329266892" by code_simp
  show "real_of_int 8106479329266892 * (1 / 9007199254740992) = 2026619832316723 / 2251799813685248" by simp
qed simp_all

lemma tenths_10:
  "dadd (Finite (2026619832316723 / 2251799813685248)) (Finite (3602879701896397 / 36028797018963968))
   = Finite (9007199254740991 / 9007199254740992)"
  unfolding dadd_Finite
proof (rule rnd_eval)
  show "ilog2 (2026619832316723 / 2251799813685248 + 3602879701896397 / 36028797018963968) = - 1" by code_simp
  show "(2::real) powi (- 1 - 52) = 1 / 9007199254740992" by code_simp
  show "roundEven ((2026619832316723 / 2251799813685248 + 3602879701896397 / 36028797018963968) / (1 / 9007199254740992)) = 9007199254740991" by code_simp
  show "real_of_int 9007199254740991 * (1 / 9007199254740992) = 9007199254740991 / 9007199254740992" by simp
qed simp_all

lemma tenths_11:
  "dadd (Finite (9007199254740991 / 9007199254740992)) (Finite (3602879701896397 / 36028797018963968))
   = Finite (4953959590107545 / 4503599627370496)"
  unfolding dadd_Finite
proof (rule rnd_eval)
  show "ilog2 (9007199254740991 / 9007199254740992 + 3602879701896397 / 36028797018963968) = 0" by code_simp
  show "(2::real) powi (0 - 52) = 1 / 4503599627370496" by code_simp
  show "roundEven ((9007199254740991 / 9007199254740992 + 3602879701896397 / 36028797018963968) / (1 / 4503599627370496)) = 4953959590107545" by code_simp
  show "real_of_int 4953959590107545 * (1 / 4503599627370496) = 4953959590107545 / 4503599627370496" by simp
qed simp_all


section \<open>Properties of the evaluator\<close>

lemma fmod_abs: "y \<noteq> 0 \<Longrightarrow> \<bar>fmod x y\<bar> < \<bar>y\<bar>"
proof -
  assume y: "y \<noteq> 0"
  define q where "q = x / y"
  have r: "fmod x y = (q - of_int (trunc q)) * y"
    using y by (simp add: fmod_def q_def algebra_simps)
  have "\<bar>q - of_int (trunc q)\<bar> < 1"
    unfolding trunc_def by (auto; linarith)
  then have "\<bar>q - of_int (trunc q)\<bar> * \<bar>y\<bar> < 1 * \<bar>y\<bar>"
    using y by (intro mult_strict_right_mono) auto
  then show ?thesis by (simp add: r abs_mult)
qed

lemma tokenize_division: "tokenize ''1/0'' =
   Inr [mkToken NUMBER ''1'' 1 1, mkToken DIVIDE ''/'' 1 2, mkToken NUMBER ''0'' 1 3,
        mkToken EOF_TOKEN [] 1 4]"
  by code_simp

lemma parse_division: "Parser_parseLine L 10
     [mkToken NUMBER ''1'' 1 1, mkToken DIVIDE ''/'' 1 2, mkToken NUMBER ''0'' 1 3,
      mkToken EOF_TOKEN [] 1 4]
   = Parsed (BinaryExpressionNode 0 NUMBER (LiteralNode 0 (VInt 1)) (LiteralNode 0 (VInt 0))) 3"
  by code_simp

lemma tokenize_modulo: "tokenize ''1%0'' =
   Inr [mkToken NUMBER ''1'' 1 1, mkToken MOD ''%'' 1 2, mkToken NUMBER ''0'' 1 3,
        mkToken EOF_TOKEN [] 1 4]"
  by code_simp

lemma parse_modulo: "Parser_parseLine L 10
     [mkToken NUMBER ''1'' 1 1, mkToken MOD ''%'' 1 2, mkToken NUMBER ''0'' 1 3,
      mkToken EOF_TOKEN [] 1 4]
   = Parsed (BinaryExpressionNode 0 NUMBER (LiteralNode 0 (VInt 1)) (LiteralNode 0 (VInt 0))) 3"
  by code_simp

lemma execute_number_operator:
  "execute L 10 (BinaryExpressionNode 0 NUMBER (LiteralNode 0 (VInt 1)) (LiteralNode 0 (VInt 0))) st
   = (Inr (VInt 0), st)"
  by (simp add: eval_nat_numeral applyBinary_def)

lemma execute_division_node:
  "execute L 10 (BinaryExpressionNode 0 DIVIDE (LiteralNode 0 (VInt 1)) (LiteralNode 0 (VInt 0))) st
   = (Inl (RuntimeError ''Division by zero''), st)"
  by (simp add: eval_nat_numeral applyBinary_def divide_v_def ofInt_def deq_def)

lemma execute_modulo_node:
  "execute L 10 (BinaryExpressionNode 0 MOD (LiteralNode 0 (VInt 1)) (LiteralNode 0 (VInt 0))) st
   = (Inl (RuntimeError ''Modulo by zero''), st)"
  by (simp add: eval_nat_numeral applyBinary_def modulo_v_def ofInt_def deq_def)

text \<open>
  C2. \<^verbatim>\<open>Runtime::divide\<close> and \<^verbatim>\<open>Runtime::modulo\<close> on numeric operands: a right operand
  equal to zero raises the runtime error of the operator and returns no value; a right
  operand that is not zero gives the quotient of the two \<open>double\<close>s, and the remainder of
  \<^verbatim>\<open>std::fmod\<close>, without error. For finite operands other than zero the quotient is the
  exact quotient, rounded, and the remainder is the left operand minus a whole multiple of
  the right one, smaller in magnitude than the right operand. A node with the operator
  \<open>/\<close> or \<open>%\<close> and the operands 1 and 0 raises the error. The texts \<open>1/0\<close> and \<open>1%0\<close> raise
  none and evaluate to the integer 0: the parser stores as operator the type of the token
  after the operator, so the two helpers are not reached.
\<close>

theorem division_modulo_by_zero:
  assumes "isNumeric a" and "isNumeric b"
  shows "(deq (numericOr (Finite 0) b) (Finite 0) \<longrightarrow>
            applyBinary L DIVIDE a b = Inl (RuntimeError ''Division by zero'')
          \<and> applyBinary L MOD a b = Inl (RuntimeError ''Modulo by zero''))
       \<and> (\<not> deq (numericOr (Finite 0) b) (Finite 0) \<longrightarrow>
            applyBinary L DIVIDE a b
              = Inr (VDouble (ddiv (numericOr (Finite 0) a) (numericOr (Finite 0) b)))
          \<and> applyBinary L MOD a b
              = Inr (VDouble (dfmod (numericOr (Finite 0) a) (numericOr (Finite 0) b))))
       \<and> (x \<noteq> 0 \<and> y \<noteq> 0 \<longrightarrow>
            ddiv (Finite x) (Finite y) = rnd (x / y)
          \<and> valueOf (dfmod (Finite x) (Finite y)) = fmod x y
          \<and> \<bar>fmod x y\<bar> < \<bar>y\<bar>
          \<and> (\<exists>k::int. fmod x y = x - of_int k * y))
       \<and> execute L 10 (BinaryExpressionNode 0 DIVIDE (LiteralNode 0 (VInt 1))
                          (LiteralNode 0 (VInt 0))) st
           = (Inl (RuntimeError ''Division by zero''), st)
       \<and> execute L 10 (BinaryExpressionNode 0 MOD (LiteralNode 0 (VInt 1))
                          (LiteralNode 0 (VInt 0))) st
           = (Inl (RuntimeError ''Modulo by zero''), st)
       \<and> evaluateExpression L 10 ''1/0'' st = (Inr (VInt 0), st)
       \<and> evaluateExpression L 10 ''1%0'' st = (Inr (VInt 0), st)"
proof (intro conjI impI)
  assume z: "deq (numericOr (Finite 0) b) (Finite 0)"
  show "applyBinary L DIVIDE a b = Inl (RuntimeError ''Division by zero'')"
    using assms z by (simp add: applyBinary_def divide_v_def)
  show "applyBinary L MOD a b = Inl (RuntimeError ''Modulo by zero'')"
    using assms z by (simp add: applyBinary_def modulo_v_def)
next
  assume nz: "\<not> deq (numericOr (Finite 0) b) (Finite 0)"
  show "applyBinary L DIVIDE a b
          = Inr (VDouble (ddiv (numericOr (Finite 0) a) (numericOr (Finite 0) b)))"
    using assms nz by (simp add: applyBinary_def divide_v_def)
  show "applyBinary L MOD a b
          = Inr (VDouble (dfmod (numericOr (Finite 0) a) (numericOr (Finite 0) b)))"
    using assms nz by (simp add: applyBinary_def modulo_v_def)
next
  assume n: "x \<noteq> 0 \<and> y \<noteq> 0"
  show "ddiv (Finite x) (Finite y) = rnd (x / y)" using n by (simp add: ddiv_def)
  show "valueOf (dfmod (Finite x) (Finite y)) = fmod x y"
    using n by (simp add: dfmod_def Let_def signedZero_def)
  show "\<bar>fmod x y\<bar> < \<bar>y\<bar>" using n by (simp add: fmod_abs)
  show "\<exists>k::int. fmod x y = x - of_int k * y" unfolding fmod_def by blast
next
  show "execute L 10 (BinaryExpressionNode 0 DIVIDE (LiteralNode 0 (VInt 1))
                          (LiteralNode 0 (VInt 0))) st
           = (Inl (RuntimeError ''Division by zero''), st)"
    by (rule execute_division_node)
  show "execute L 10 (BinaryExpressionNode 0 MOD (LiteralNode 0 (VInt 1))
                          (LiteralNode 0 (VInt 0))) st
           = (Inl (RuntimeError ''Modulo by zero''), st)"
    by (rule execute_modulo_node)
  show "evaluateExpression L 10 ''1/0'' st = (Inr (VInt 0), st)"
    by (simp add: evaluateExpression_def tokenize_division parse_division execute_number_operator)
  show "evaluateExpression L 10 ''1%0'' st = (Inr (VInt 0), st)"
    by (simp add: evaluateExpression_def tokenize_modulo parse_modulo execute_number_operator)
qed

theorem division_modulo_by_zero_witness:
  "isNumeric (VInt 7) \<and> isNumeric (VDouble (Finite 0)) \<and> isNumeric (VInt 2)
   \<and> deq (numericOr (Finite 0) (VDouble (Finite 0))) (Finite 0)
   \<and> applyBinary sampleLib DIVIDE (VInt 7) (VDouble (Finite 0))
       = Inl (RuntimeError ''Division by zero'')
   \<and> applyBinary sampleLib MOD (VInt 7) (VDouble (Finite 0))
       = Inl (RuntimeError ''Modulo by zero'')
   \<and> \<not> deq (numericOr (Finite 0) (VInt 2)) (Finite 0)
   \<and> applyBinary sampleLib DIVIDE (VInt 7) (VInt 2) = Inr (VDouble (rnd (7 / 2)))
   \<and> applyBinary sampleLib MOD (VInt 7) (VInt 2) = Inr (VDouble (Finite 1))
   \<and> evaluateExpression sampleLib 10 ''1/0'' st0 = (Inr (VInt 0), st0)"
proof -
  have f: "fmod 7 2 = 1" by (simp add: fmod_def trunc_def)
  note A = division_modulo_by_zero [where a = "VInt 7" and b = "VDouble (Finite 0)" and x = 7
      and y = 2 and L = sampleLib and st = st0]
  note B = division_modulo_by_zero [where a = "VInt 7" and b = "VInt 2" and x = 7 and y = 2
      and L = sampleLib and st = st0]
  have h: "isNumeric (VInt 7)" "isNumeric (VDouble (Finite 0))" "isNumeric (VInt 2)"
    "deq (numericOr (Finite 0) (VDouble (Finite 0))) (Finite 0)"
    "\<not> deq (numericOr (Finite 0) (VInt 2)) (Finite 0)"
    by (simp_all add: deq_def ofInt_def)
  have a: "applyBinary sampleLib DIVIDE (VInt 7) (VDouble (Finite 0))
             = Inl (RuntimeError ''Division by zero'')"
    "applyBinary sampleLib MOD (VInt 7) (VDouble (Finite 0))
             = Inl (RuntimeError ''Modulo by zero'')"
    using A h by blast+
  have b1: "applyBinary sampleLib DIVIDE (VInt 7) (VInt 2)
             = Inr (VDouble (ddiv (numericOr (Finite 0) (VInt 7)) (numericOr (Finite 0) (VInt 2))))"
    using B h by blast
  have b2: "applyBinary sampleLib MOD (VInt 7) (VInt 2)
             = Inr (VDouble (dfmod (numericOr (Finite 0) (VInt 7)) (numericOr (Finite 0) (VInt 2))))"
    using B h by blast
  have b3: "ddiv (Finite 7) (Finite 2) = rnd (7 / 2)" using B by simp
  have b4: "dfmod (Finite 7) (Finite 2) = Finite 1" by (simp add: dfmod_def f)
  have c: "evaluateExpression sampleLib 10 ''1/0'' st0 = (Inr (VInt 0), st0)"
    using B h by blast
  show ?thesis using h a b1 b2 b3 b4 c by (simp add: ofInt_def)
qed

text \<open>
  From the text of a program no binary node carries a comparison or the addition as its
  operator: \<open>parseExpression\<close> stores the type of the token after the operator. The
  properties of the comparisons and of the addition below are about the operators of the
  evaluator.
\<close>

lemma tokenize_less: "tokenize ''1<2'' =
   Inr [mkToken NUMBER ''1'' 1 1, mkToken LESS ''<'' 1 2, mkToken NUMBER ''2'' 1 3,
        mkToken EOF_TOKEN [] 1 4]"
  by code_simp

lemma parse_less: "Parser_parseLine L 10
     [mkToken NUMBER ''1'' 1 1, mkToken LESS ''<'' 1 2, mkToken NUMBER ''2'' 1 3,
      mkToken EOF_TOKEN [] 1 4]
   = Parsed (BinaryExpressionNode 0 NUMBER (LiteralNode 0 (VInt 1)) (LiteralNode 0 (VInt 2))) 3"
  by code_simp

lemma tokenize_concat: "tokenize ''\"a\"+\"b\"'' =
   Inr [mkToken STRING ''a'' 1 1, mkToken PLUS ''+'' 1 4, mkToken STRING ''b'' 1 5,
        mkToken EOF_TOKEN [] 1 8]"
  by code_simp

lemma parse_concat: "Parser_parseLine L 10
     [mkToken STRING ''a'' 1 1, mkToken PLUS ''+'' 1 4, mkToken STRING ''b'' 1 5,
      mkToken EOF_TOKEN [] 1 8]
   = Parsed (BinaryExpressionNode 0 STRING (LiteralNode 0 (VString ''a''))
               (LiteralNode 0 (VString ''b''))) 3"
  by code_simp

lemma execute_operand_operator:
  "execute L 10 (BinaryExpressionNode 0 NUMBER (LiteralNode 0 (VInt 1)) (LiteralNode 0 (VInt 2))) st
   = (Inr (VInt 0), st)"
  "execute L 10 (BinaryExpressionNode 0 STRING (LiteralNode 0 (VString ''a''))
                   (LiteralNode 0 (VString ''b''))) st
   = (Inr (VInt 0), st)"
  by (simp_all add: eval_nat_numeral applyBinary_def)

lemma operators_from_text:
  "evaluateExpression L 10 ''1<2'' st = (Inr (VInt 0), st)"
  "evaluateExpression L 10 ''\"a\"+\"b\"'' st = (Inr (VInt 0), st)"
  by (simp_all add: evaluateExpression_def tokenize_less parse_less tokenize_concat parse_concat
        execute_operand_operator)








text \<open>
  C10. Reading a name that the variable store does not hold, by \<^verbatim>\<open>Variables::get\<close> or by
  evaluating an identifier node, fails in no way: it gives the integer \<open>0\<close>, and the store
  (with the rest of the state) is as before.
\<close>

theorem undefined_variable_reads_zero:
  assumes "variables st name = None"
  shows "Variables_get (variables st) name = VInt 0
       \<and> execute L (Suc n) (IdentifierNode line name) st = (Inr (VInt 0), st)"
  using assms by (simp add: Variables_get_def)

theorem undefined_variable_reads_zero_witness:
  "variables st0 ''X'' = None
   \<and> Variables_get (variables st0) ''X'' = VInt 0
   \<and> execute sampleLib (Suc 0) (IdentifierNode 1 ''X'') st0 = (Inr (VInt 0), st0)"
  using undefined_variable_reads_zero [of st0 "''X''" sampleLib 0 1]
  by (simp add: st0_def)

lemma forLoop_forSpec:
  "variables st v = Some (VDouble x) \<Longrightarrow> \<not> isnan x \<Longrightarrow> \<not> isnan e \<Longrightarrow> isfinite t \<Longrightarrow>
   forLoop exec k v e t body st = forSpec exec k v x e t body st"
proof (induction k arbitrary: st x)
  case 0
  then show ?case by simp
next
  case (Suc k)
  obtain r st1 where p: "exec body st = (r, st1)" by (cases "exec body st")
  have c: "dle x e = (\<not> dless e x)" "dle e x = (\<not> dless x e)"
    using Suc.prems by (simp_all add: dle_not_dless)
  show ?case
  proof (cases r)
    case (Inl err)
    then show ?thesis using Suc.prems p c by (auto simp: Variables_get_def Let_def)
  next
    case (Inr val)
    have n: "\<not> isnan (dadd x t)" using Suc.prems by (simp add: dadd_not_nan)
    have "forLoop exec k v e t body
            (st1\<lparr>variables := Variables_set (variables st1) v (VDouble (dadd x t))\<rparr>)
        = forSpec exec k v (dadd x t) e t body
            (st1\<lparr>variables := Variables_set (variables st1) v (VDouble (dadd x t))\<rparr>)"
      using n Suc.prems by (intro Suc.IH) (simp_all add: Variables_set_def)
    then show ?thesis using Suc.prems Inr p c
      by (auto simp: Variables_get_def Let_def Variables_set_def)
  qed
qed

lemma for_ascending:
  "dap st = None \<Longrightarrow>
   execute L 10 (ForStatementNode l0 ''I'' (LiteralNode l1 (VInt 1)) (LiteralNode l2 (VInt 5)) Null
                   (PrintStatementNode l3 [IdentifierNode l4 ''I''])) st
   = (Inr (VInt 0), st\<lparr>variables := (variables st)(''I'' \<mapsto> VDouble (Finite 6)),
         out := out st @ map (\<lambda>x. ConsoleText (ostream_double L (Finite x) @ [CHR 0x0A]))
                             [1, 2, 3, 4, 5]\<rparr>)"
  by (simp add: eval_nat_numeral Variables_set_def Variables_get_def printOutput_def Let_def
        ofInt_def dless_def small_sums)

lemma for_descending:
  "dap st = None \<Longrightarrow>
   execute L 10 (ForStatementNode l0 ''I'' (LiteralNode l1 (VInt 5)) (LiteralNode l2 (VInt 1))
                   (UnaryExpressionNode l5 MINUS (LiteralNode l6 (VInt 1)))
                   (PrintStatementNode l3 [IdentifierNode l4 ''I''])) st
   = (Inr (VInt 0), st\<lparr>variables := (variables st)(''I'' \<mapsto> VDouble (Finite 0)),
         out := out st @ map (\<lambda>x. ConsoleText (ostream_double L (Finite x) @ [CHR 0x0A]))
                             [5, 4, 3, 2, 1]\<rparr>)"
  by (simp add: eval_nat_numeral Variables_set_def Variables_get_def printOutput_def Let_def
        unaryMinus_def toInt32_def ofInt_def dless_def small_sums)

lemma Variables_set_upd: "Variables_set vs v x = vs(v \<mapsto> x)"
  by (auto simp: Variables_set_def)

lemma execute_print_variable:
  "dap st = None \<Longrightarrow> variables st v = Some (VDouble x) \<Longrightarrow>
   execute L (Suc (Suc m)) (PrintStatementNode l3 [IdentifierNode l4 v]) st
   = (Inr (VInt 0), st\<lparr>out := out st @ [ConsoleText (ostream_double L x @ [CHR 0x0A])]\<rparr>)"
  by (simp add: Variables_get_def printOutput_def)

lemma forLoop_print_run:
  "dap st = None \<Longrightarrow> dless (Finite 0) t \<Longrightarrow> variables st v = Some (VDouble x) \<Longrightarrow>
   successively (\<lambda>a b. b = dadd a t) (x # xs @ [z]) \<Longrightarrow>
   list_all (\<lambda>y. \<not> dless e y) (x # xs) \<Longrightarrow> dless e z \<Longrightarrow> length xs + 2 \<le> k \<Longrightarrow>
   forLoop (execute L (Suc (Suc m))) k v e t (PrintStatementNode l3 [IdentifierNode l4 v]) st
   = (Inr (VInt 0),
      st\<lparr>variables := (variables st)(v \<mapsto> VDouble z),
         out := out st @ map (\<lambda>y. ConsoleText (ostream_double L y @ [CHR 0x0A])) (x # xs)\<rparr>)"
proof (induction xs arbitrary: x st k)
  case Nil
  then obtain j where k: "k = Suc (Suc j)" by (cases k; cases "k - 1") auto
  have n: "\<not> dless t (Finite 0)" using Nil.prems(2) by (auto simp: dless_def)
  have z: "z = dadd x t" using Nil.prems(4) by simp
  let ?st = "st\<lparr>out := out st @ [ConsoleText (ostream_double L x @ [CHR 0x0A])],
                variables := (variables st)(v \<mapsto> VDouble z)\<rparr>"
  have a: "forLoop (execute L (Suc (Suc m))) (Suc (Suc j)) v e t
             (PrintStatementNode l3 [IdentifierNode l4 v]) st
         = forLoop (execute L (Suc (Suc m))) (Suc j) v e t
             (PrintStatementNode l3 [IdentifierNode l4 v]) ?st"
    using Nil.prems(1,2,3,5) n z
    by (simp add: execute_print_variable Variables_get_def Variables_set_upd Let_def
          del: execute.simps forLoop.simps add: forLoop.simps(2) [of _ "Suc j"])
  have b: "forLoop (execute L (Suc (Suc m))) (Suc j) v e t
             (PrintStatementNode l3 [IdentifierNode l4 v]) ?st = (Inr (VInt 0), ?st)"
    using Nil.prems(2,6) by (simp add: Variables_get_def)
  show ?case unfolding k a b by (cases st) (auto simp: fun_upd_def)
next
  case (Cons y ys)
  then obtain j where k: "k = Suc j" by (cases k) auto
  have n: "\<not> dless t (Finite 0)" using Cons.prems(2) by (auto simp: dless_def)
  have y: "y = dadd x t" using Cons.prems(4) by simp
  let ?st = "st\<lparr>out := out st @ [ConsoleText (ostream_double L x @ [CHR 0x0A])],
                variables := (variables st)(v \<mapsto> VDouble y)\<rparr>"
  have a: "forLoop (execute L (Suc (Suc m))) (Suc j) v e t
             (PrintStatementNode l3 [IdentifierNode l4 v]) st
         = forLoop (execute L (Suc (Suc m))) j v e t
             (PrintStatementNode l3 [IdentifierNode l4 v]) ?st"
    using Cons.prems(1,2,3,5) n y
    by (simp add: execute_print_variable Variables_get_def Variables_set_upd Let_def
          del: execute.simps)
  have b: "forLoop (execute L (Suc (Suc m))) j v e t (PrintStatementNode l3 [IdentifierNode l4 v]) ?st
      = (Inr (VInt 0),
         ?st\<lparr>variables := (variables ?st)(v \<mapsto> VDouble z),
            out := out ?st @ map (\<lambda>y. ConsoleText (ostream_double L y @ [CHR 0x0A])) (y # ys)\<rparr>)"
    using Cons.prems k by (intro Cons.IH) auto
  show ?case unfolding k a b by (cases st) (auto simp: fun_upd_def)
qed


text \<open>
  A loop from 0 to 1 in steps of the \<open>double\<close> nearest to \<open>0.1\<close> runs its body eleven
  times: the tenth sum is below 1.
\<close>

lemma for_tenth_steps_fuel:
  "dap st = None \<Longrightarrow> 10 \<le> m \<Longrightarrow>
   execute L (Suc (Suc (Suc m))) (ForStatementNode l0 ''I'' (LiteralNode l1 (VInt 0)) (LiteralNode l2 (VInt 1))
                   (LiteralNode l5 (VDouble (Finite (3602879701896397 / 36028797018963968))))
                   (PrintStatementNode l3 [IdentifierNode l4 ''I''])) st
   = (Inr (VInt 0),
      st\<lparr>variables := (variables st)(''I'' \<mapsto> VDouble (Finite (4953959590107545 / 4503599627370496))),
         out := out st @ map (\<lambda>x. ConsoleText (ostream_double L x @ [CHR 0x0A]))
                  [Finite 0,
                   Finite (3602879701896397 / 36028797018963968),
                   Finite (3602879701896397 / 18014398509481984),
                   Finite (1351079888211149 / 4503599627370496),
                   Finite (3602879701896397 / 9007199254740992),
                   Finite (1 / 2),
                   Finite (5404319552844595 / 9007199254740992),
                   Finite (3152519739159347 / 4503599627370496),
                   Finite (7205759403792793 / 9007199254740992),
                   Finite (2026619832316723 / 2251799813685248),
                   Finite (9007199254740991 / 9007199254740992)]\<rparr>)"
proof -
  assume d: "dap st = None" and m: "10 \<le> m"
  let ?t = "Finite (3602879701896397 / 36028797018963968)"
  let ?body = "PrintStatementNode l3 [IdentifierNode l4 ''I'']"
  let ?st = "st\<lparr>variables := (variables st)(''I'' \<mapsto> VDouble (Finite 0))\<rparr>"
  let ?xs = "[Finite (3602879701896397 / 36028797018963968),
             Finite (3602879701896397 / 18014398509481984),
             Finite (1351079888211149 / 4503599627370496),
             Finite (3602879701896397 / 9007199254740992),
             Finite (1 / 2),
             Finite (5404319552844595 / 9007199254740992),
             Finite (3152519739159347 / 4503599627370496),
             Finite (7205759403792793 / 9007199254740992),
             Finite (2026619832316723 / 2251799813685248),
             Finite (9007199254740991 / 9007199254740992)]"
  have e: "execute L (Suc (Suc (Suc m)))
             (ForStatementNode l0 ''I'' (LiteralNode l1 (VInt 0)) (LiteralNode l2 (VInt 1))
                (LiteralNode l5 (VDouble ?t)) ?body) st
           = forLoop (execute L (Suc (Suc m))) (Suc (Suc m)) ''I'' (Finite 1) ?t ?body ?st"
    by (simp add: ofInt_def Variables_set_upd del: forLoop.simps)
  have r: "forLoop (execute L (Suc (Suc m))) (Suc (Suc m)) ''I'' (Finite 1) ?t ?body ?st
        = (Inr (VInt 0),
           ?st\<lparr>variables := (variables ?st)(''I'' \<mapsto> VDouble (Finite (4953959590107545 / 4503599627370496))),
              out := out ?st @ map (\<lambda>y. ConsoleText (ostream_double L y @ [CHR 0x0A]))
                (Finite 0 # ?xs)\<rparr>)"
  proof (rule forLoop_print_run)
    show "successively (\<lambda>a b. b = dadd a ?t)
            (Finite 0 # ?xs @ [Finite (4953959590107545 / 4503599627370496)])"
      by (simp add: tenths_1 tenths_2 tenths_3 tenths_4 tenths_5 tenths_6 tenths_7
            tenths_8 tenths_9 tenths_10 tenths_11)
    show "length ?xs + 2 \<le> Suc (Suc m)" using m by simp
  qed (simp_all add: d dless_def)
  show ?thesis unfolding e r by simp
qed

lemma for_tenth_steps:
  "dap st = None \<Longrightarrow>
   execute L 20 (ForStatementNode l0 ''I'' (LiteralNode l1 (VInt 0)) (LiteralNode l2 (VInt 1))
                   (LiteralNode l5 (VDouble (Finite (3602879701896397 / 36028797018963968))))
                   (PrintStatementNode l3 [IdentifierNode l4 ''I''])) st
   = (Inr (VInt 0),
      st\<lparr>variables := (variables st)(''I'' \<mapsto> VDouble (Finite (4953959590107545 / 4503599627370496))),
         out := out st @ map (\<lambda>x. ConsoleText (ostream_double L x @ [CHR 0x0A]))
                  [Finite 0,
                   Finite (3602879701896397 / 36028797018963968),
                   Finite (3602879701896397 / 18014398509481984),
                   Finite (1351079888211149 / 4503599627370496),
                   Finite (3602879701896397 / 9007199254740992),
                   Finite (1 / 2),
                   Finite (5404319552844595 / 9007199254740992),
                   Finite (3152519739159347 / 4503599627370496),
                   Finite (7205759403792793 / 9007199254740992),
                   Finite (2026619832316723 / 2251799813685248),
                   Finite (9007199254740991 / 9007199254740992)]\<rparr>)"
  using for_tenth_steps_fuel [of st 17 L l0 l1 l2 l5 l3 l4] by simp

lemma tokenize_for_ascending: "tokenize ''FOR I = 1 TO 5 PRINT I'' =
   Inr [mkToken FOR ''FOR'' 1 1, mkToken IDENTIFIER ''I'' 1 5, mkToken ASSIGN ''='' 1 7,
        mkToken NUMBER ''1'' 1 9, mkToken TO ''TO'' 1 11, mkToken NUMBER ''5'' 1 14,
        mkToken PRINT ''PRINT'' 1 16, mkToken IDENTIFIER ''I'' 1 22, mkToken EOF_TOKEN [] 1 23]"
  by code_simp

lemma parse_for_ascending: "Parser_parseLine L 10
     [mkToken FOR ''FOR'' 1 1, mkToken IDENTIFIER ''I'' 1 5, mkToken ASSIGN ''='' 1 7,
      mkToken NUMBER ''1'' 1 9, mkToken TO ''TO'' 1 11, mkToken NUMBER ''5'' 1 14,
      mkToken PRINT ''PRINT'' 1 16, mkToken IDENTIFIER ''I'' 1 22, mkToken EOF_TOKEN [] 1 23]
   = Parsed (ForStatementNode 1 ''I'' (LiteralNode 0 (VInt 1)) (LiteralNode 0 (VInt 5)) Null
               (PrintStatementNode 1 [IdentifierNode 0 ''I''])) 8"
  by code_simp

lemma tokenize_for_descending: "tokenize ''FOR I = 5 TO 1 STEP -1 PRINT I'' =
   Inr [mkToken FOR ''FOR'' 1 1, mkToken IDENTIFIER ''I'' 1 5, mkToken ASSIGN ''='' 1 7,
        mkToken NUMBER ''5'' 1 9, mkToken TO ''TO'' 1 11, mkToken NUMBER ''1'' 1 14,
        mkToken STEP ''STEP'' 1 16, mkToken MINUS ''-'' 1 21, mkToken NUMBER ''1'' 1 22,
        mkToken PRINT ''PRINT'' 1 24, mkToken IDENTIFIER ''I'' 1 30, mkToken EOF_TOKEN [] 1 31]"
  by code_simp

lemma parse_for_descending: "Parser_parseLine L 10
     [mkToken FOR ''FOR'' 1 1, mkToken IDENTIFIER ''I'' 1 5, mkToken ASSIGN ''='' 1 7,
      mkToken NUMBER ''5'' 1 9, mkToken TO ''TO'' 1 11, mkToken NUMBER ''1'' 1 14,
      mkToken STEP ''STEP'' 1 16, mkToken MINUS ''-'' 1 21, mkToken NUMBER ''1'' 1 22,
      mkToken PRINT ''PRINT'' 1 24, mkToken IDENTIFIER ''I'' 1 30, mkToken EOF_TOKEN [] 1 31]
   = Parsed Null 9"
  by code_simp

lemma strip_for:
  "stripLineNumber ''FOR I = 1 TO 5 PRINT I'' = ''FOR I = 1 TO 5 PRINT I''"
  "stripLineNumber ''FOR I = 5 TO 1 STEP -1 PRINT I'' = ''FOR I = 5 TO 1 STEP -1 PRINT I''"
  by (simp_all add: stripLineNumber_def isspace_def isdigit_def)

lemma executeLine_for_ascending:
  assumes "\<not> g_dapServer w"
  shows "fst (executeLine L 10 ''FOR I = 1 TO 5 PRINT I'' w) = Inr True
       \<and> w_out (snd (executeLine L 10 ''FOR I = 1 TO 5 PRINT I'' w))
           = w_out w @ map (\<lambda>x. ConsoleText (ostream_double L (Finite x) @ [CHR 0x0A]))
                           [1, 2, 3, 4, 5]
       \<and> bi_variables (interpreter (snd (executeLine L 10 ''FOR I = 1 TO 5 PRINT I'' w))) ''I''
           = Some (VDouble (Finite 6))"
proof -
  have d: "dap (runtimeState w) = None" using assms by (simp add: runtimeState_def)
  have e: "executeLine L 10 ''FOR I = 1 TO 5 PRINT I'' w
      = (Inr True, storeRuntimeState w
          ((runtimeState w)\<lparr>variables := (variables (runtimeState w))(''I'' \<mapsto> VDouble (Finite 6)),
             out := out (runtimeState w)
                    @ map (\<lambda>x. ConsoleText (ostream_double L (Finite x) @ [CHR 0x0A]))
                          [1, 2, 3, 4, 5]\<rparr>))"
    by (simp add: executeLine_def strip_for tokenize_for_ascending parse_for_ascending
          for_ascending [OF d])
  show ?thesis unfolding e by (simp add: storeRuntimeState_def runtimeState_def)
qed

lemma executeLine_for_descending:
  "executeLine L 10 ''FOR I = 5 TO 1 STEP -1 PRINT I'' w
   = (Inr False, setLastError ''Failed to parse line: FOR I = 5 TO 1 STEP -1 PRINT I'' w)"
  by (simp add: executeLine_def strip_for tokenize_for_descending parse_for_descending)

text \<open>
  C1. A \<open>FOR\<close> statement evaluates its start, end and step expressions once each, in this
  order (a missing step is the integer \<open>1\<close>), converts the three results to \<open>double\<close>,
  assigns the start to the loop variable, and then, for a start and an end that are numbers
  and a finite step, behaves as the loop of the specification \<open>forSpec\<close>: the body runs
  while ``step > 0 implies value <= end and step < 0 implies value >= end'', and after each
  body the variable is the value before the body plus the step. The line
  \<open>FOR I = 1 TO 5 PRINT I\<close> writes five lines, for \<open>I\<close> = 1, 2, 3, 4, 5 in this order, and
  leaves \<open>I\<close> at 6. The line \<open>FOR I = 5 TO 1 STEP -1 PRINT I\<close> does not parse, since the
  parser knows no unary minus, and runs nothing; the node that stands for it, with the
  step \<open>-1\<close> as a unary expression, writes five lines for 5, 4, 3, 2, 1. The sums are those
  of \<open>double\<close>: a loop from 0 to 1 in steps of the \<open>double\<close> nearest to \<open>0.1\<close> runs its body
  eleven times, the last time at a value below 1.
\<close>

theorem for_statement:
  "(execute L n startValue st = (Inr start, st1) \<longrightarrow>
    execute L n endValue st1 = (Inr endV, st2) \<longrightarrow>
    (if stepValue \<noteq> Null then execute L n stepValue st2 else (Inr (VInt 1), st2))
      = (Inr step, st3) \<longrightarrow>
    \<not> isnan (numericOr (Finite 0) start) \<longrightarrow> \<not> isnan (numericOr (Finite 0) endV) \<longrightarrow>
    isfinite (numericOr (Finite 1) step) \<longrightarrow>
      execute L (Suc n) (ForStatementNode line v startValue endValue stepValue body) st
      = forSpec (execute L n) n v (numericOr (Finite 0) start) (numericOr (Finite 0) endV)
          (numericOr (Finite 1) step) body
          (st3\<lparr>variables := (variables st3)(v \<mapsto> VDouble (numericOr (Finite 0) start))\<rparr>))
   \<and> (\<not> g_dapServer w \<longrightarrow>
        fst (executeLine L 10 ''FOR I = 1 TO 5 PRINT I'' w) = Inr True
      \<and> w_out (snd (executeLine L 10 ''FOR I = 1 TO 5 PRINT I'' w))
          = w_out w @ map (\<lambda>x. ConsoleText (ostream_double L (Finite x) @ [CHR 0x0A]))
                          [1, 2, 3, 4, 5]
      \<and> bi_variables (interpreter (snd (executeLine L 10 ''FOR I = 1 TO 5 PRINT I'' w))) ''I''
          = Some (VDouble (Finite 6)))
   \<and> executeLine L 10 ''FOR I = 5 TO 1 STEP -1 PRINT I'' w
       = (Inr False, setLastError ''Failed to parse line: FOR I = 5 TO 1 STEP -1 PRINT I'' w)
   \<and> (dap s = None \<longrightarrow>
        execute L 10 (ForStatementNode l0 ''I'' (LiteralNode l1 (VInt 5)) (LiteralNode l2 (VInt 1))
                        (UnaryExpressionNode l5 MINUS (LiteralNode l6 (VInt 1)))
                        (PrintStatementNode l3 [IdentifierNode l4 ''I''])) s
        = (Inr (VInt 0), s\<lparr>variables := (variables s)(''I'' \<mapsto> VDouble (Finite 0)),
              out := out s @ map (\<lambda>x. ConsoleText (ostream_double L (Finite x) @ [CHR 0x0A]))
                                 [5, 4, 3, 2, 1]\<rparr>)
      \<and> execute L 20 (ForStatementNode l0 ''I'' (LiteralNode l1 (VInt 0)) (LiteralNode l2 (VInt 1))
                   (LiteralNode l5 (VDouble (Finite (3602879701896397 / 36028797018963968))))
                   (PrintStatementNode l3 [IdentifierNode l4 ''I''])) s
   = (Inr (VInt 0),
      s\<lparr>variables := (variables s)(''I'' \<mapsto> VDouble (Finite (4953959590107545 / 4503599627370496))),
         out := out s @ map (\<lambda>x. ConsoleText (ostream_double L x @ [CHR 0x0A]))
                  [Finite 0,
                   Finite (3602879701896397 / 36028797018963968),
                   Finite (3602879701896397 / 18014398509481984),
                   Finite (1351079888211149 / 4503599627370496),
                   Finite (3602879701896397 / 9007199254740992),
                   Finite (1 / 2),
                   Finite (5404319552844595 / 9007199254740992),
                   Finite (3152519739159347 / 4503599627370496),
                   Finite (7205759403792793 / 9007199254740992),
                   Finite (2026619832316723 / 2251799813685248),
                   Finite (9007199254740991 / 9007199254740992)]\<rparr>))"
proof (intro conjI impI)
  assume a: "execute L n startValue st = (Inr start, st1)"
    and b: "execute L n endValue st1 = (Inr endV, st2)"
    and c: "(if stepValue \<noteq> Null then execute L n stepValue st2 else (Inr (VInt 1), st2))
              = (Inr step, st3)"
    and n1: "\<not> isnan (numericOr (Finite 0) start)"
    and n2: "\<not> isnan (numericOr (Finite 0) endV)"
    and n3: "isfinite (numericOr (Finite 1) step)"
  have "forLoop (execute L n) n v (numericOr (Finite 0) endV) (numericOr (Finite 1) step) body
          (st3\<lparr>variables := Variables_set (variables st3) v (VDouble (numericOr (Finite 0) start))\<rparr>)
      = forSpec (execute L n) n v (numericOr (Finite 0) start) (numericOr (Finite 0) endV)
          (numericOr (Finite 1) step) body
          (st3\<lparr>variables := Variables_set (variables st3) v (VDouble (numericOr (Finite 0) start))\<rparr>)"
    using n1 n2 n3 by (intro forLoop_forSpec) (simp_all add: Variables_set_def)
  then show "execute L (Suc n) (ForStatementNode line v startValue endValue stepValue body) st
      = forSpec (execute L n) n v (numericOr (Finite 0) start) (numericOr (Finite 0) endV)
          (numericOr (Finite 1) step) body
          (st3\<lparr>variables := (variables st3)(v \<mapsto> VDouble (numericOr (Finite 0) start))\<rparr>)"
    using a b c by (simp add: Variables_set_def)
next
  assume g: "\<not> g_dapServer w"
  show "fst (executeLine L 10 ''FOR I = 1 TO 5 PRINT I'' w) = Inr True"
    using executeLine_for_ascending [OF g] by blast
  show "w_out (snd (executeLine L 10 ''FOR I = 1 TO 5 PRINT I'' w))
          = w_out w @ map (\<lambda>x. ConsoleText (ostream_double L (Finite x) @ [CHR 0x0A]))
                          [1, 2, 3, 4, 5]"
    using executeLine_for_ascending [OF g] by blast
  show "bi_variables (interpreter (snd (executeLine L 10 ''FOR I = 1 TO 5 PRINT I'' w))) ''I''
          = Some (VDouble (Finite 6))"
    using executeLine_for_ascending [OF g] by blast
next
  show "executeLine L 10 ''FOR I = 5 TO 1 STEP -1 PRINT I'' w
       = (Inr False, setLastError ''Failed to parse line: FOR I = 5 TO 1 STEP -1 PRINT I'' w)"
    by (rule executeLine_for_descending)
next
  assume "dap s = None"
  then show "execute L 10 (ForStatementNode l0 ''I'' (LiteralNode l1 (VInt 5)) (LiteralNode l2 (VInt 1))
                        (UnaryExpressionNode l5 MINUS (LiteralNode l6 (VInt 1)))
                        (PrintStatementNode l3 [IdentifierNode l4 ''I''])) s
        = (Inr (VInt 0), s\<lparr>variables := (variables s)(''I'' \<mapsto> VDouble (Finite 0)),
              out := out s @ map (\<lambda>x. ConsoleText (ostream_double L (Finite x) @ [CHR 0x0A]))
                                 [5, 4, 3, 2, 1]\<rparr>)"
    by (rule for_descending)
next
  assume "dap s = None"
  then show "execute L 20 (ForStatementNode l0 ''I'' (LiteralNode l1 (VInt 0)) (LiteralNode l2 (VInt 1))
                   (LiteralNode l5 (VDouble (Finite (3602879701896397 / 36028797018963968))))
                   (PrintStatementNode l3 [IdentifierNode l4 ''I''])) s
   = (Inr (VInt 0),
      s\<lparr>variables := (variables s)(''I'' \<mapsto> VDouble (Finite (4953959590107545 / 4503599627370496))),
         out := out s @ map (\<lambda>x. ConsoleText (ostream_double L x @ [CHR 0x0A]))
                  [Finite 0,
                   Finite (3602879701896397 / 36028797018963968),
                   Finite (3602879701896397 / 18014398509481984),
                   Finite (1351079888211149 / 4503599627370496),
                   Finite (3602879701896397 / 9007199254740992),
                   Finite (1 / 2),
                   Finite (5404319552844595 / 9007199254740992),
                   Finite (3152519739159347 / 4503599627370496),
                   Finite (7205759403792793 / 9007199254740992),
                   Finite (2026619832316723 / 2251799813685248),
                   Finite (9007199254740991 / 9007199254740992)]\<rparr>)"
    by (rule for_tenth_steps)
qed

theorem for_statement_witness:
  "execute sampleLib 9 (LiteralNode 0 (VInt 1)) st0 = (Inr (VInt 1), st0)
   \<and> execute sampleLib 9 (LiteralNode 0 (VInt 5)) st0 = (Inr (VInt 5), st0)
   \<and> \<not> isnan (numericOr (Finite 0) (VInt 1)) \<and> \<not> isnan (numericOr (Finite 0) (VInt 5))
   \<and> isfinite (numericOr (Finite 1) (VInt 1))
   \<and> execute sampleLib (Suc 9)
        (ForStatementNode 1 ''I'' (LiteralNode 0 (VInt 1)) (LiteralNode 0 (VInt 5)) Null
           (PrintStatementNode 1 [IdentifierNode 0 ''I''])) st0
     = forSpec (execute sampleLib 9) 9 ''I'' (Finite 1) (Finite 5) (Finite 1)
         (PrintStatementNode 1 [IdentifierNode 0 ''I''])
         (st0\<lparr>variables := (variables st0)(''I'' \<mapsto> VDouble (Finite 1))\<rparr>)
   \<and> \<not> g_dapServer (w0\<lparr>g_dapServer := False\<rparr>)
   \<and> w_out (snd (executeLine sampleLib 10 ''FOR I = 1 TO 5 PRINT I'' (w0\<lparr>g_dapServer := False\<rparr>)))
     = [ConsoleText [CHR ''1'', CHR 0x0A], ConsoleText [CHR ''2'', CHR 0x0A],
        ConsoleText [CHR ''3'', CHR 0x0A], ConsoleText [CHR ''4'', CHR 0x0A],
        ConsoleText [CHR ''5'', CHR 0x0A]]
   \<and> dap st0 = None
   \<and> execute sampleLib 10
        (ForStatementNode 1 ''I'' (LiteralNode 0 (VInt 5)) (LiteralNode 0 (VInt 1))
           (UnaryExpressionNode 0 MINUS (LiteralNode 0 (VInt 1)))
           (PrintStatementNode 1 [IdentifierNode 0 ''I''])) st0
     = (Inr (VInt 0), st0\<lparr>variables := (variables st0)(''I'' \<mapsto> VDouble (Finite 0)),
           out := [ConsoleText [CHR ''5'', CHR 0x0A], ConsoleText [CHR ''4'', CHR 0x0A],
                   ConsoleText [CHR ''3'', CHR 0x0A], ConsoleText [CHR ''2'', CHR 0x0A],
                   ConsoleText [CHR ''1'', CHR 0x0A]]\<rparr>)"
proof -
  let ?body = "PrintStatementNode 1 [IdentifierNode 0 ''I'']"
  let ?for = "ForStatementNode 1 ''I'' (LiteralNode 0 (VInt 1)) (LiteralNode 0 (VInt 5)) Null ?body"
  let ?w = "w0\<lparr>g_dapServer := False\<rparr>"
  have e1: "execute sampleLib 9 (LiteralNode 0 (VInt 1)) st0 = (Inr (VInt 1), st0)"
    by (simp add: eval_nat_numeral)
  have e2: "execute sampleLib 9 (LiteralNode 0 (VInt 5)) st0 = (Inr (VInt 5), st0)"
    by (simp add: eval_nat_numeral)
  have e3: "(if Null \<noteq> Null then execute sampleLib 9 Null st0 else (Inr (VInt 1), st0))
            = (Inr (VInt 1), st0)"
    by simp
  have f: "\<not> isnan (numericOr (Finite 0) (VInt 1))" "\<not> isnan (numericOr (Finite 0) (VInt 5))"
    "isfinite (numericOr (Finite 1) (VInt 1))"
    by (simp_all add: ofInt_def)
  have h: "dap st0 = None" by (simp add: st0_def)
  have g: "\<not> g_dapServer ?w" by simp
  note A = for_statement [where L = sampleLib and n = 9 and startValue = "LiteralNode 0 (VInt 1)"
      and st = st0 and start = "VInt 1" and ?st1.0 = st0 and endValue = "LiteralNode 0 (VInt 5)"
      and endV = "VInt 5" and ?st2.0 = st0 and stepValue = Null and step = "VInt 1" and ?st3.0 = st0
      and line = 1 and v = "''I''" and body = ?body and w = ?w
      and s = st0 and ?l0.0 = 1 and ?l1.0 = 0 and ?l2.0 = 0 and ?l3.0 = 1 and ?l4.0 = 0
      and ?l5.0 = 0 and ?l6.0 = 0]
  have w4: "execute sampleLib (Suc 9) ?for st0
     = forSpec (execute sampleLib 9) 9 ''I'' (numericOr (Finite 0) (VInt 1))
         (numericOr (Finite 0) (VInt 5)) (numericOr (Finite 1) (VInt 1)) ?body
         (st0\<lparr>variables := (variables st0)(''I'' \<mapsto> VDouble (numericOr (Finite 0) (VInt 1)))\<rparr>)"
    using A e1 e2 e3 f by blast
  have w5: "w_out (snd (executeLine sampleLib 10 ''FOR I = 1 TO 5 PRINT I'' ?w))
     = w_out ?w @ map (\<lambda>x. ConsoleText (ostream_double sampleLib (Finite x) @ [CHR 0x0A]))
                      [1, 2, 3, 4, 5]"
    using A g by blast
  have w6: "execute sampleLib 10
        (ForStatementNode 1 ''I'' (LiteralNode 0 (VInt 5)) (LiteralNode 0 (VInt 1))
           (UnaryExpressionNode 0 MINUS (LiteralNode 0 (VInt 1))) ?body) st0
     = (Inr (VInt 0), st0\<lparr>variables := (variables st0)(''I'' \<mapsto> VDouble (Finite 0)),
           out := out st0 @ map (\<lambda>x. ConsoleText (ostream_double sampleLib (Finite x) @ [CHR 0x0A]))
                                [5, 4, 3, 2, 1]\<rparr>)"
    using A h by blast
  have t: "ostream_double sampleLib (Finite 1) = ''1''" "ostream_double sampleLib (Finite 2) = ''2''"
    "ostream_double sampleLib (Finite 3) = ''3''" "ostream_double sampleLib (Finite 4) = ''4''"
    "ostream_double sampleLib (Finite 5) = ''5''"
    by (simp_all add: sampleLib_def showInt_def showNat.simps)
  have o: "out st0 = []" "w_out ?w = []" by (simp_all add: st0_def w0_def)
  have w4': "execute sampleLib (Suc 9) ?for st0
     = forSpec (execute sampleLib 9) 9 ''I'' (Finite 1) (Finite 5) (Finite 1) ?body
         (st0\<lparr>variables := (variables st0)(''I'' \<mapsto> VDouble (Finite 1))\<rparr>)"
    using w4 by (simp add: ofInt_def)
  have w5': "w_out (snd (executeLine sampleLib 10 ''FOR I = 1 TO 5 PRINT I'' ?w))
     = [ConsoleText [CHR ''1'', CHR 0x0A], ConsoleText [CHR ''2'', CHR 0x0A],
        ConsoleText [CHR ''3'', CHR 0x0A], ConsoleText [CHR ''4'', CHR 0x0A],
        ConsoleText [CHR ''5'', CHR 0x0A]]"
    unfolding w5 by (simp add: t o)
  have w6': "execute sampleLib 10
        (ForStatementNode 1 ''I'' (LiteralNode 0 (VInt 5)) (LiteralNode 0 (VInt 1))
           (UnaryExpressionNode 0 MINUS (LiteralNode 0 (VInt 1))) ?body) st0
     = (Inr (VInt 0), st0\<lparr>variables := (variables st0)(''I'' \<mapsto> VDouble (Finite 0)),
           out := [ConsoleText [CHR ''5'', CHR 0x0A], ConsoleText [CHR ''4'', CHR 0x0A],
                   ConsoleText [CHR ''3'', CHR 0x0A], ConsoleText [CHR ''2'', CHR 0x0A],
                   ConsoleText [CHR ''1'', CHR 0x0A]]\<rparr>)"
    unfolding w6 by (simp add: t o)
  show ?thesis using e1 e2 f h g w4' w5' w6' by blast
qed

section \<open>Properties of numeric literals\<close>

lemma digit_facts:
  "isdigit c \<Longrightarrow> digitValue c < 10 \<and> ''0123456789'' ! digitValue c = c
     \<and> \<not> isspace c \<and> c \<noteq> CHR 0x27 \<and> c \<noteq> CHR ''-'' \<and> c \<noteq> CHR ''+'' \<and> c \<noteq> CHR ''.''
     \<and> (c \<noteq> CHR ''0'' \<longrightarrow> 0 < digitValue c)"
  by (auto simp: isdigit_def digitValue_def isspace_def)

lemma not_digit_dot: "\<not> isdigit (CHR ''.'')"
  by (simp add: isdigit_def)

lemma scanNumber_digits:
  "\<forall>c\<in>set ds. isdigit c \<Longrightarrow>
   scanNumber (ds @ rest) b = (ds @ fst (scanNumber rest b), snd (scanNumber rest b))"
  by (induction ds) (auto split: prod.splits)

lemma scanNumber_all_digits: "\<forall>c\<in>set ds. isdigit c \<Longrightarrow> scanNumber ds b = (ds, [])"
  using scanNumber_digits [of ds "[]" b] by simp

lemma scanNumber_second_dot:
  assumes "\<forall>c\<in>set a. isdigit c" and "\<forall>c\<in>set b. isdigit c"
  shows "scanNumber (a @ [CHR ''.''] @ b @ [CHR ''.''] @ rest) False
         = (a @ [CHR ''.''] @ b, CHR ''.'' # rest)"
proof -
  have 1: "scanNumber (b @ CHR ''.'' # rest) True = (b, CHR ''.'' # rest)"
    using scanNumber_digits [OF assms(2), of "CHR ''.'' # rest" True]
    by (simp add: not_digit_dot)
  have 2: "scanNumber (CHR ''.'' # b @ CHR ''.'' # rest) False
             = (CHR ''.'' # b, CHR ''.'' # rest)"
    using 1 by (simp add: not_digit_dot)
  show ?thesis
    using scanNumber_digits [OF assms(1), of "CHR ''.'' # b @ CHR ''.'' # rest" False] 2
    by simp
qed

lemma tokenize_digits:
  assumes "ds \<noteq> []" and "\<forall>c\<in>set ds. isdigit c"
  shows "tokenize ds = Inr [mkToken NUMBER ds 1 1, mkToken EOF_TOKEN [] 1 (1 + int (length ds))]"
proof -
  obtain c cs where ds: "ds = c # cs" using assms(1) by (cases ds) auto
  have c: "isdigit c" using assms(2) ds by simp
  have s: "scanNumber (c # cs) False = (c # cs, [])"
    using scanNumber_all_digits [OF assms(2), of False] ds by simp
  show ?thesis
    unfolding tokenize_def ds
    using digit_facts [OF c] c s by (simp del: scanNumber.simps)
qed

lemma stoi_digits:
  assumes "ds \<noteq> []" and "\<forall>c\<in>set ds. isdigit c"
  shows "stoi ds = (if int (decimalValue ds) \<le> 2147483647 then Some (int (decimalValue ds))
                    else None)"
proof -
  obtain c cs where ds: "ds = c # cs" using assms(1) by (cases ds) auto
  have c: "isdigit c" using assms(2) ds by simp
  note d = digit_facts [OF c]
  have t: "takeWhile isdigit ds = ds"
    using assms(2) by (simp add: takeWhile_eq_all_conv)
  have w: "dropWhile isspace ds = ds" using d ds by simp
  have h: "hd ds \<noteq> CHR ''-''" "hd ds \<noteq> CHR ''+''" using d ds by simp_all
  have "stoi ds = (if int (decimalValue ds) < INT_MIN \<or> INT_MAX < int (decimalValue ds)
                   then None else Some (int (decimalValue ds)))"
    unfolding stoi_def Let_def w using h assms(1) by (simp only: t if_False simp_thms)
  then show ?thesis by (simp add: INT_MAX_def INT_MIN_def)
qed

lemma parse_number_token:
  "Parser_parseLine L (Suc (Suc (Suc n))) [mkToken NUMBER ds l c, mkToken EOF_TOKEN [] l' c']
   = Parsed (LiteralNode 0 (case stoi ds of Some i \<Rightarrow> VInt i | None \<Rightarrow> VInt 0)) 1"
  by (simp add: Parser_parseLine_def statementBody_def check_def isAtEnd_def current_def
        mkToken_def advance_def parseTerm_def parseFactor_def parsePrimary_def numberLiteral_def
        last_token_def Let_def)

lemma decimalValue_snoc: "decimalValue (xs @ [c]) = 10 * decimalValue xs + digitValue c"
  by (simp add: decimalValue_def)

lemma digitValue_zero: "digitValue (CHR ''0'') = 0"
  by (simp add: digitValue_def)

lemma decimalValue_Cons:
  "decimalValue (c # xs) = foldl (\<lambda>acc c. 10 * acc + digitValue c) (digitValue c) xs"
  unfolding decimalValue_def by simp

lemma decimalValue_zero_Cons: "decimalValue (CHR ''0'' # xs) = decimalValue xs"
proof -
  have "decimalValue (CHR ''0'' # xs)
        = foldl (\<lambda>acc c. 10 * acc + digitValue c) (digitValue (CHR ''0'')) xs"
    by (rule decimalValue_Cons)
  also have "\<dots> = foldl (\<lambda>acc c. 10 * acc + digitValue c) 0 xs"
    by (simp only: digitValue_zero)
  finally show ?thesis by (simp only: decimalValue_def)
qed

lemma decimalValue_pos:
  "xs \<noteq> [] \<Longrightarrow> \<forall>c\<in>set xs. isdigit c \<Longrightarrow> hd xs \<noteq> CHR ''0'' \<Longrightarrow> 0 < decimalValue xs"
proof (induction xs rule: rev_induct)
  case Nil
  then show ?case by simp
next
  case (snoc c ys)
  show ?case
  proof (cases "ys = []")
    case True
    then show ?thesis using snoc.prems digit_facts [of c] by (simp add: decimalValue_def)
  next
    case False
    then have "0 < decimalValue ys" using snoc by simp
    then show ?thesis by (simp add: decimalValue_snoc)
  qed
qed

lemma showNat_decimalValue:
  "xs \<noteq> [] \<Longrightarrow> \<forall>c\<in>set xs. isdigit c \<Longrightarrow> hd xs \<noteq> CHR ''0'' \<Longrightarrow> showNat (decimalValue xs) = xs"
proof (induction xs rule: rev_induct)
  case Nil
  then show ?case by simp
next
  case (snoc c ys)
  have c: "isdigit c" using snoc.prems by simp
  note d = digit_facts [OF c]
  show ?case
  proof (cases "ys = []")
    case True
    then show ?thesis using d by (simp add: decimalValue_def showNat.simps)
  next
    case False
    then have h: "hd ys \<noteq> CHR ''0''" using snoc.prems by simp
    have ih: "showNat (decimalValue ys) = ys" using snoc False h by simp
    have p: "0 < decimalValue ys" using decimalValue_pos [OF False _ h] snoc.prems by simp
    have "showNat (10 * decimalValue ys + digitValue c)
          = showNat ((10 * decimalValue ys + digitValue c) div 10)
            @ [''0123456789'' ! ((10 * decimalValue ys + digitValue c) mod 10)]"
      using p by (subst showNat.simps) simp
    also have "(10 * decimalValue ys + digitValue c) div 10 = decimalValue ys"
      using d by simp
    also have "(10 * decimalValue ys + digitValue c) mod 10 = digitValue c"
      using d by simp
    finally show ?thesis using ih d by (simp add: decimalValue_snoc)
  qed
qed

lemma decimalValue_dropZeros:
  "decimalValue (dropWhile (\<lambda>c. c = CHR ''0'') ds) = decimalValue ds"
  by (induction ds) (auto simp: decimalValue_zero_Cons)

lemma showNat_decimalValue_any:
  assumes "\<forall>c\<in>set ds. isdigit c"
  shows "showNat (decimalValue ds)
         = (let r = dropWhile (\<lambda>c. c = CHR ''0'') ds in if r = [] then ''0'' else r)"
proof (cases "dropWhile (\<lambda>c. c = CHR ''0'') ds = []")
  case True
  have "decimalValue ds = decimalValue []"
    using decimalValue_dropZeros [of ds] True by simp
  then have "decimalValue ds = 0" by (simp add: decimalValue_def)
  then show ?thesis using True by (simp add: showNat.simps)
next
  case False
  let ?r = "dropWhile (\<lambda>c. c = CHR ''0'') ds"
  have h: "hd ?r \<noteq> CHR ''0''" using False hd_dropWhile [of "\<lambda>c. c = CHR ''0''" ds] by simp
  have a: "\<forall>c\<in>set ?r. isdigit c" using assms set_dropWhileD by fast
  have "showNat (decimalValue ?r) = ?r" by (rule showNat_decimalValue [OF False a h])
  then show ?thesis using False by (auto simp: decimalValue_dropZeros Let_def)
qed

text \<open>
  C5, as the code has it. A numeric literal made of digits only is lexed as one \<open>NUMBER\<close>
  token; parsed on its own it is the integer literal whose value is the value of the digits
  when that value is at most 2147483647, and the integer 0 otherwise (\<^verbatim>\<open>std::stoi\<close> throws and
  \<open>parsePrimary\<close> catches); the text of the value of the digits is the literal without
  its leading zeros. In the lexer a second point ends the number and stays in the input.
\<close>

theorem integer_literal_roundtrip:
  assumes "ds \<noteq> []" and "\<forall>c\<in>set ds. isdigit c"
  shows "tokenize ds = Inr [mkToken NUMBER ds 1 1, mkToken EOF_TOKEN [] 1 (1 + int (length ds))]
       \<and> Parser_parseLine L (Suc (Suc (Suc n)))
           [mkToken NUMBER ds 1 1, mkToken EOF_TOKEN [] 1 (1 + int (length ds))]
         = Parsed (LiteralNode 0 (VInt (if int (decimalValue ds) \<le> 2147483647
                                          then int (decimalValue ds) else 0))) 1
       \<and> LiteralNode_toString L (VInt (int (decimalValue ds)))
         = (let r = dropWhile (\<lambda>c. c = CHR ''0'') ds in if r = [] then ''0'' else r)
       \<and> ((\<forall>c\<in>set a. isdigit c) \<and> (\<forall>c\<in>set b. isdigit c) \<longrightarrow>
            scanNumber (a @ [CHR ''.''] @ b @ [CHR ''.''] @ rest) False
            = (a @ [CHR ''.''] @ b, CHR ''.'' # rest))"
proof (intro conjI impI)
  show "tokenize ds = Inr [mkToken NUMBER ds 1 1, mkToken EOF_TOKEN [] 1 (1 + int (length ds))]"
    by (rule tokenize_digits [OF assms])
  show "Parser_parseLine L (Suc (Suc (Suc n)))
           [mkToken NUMBER ds 1 1, mkToken EOF_TOKEN [] 1 (1 + int (length ds))]
         = Parsed (LiteralNode 0 (VInt (if int (decimalValue ds) \<le> 2147483647
                                          then int (decimalValue ds) else 0))) 1"
    by (simp add: parse_number_token stoi_digits [OF assms])
  show "LiteralNode_toString L (VInt (int (decimalValue ds)))
         = (let r = dropWhile (\<lambda>c. c = CHR ''0'') ds in if r = [] then ''0'' else r)"
    using showNat_decimalValue_any [OF assms(2)]
    by (simp add: LiteralNode_toString_def showInt_def)
next
  assume "(\<forall>c\<in>set a. isdigit c) \<and> (\<forall>c\<in>set b. isdigit c)"
  then show "scanNumber (a @ [CHR ''.''] @ b @ [CHR ''.''] @ rest) False
            = (a @ [CHR ''.''] @ b, CHR ''.'' # rest)"
    using scanNumber_second_dot by blast
qed

lemma tokenize_two_dots:
  "tokenize ''1.2.3'' = Inr [mkToken NUMBER ''1.2'' 1 1, mkToken NUMBER ''.3'' 1 4,
                            mkToken EOF_TOKEN [] 1 6]"
  by code_simp

lemma tokenize_big: "tokenize ''99999999999'' =
   Inr [mkToken NUMBER ''99999999999'' 1 1, mkToken EOF_TOKEN [] 1 12]"
  by code_simp

lemma tokenize_decimal: "tokenize ''3.5'' =
   Inr [mkToken NUMBER ''3.5'' 1 1, mkToken EOF_TOKEN [] 1 4]"
  by code_simp

lemma stoi_big: "stoi ''99999999999'' = None"
proof -
  have "decimalValue ''99999999999'' = 99999999999"
    by (simp add: decimalValue_def digitValue_def)
  then show ?thesis
    by (simp add: stoi_def isspace_def isdigit_def INT_MAX_def INT_MIN_def)
qed

lemma stoi_decimal: "stoi ''3.5'' = Some 3"
  by (simp add: stoi_def isspace_def isdigit_def INT_MAX_def INT_MIN_def decimalValue_def
        digitValue_def)

theorem integer_literal_overflow_counterexample:
  "tokenize ''99999999999'' = Inr [mkToken NUMBER ''99999999999'' 1 1, mkToken EOF_TOKEN [] 1 12]
   \<and> Parser_parseLine sampleLib (Suc (Suc (Suc 0)))
         [mkToken NUMBER ''99999999999'' 1 1, mkToken EOF_TOKEN [] 1 12]
       = Parsed (LiteralNode 0 (VInt 0)) 1
   \<and> LiteralNode_toString sampleLib (VInt 0) = ''0''"
  using parse_number_token [of sampleLib 0 "''99999999999''" 1 1 1 12]
  by (simp add: tokenize_big stoi_big LiteralNode_toString_def showInt_def showNat.simps)

lemma decimal_literal_parsed_as_integer:
  "tokenize ''3.5'' = Inr [mkToken NUMBER ''3.5'' 1 1, mkToken EOF_TOKEN [] 1 4]
   \<and> Parser_parseLine L (Suc (Suc (Suc n))) [mkToken NUMBER ''3.5'' 1 1, mkToken EOF_TOKEN [] 1 4]
       = Parsed (LiteralNode 0 (VInt 3)) 1"
  by (simp add: tokenize_decimal parse_number_token stoi_decimal)

theorem integer_literal_roundtrip_witness:
  "''007'' \<noteq> [] \<and> list_all isdigit ''007''
   \<and> tokenize ''007'' = Inr [mkToken NUMBER ''007'' 1 1, mkToken EOF_TOKEN [] 1 4]
   \<and> Parser_parseLine sampleLib (Suc (Suc (Suc 0)))
         [mkToken NUMBER ''007'' 1 1, mkToken EOF_TOKEN [] 1 4]
       = Parsed (LiteralNode 0 (VInt 7)) 1
   \<and> LiteralNode_toString sampleLib (VInt 7) = ''7''
   \<and> scanNumber ''1.2.3'' False = (''1.2'', ''.3'')"
proof -
  have h: "''007'' \<noteq> []" "\<forall>c\<in>set ''007''. isdigit c"
    "(\<forall>c\<in>set ''1''. isdigit c) \<and> (\<forall>c\<in>set ''2''. isdigit c)"
    by (simp_all add: isdigit_def)
  have v: "decimalValue ''007'' = 7" by (simp add: decimalValue_def digitValue_def)
  note A = integer_literal_roundtrip [OF h(1) h(2), of sampleLib 0 "''1''" "''2''" "''3''"]
  have s: "showNat 7 = ''7''" by (simp add: showNat.simps)
  show ?thesis using A h by (simp add: v LiteralNode_toString_def showInt_def s)
qed

section \<open>Properties of expression evaluation\<close>

lemma tokenize_arith: "tokenize ''2+2*2'' =
   Inr [mkToken NUMBER ''2'' 1 1, mkToken PLUS ''+'' 1 2, mkToken NUMBER ''2'' 1 3,
        mkToken MULTIPLY ''*'' 1 4, mkToken NUMBER ''2'' 1 5, mkToken EOF_TOKEN [] 1 6]"
  by code_simp

lemma parse_arith: "Parser_parseLine L 10
     [mkToken NUMBER ''2'' 1 1, mkToken PLUS ''+'' 1 2, mkToken NUMBER ''2'' 1 3,
      mkToken MULTIPLY ''*'' 1 4, mkToken NUMBER ''2'' 1 5, mkToken EOF_TOKEN [] 1 6]
   = Parsed (BinaryExpressionNode 0 NUMBER (LiteralNode 0 (VInt 2))
       (BinaryExpressionNode 0 NUMBER (LiteralNode 0 (VInt 2)) (LiteralNode 0 (VInt 2)))) 5"
  by code_simp

lemma execute_arith: "execute L 10 (BinaryExpressionNode 0 NUMBER (LiteralNode 0 (VInt 2))
       (BinaryExpressionNode 0 NUMBER (LiteralNode 0 (VInt 2)) (LiteralNode 0 (VInt 2)))) st
   = (Inr (VInt 0), st)"
  by (simp add: eval_nat_numeral applyBinary_def)

lemma execute_arith_intended: "execute L 10 (BinaryExpressionNode 0 PLUS (LiteralNode 0 (VInt 2))
       (BinaryExpressionNode 0 MULTIPLY (LiteralNode 0 (VInt 2)) (LiteralNode 0 (VInt 2)))) st
   = (Inr (VDouble (Finite 6)), st)"
  by (simp add: eval_nat_numeral applyBinary_def add_def multiply_def ofInt_def small_sums)

lemma tokenize_len: "tokenize ''LEN(\"abc\")'' =
   Inr [mkToken IDENTIFIER ''LEN'' 1 1, mkToken LPAREN ''('' 1 4, mkToken STRING ''abc'' 1 5,
        mkToken RPAREN '')'' 1 10, mkToken EOF_TOKEN [] 1 11]"
  by code_simp

lemma parse_len: "Parser_parseLine L 10
     [mkToken IDENTIFIER ''LEN'' 1 1, mkToken LPAREN ''('' 1 4, mkToken STRING ''abc'' 1 5,
      mkToken RPAREN '')'' 1 10, mkToken EOF_TOKEN [] 1 11]
   = Parsed (FunctionCallNode 0 ''LEN'' [LiteralNode 0 (VString ''abc'')]) 4"
  by code_simp

lemma callBuiltin_len: "Functions_callBuiltin L ''LEN'' [VString ''abc''] = Inr (VInt 3)"
  by (simp add: Functions_callBuiltin_def Functions_len_def toInt32_def)

lemma execute_len: "execute L 10 (FunctionCallNode 0 ''LEN'' [LiteralNode 0 (VString ''abc'')]) st
   = (if funcs st ''LEN'' = None then (Inl (RuntimeError ''Function 'LEN' not defined''), st)
      else (Inr (VInt 0), st))"
  by (simp add: eval_nat_numeral Functions_call_def callBuiltin_len)

text \<open>
  C6. What \<open>evaluateExpression\<close> returns for the two expression texts: \<open>2+2*2\<close> evaluates
  to the integer 0, because the parser stores as operator the type of the token after the
  operator; \<open>LEN("abc")\<close> throws (or returns the integer 0 when a user function of that name
  is defined), because \<open>Functions::call\<close> discards a built-in result whose alternative is
  \<open>int\<close>. The built-in itself returns 3, and the tree with the operators \<open>+\<close> and \<open>*\<close>
  evaluates to the \<open>double\<close> 6.
\<close>

theorem evaluate_examples:
  "evaluateExpression L 10 ''2+2*2'' st = (Inr (VInt 0), st)
   \<and> evaluateExpression L 10 ''LEN(\"abc\")'' st
       = (if funcs st ''LEN'' = None then (Inl (RuntimeError ''Function 'LEN' not defined''), st)
          else (Inr (VInt 0), st))
   \<and> Functions_callBuiltin L ''LEN'' [VString ''abc''] = Inr (VInt 3)
   \<and> execute L 10 (BinaryExpressionNode 0 PLUS (LiteralNode 0 (VInt 2))
         (BinaryExpressionNode 0 MULTIPLY (LiteralNode 0 (VInt 2)) (LiteralNode 0 (VInt 2)))) st
       = (Inr (VDouble (Finite 6)), st)"
  by (simp add: evaluateExpression_def tokenize_arith parse_arith execute_arith
        tokenize_len parse_len execute_len callBuiltin_len execute_arith_intended)


section \<open>Properties of PRINT\<close>



lemma tokenize_print_semicolon: "tokenize ''PRINT \"Hello, \"; \"World!\"'' =
   Inr [mkToken PRINT ''PRINT'' 1 1, mkToken STRING ''Hello, '' 1 7, mkToken SEMICOLON '';'' 1 16,
        mkToken STRING ''World!'' 1 18, mkToken EOF_TOKEN [] 1 26]"
  by code_simp

lemma parse_print_semicolon: "Parser_parseLine L 10
     [mkToken PRINT ''PRINT'' 1 1, mkToken STRING ''Hello, '' 1 7, mkToken SEMICOLON '';'' 1 16,
      mkToken STRING ''World!'' 1 18, mkToken EOF_TOKEN [] 1 26]
   = Parsed (PrintStatementNode 1 [LiteralNode 0 (VString ''Hello, '')]) 2"
  by code_simp



lemma strip_print_semicolon:
  "stripLineNumber ''PRINT \"Hello, \"; \"World!\"'' = ''PRINT \"Hello, \"; \"World!\"''"
  by (simp add: stripLineNumber_def isspace_def isdigit_def)


lemma execute_print_one:
  "execute L 10 (PrintStatementNode 1 [LiteralNode 0 (VString ''Hello, '')]) st
   = (Inr (VInt 0), printOutput (''Hello, '' @ [CHR 0x0A]) st)"
  by (simp add: eval_nat_numeral)


lemma executeLine_print_semicolon:
  "fst (executeLine L 10 ''PRINT \"Hello, \"; \"World!\"'' w) = Inr True
   \<and> w_out (snd (executeLine L 10 ''PRINT \"Hello, \"; \"World!\"'' w))
       = out (printOutput (''Hello, '' @ [CHR 0x0A]) (runtimeState w))"
  by (simp add: executeLine_def strip_print_semicolon tokenize_print_semicolon
        parse_print_semicolon execute_print_one storeRuntimeState_def)






lemma print_semicolon_routed:
  "w_out (snd (executeLine sampleLib 10 ''PRINT \"Hello, \"; \"World!\"'' (w0\<lparr>g_dapServer := False\<rparr>)))
     = [ConsoleText (''Hello, '' @ [CHR 0x0A])]
   \<and> w_out (snd (executeLine sampleLib 10 ''PRINT \"Hello, \"; \"World!\"'' w0))
     = [StdoutFrame (JObject [(''type'', JString ''event''), (''event'', JString ''output''),
          (''body'', JObject [(''category'', JString (''Hello, '' @ [CHR 0x0A])),
                              (''output'', JString ''stdout'')])])]"
  by (simp add: executeLine_print_semicolon printOutput_def runtimeState_def w0_def
        sendOutputEvent_def sendEvent_def viewOf_def newServer_def)


section \<open>Properties of the debug server\<close>

lemma responses_append: "responses (a @ b) = responses a @ responses b"
  by (induction a rule: responses.induct) auto

lemma responses_sendEvent: "responses (sendEvent d event body outp) = responses outp"
  by (simp add: sendEvent_def Let_def responses_append jget_def)










lemma responses_store [simp]: "w_out (storeRuntimeState w st) = out st"
  by (simp add: storeRuntimeState_def)

lemma responses_runtimeState [simp]: "out (runtimeState w) = w_out w"
  by (simp add: runtimeState_def)

lemma responses_setLastError [simp]: "w_out (setLastError m w) = w_out w"
  by (simp add: setLastError_def)

lemma responses_setPaused [simp]: "w_out (setPaused b w) = w_out w"
  by (simp add: setPaused_def)

lemma responses_updServer [simp]: "w_out (updServer f w) = w_out w"
  by (simp add: updServer_def)

lemma responses_addSource [simp]: "w_out (addSource p c w) = w_out w"
  by (simp add: addSource_def)

lemma responses_DAPServer_sendEvent [simp]:
  "responses (w_out (DAPServer_sendEvent event body w)) = responses (w_out w)"
  by (simp add: DAPServer_sendEvent_def responses_sendEvent)
















lemma dapServer_sendEvent [simp]: "dapServer (DAPServer_sendEvent e b w) = dapServer w"
  "interpreter (DAPServer_sendEvent e b w) = interpreter w"
  by (simp_all add: DAPServer_sendEvent_def)

lemma launchSource_keeps:
  "dap_breakpoints (dapServer (snd (launchSource a w))) = dap_breakpoints (dapServer w)"
  "dap_currentLine (dapServer (snd (launchSource a w))) = dap_currentLine (dapServer w)"
  "interpreter (snd (launchSource a w)) = interpreter w"
  by (simp_all add: launchSource_def Let_def addSource_def updServer_def split: sum.splits)

lemma loadProgram_keeps:
  "bi_variables (snd (loadProgram L n src bi)) = bi_variables bi"
  by (simp add: loadProgram_def Let_def split: sum.splits error.splits presult.splits)

lemma handleLaunch_keeps:
  "dap_breakpoints (dapServer (snd (handleLaunch L n a w))) = dap_breakpoints (dapServer w)"
  "dap_currentLine (dapServer (snd (handleLaunch L n a w))) = 0"
  "bi_variables (interpreter (snd (handleLaunch L n a w))) = bi_variables (interpreter w)"
  using launchSource_keeps [of a "updServer (\<lambda>s. s\<lparr>dap_debugging := True, dap_currentLine := 0\<rparr>) w"]
    loadProgram_keeps [of L n]
  by (simp_all add: handleLaunch_def Let_def prod.case_eq_if sum.case_eq_if sendStoppedEvent_def
        sendProcessEvent_def sendInitializedEvent_def updServer_def)

text \<open>
  C9. The state after a \<open>disconnect\<close> request followed by a \<open>launch\<close> request, whatever
  their arguments and results: the line cursor of the server is 0, the variables of the
  interpreter are those that \<^verbatim>\<open>BasicInterpreter::cleanup\<close> has left, and the breakpoints of
  the server are those from before the disconnect, since neither handler touches
  \<^verbatim>\<open>breakpoints_\<close>.
\<close>

theorem disconnect_launch_state:
  "dap_currentLine (dapServer (snd (handleLaunch L n a2 (snd (handleDisconnect M a1 w))))) = 0
   \<and> bi_variables (interpreter (snd (handleLaunch L n a2 (snd (handleDisconnect M a1 w)))))
       = bi_variables (cleanup M (interpreter w))
   \<and> dap_breakpoints (dapServer (snd (handleLaunch L n a2 (snd (handleDisconnect M a1 w)))))
       = dap_breakpoints (dapServer w)
   \<and> hasBreakpoint (dapServer (snd (handleLaunch L n a2 (snd (handleDisconnect M a1 w))))) source line
       = hasBreakpoint (dapServer w) source line"
  by (simp add: handleLaunch_keeps hasBreakpoint_def handleDisconnect_def Let_def updServer_def)

lemma setBreakpoints_example:
  "fst (handleSetBreakpoints (breakpointsOf ''old.bas'' 3) w)
     = Inr (JObject [(''breakpoints'', JArray [JObject [(''id'', JInt (dap_nextBreakpointId (dapServer w) + 1)),
                        (''verified'', JBool True), (''line'', JInt 3)]])])
   \<and> hasBreakpoint (dapServer (snd (handleSetBreakpoints (breakpointsOf ''old.bas'' 3) w))) ''old.bas'' 3"
  by (simp add: handleSetBreakpoints_def breakpointsOf_def jget_def jstringAt_def jstring_def
        jitems_def jint_def Let_def updServer_def setBreakpoint_def hasBreakpoint_def)

lemma tokenize_print_1: "tokenize ''PRINT 1'' =
   Inr [mkToken PRINT ''PRINT'' 1 1, mkToken NUMBER ''1'' 1 7, mkToken EOF_TOKEN [] 1 8]"
  by code_simp

lemma parse_print_1: "Parser_parse L 10
     [mkToken PRINT ''PRINT'' 1 1, mkToken NUMBER ''1'' 1 7, mkToken EOF_TOKEN [] 1 8]
   = Parsed (ProgramNode 0 [PrintStatementNode 1 [LiteralNode 0 (VInt 1)]]) 2"
  by code_simp

lemma launch_example:
  "fst (handleLaunch L 10 (launchOf path ''PRINT 1'') w) = Inr (JObject [])
   \<and> dap_currentSource (dapServer (snd (handleLaunch L 10 (launchOf path ''PRINT 1'') w))) = path"
  by (simp add: handleLaunch_def launchSource_def launchOf_def jcontains_def jget_def
        is_string_def is_object_def jstringAt_def jstring_def Let_def addSource_def updServer_def
        getSource_def loadProgram_def tokenize_print_1 parse_print_1 sendStoppedEvent_def
        sendProcessEvent_def sendInitializedEvent_def)

lemma hasBreakpoint_shouldPauseAt: "hasBreakpoint s source line \<Longrightarrow> shouldPauseAt s line"
  by (auto simp: hasBreakpoint_def shouldPauseAt_def split: option.splits)

theorem disconnect_launch_state_witness:
  "hasBreakpoint
     (dapServer
       (snd (handleLaunch sampleLib 10 (launchOf ''new.bas'' ''PRINT 1'')
         (snd (handleDisconnect sampleAbsent JNull
           (snd (handleSetBreakpoints (breakpointsOf ''old.bas'' 3)
             (snd (handleLaunch sampleLib 10 (launchOf ''old.bas'' ''PRINT 1'') w0)))))))))
     ''old.bas'' 3
   \<and> shouldPauseAt
     (dapServer
       (snd (handleLaunch sampleLib 10 (launchOf ''new.bas'' ''PRINT 1'')
         (snd (handleDisconnect sampleAbsent JNull
           (snd (handleSetBreakpoints (breakpointsOf ''old.bas'' 3)
             (snd (handleLaunch sampleLib 10 (launchOf ''old.bas'' ''PRINT 1'') w0)))))))))
     3
   \<and> dap_currentSource
     (dapServer
       (snd (handleLaunch sampleLib 10 (launchOf ''new.bas'' ''PRINT 1'')
         (snd (handleDisconnect sampleAbsent JNull
           (snd (handleSetBreakpoints (breakpointsOf ''old.bas'' 3)
             (snd (handleLaunch sampleLib 10 (launchOf ''old.bas'' ''PRINT 1'') w0)))))))))
     = ''new.bas''
   \<and> fst (handleLaunch sampleLib 10 (launchOf ''new.bas'' ''PRINT 1'')
         (snd (handleDisconnect sampleAbsent JNull
           (snd (handleSetBreakpoints (breakpointsOf ''old.bas'' 3)
             (snd (handleLaunch sampleLib 10 (launchOf ''old.bas'' ''PRINT 1'') w0)))))))
     = Inr (JObject [])"
proof -
  let ?w1 = "snd (handleSetBreakpoints (breakpointsOf ''old.bas'' 3)
               (snd (handleLaunch sampleLib 10 (launchOf ''old.bas'' ''PRINT 1'') w0)))"
  let ?w2 = "snd (handleDisconnect sampleAbsent JNull ?w1)"
  let ?w3 = "snd (handleLaunch sampleLib 10 (launchOf ''new.bas'' ''PRINT 1'') ?w2)"
  note A = disconnect_launch_state [of sampleLib 10 "launchOf ''new.bas'' ''PRINT 1''"
      sampleAbsent JNull ?w1 "''old.bas''" 3]
  have b: "hasBreakpoint (dapServer ?w1) ''old.bas'' 3"
    using setBreakpoints_example
      [of "snd (handleLaunch sampleLib 10 (launchOf ''old.bas'' ''PRINT 1'') w0)"]
    by (rule conjunct2)
  have h: "hasBreakpoint (dapServer ?w3) ''old.bas'' 3"
    using A b by simp
  have p: "shouldPauseAt (dapServer ?w3) 3"
    using h by (rule hasBreakpoint_shouldPauseAt)
  have l: "fst (handleLaunch sampleLib 10 (launchOf ''new.bas'' ''PRINT 1'') ?w2)
             = Inr (JObject [])
           \<and> dap_currentSource (dapServer ?w3) = ''new.bas''"
    by (rule launch_example)
  show ?thesis using h p l by blast
qed

end
